theory Spec2Isabelle
  imports Complex_Main "HOL-Library.AList"
begin

section \<open>Tensors\<close>

text \<open>
  The notebook \<^verbatim>\<open>Style_Transfer.ipynb\<close> computes on PyTorch tensors. A tensor is modelled
  as its shape together with its entries in row-major order, which is how a contiguous
  tensor is laid out and what \<^verbatim>\<open>view\<close> reinterprets; strides are not modelled. A
  tensor is well formed when it has as many entries as its shape says. Entries are real numbers: rounding
  of the 32-bit floats is not modelled. A scalar result that a float computation would
  make \<^verbatim>\<open>nan\<close> or \<^verbatim>\<open>inf\<close> by a division by zero is the value \<open>None\<close> of type
  \<open>scalar\<close>, so that no statement below rests on the value of \<open>x / 0\<close>.
\<close>

datatype error =
  ValueError | KeyError | RuntimeError | IndexError | ZeroDivisionError | UnboundLocalError

record tensor =
  shape :: "nat list"
  entries :: "real list"

type_synonym scalar = "real option"

definition numel :: "tensor \<Rightarrow> nat" where
  "numel t = prod_list (shape t)"

definition well_formed :: "tensor \<Rightarrow> bool" where
  "well_formed t = (length (entries t) = numel t)"

definition bindE :: "'e + 'a \<Rightarrow> ('a \<Rightarrow> 'e + 'b) \<Rightarrow> 'e + 'b" where
  "bindE r f = (case r of Inl e \<Rightarrow> Inl e | Inr x \<Rightarrow> f x)"

definition tabulate2 :: "nat \<Rightarrow> nat \<Rightarrow> (nat \<Rightarrow> nat \<Rightarrow> 'a) \<Rightarrow> 'a list" where
  "tabulate2 m n f = concat (map (\<lambda>i. map (f i) [0..<n]) [0..<m])"

text \<open>\<^verbatim>\<open>tensor.view(*shp)\<close>: the same entries under another shape of the same size.\<close>

definition view :: "tensor \<Rightarrow> nat list \<Rightarrow> error + tensor" where
  "view t shp = (if prod_list shp = numel t then Inr (t\<lparr>shape := shp\<rparr>) else Inl RuntimeError)"

text \<open>\<^verbatim>\<open>tensor.t()\<close>: the transpose of a matrix; tensors of fewer dimensions are returned
  as they are and tensors of more dimensions are refused.\<close>

definition tensor_t :: "tensor \<Rightarrow> error + tensor" where
  "tensor_t a = (case shape a of
      [n, m] \<Rightarrow> Inr \<lparr>shape = [m, n], entries = tabulate2 m n (\<lambda>j i. entries a ! (i * m + j))\<rparr>
    | [] \<Rightarrow> Inr a
    | [n] \<Rightarrow> Inr a
    | _ \<Rightarrow> Inl RuntimeError)"

definition inner :: "real list \<Rightarrow> real list \<Rightarrow> real" where
  "inner xs ys = sum_list (map2 (*) xs ys)"

definition row :: "tensor \<Rightarrow> nat \<Rightarrow> real list" where
  "row a i = (case shape a of [n, m] \<Rightarrow> take m (drop (i * m) (entries a)) | _ \<Rightarrow> [])"

definition col :: "tensor \<Rightarrow> nat \<Rightarrow> real list" where
  "col b j = (case shape b of [m, p] \<Rightarrow> map (\<lambda>k. entries b ! (k * p + j)) [0..<m] | _ \<Rightarrow> [])"

text \<open>\<^verbatim>\<open>torch.mm(a, b)\<close>: the product of two matrices whose inner dimensions agree.\<close>

definition mm :: "tensor \<Rightarrow> tensor \<Rightarrow> error + tensor" where
  "mm a b = (case (shape a, shape b) of
      ([n, m], [m', p]) \<Rightarrow>
        if m = m'
        then Inr \<lparr>shape = [n, p], entries = tabulate2 n p (\<lambda>i j. inner (row a i) (col b j))\<rparr>
        else Inl RuntimeError
    | _ \<Rightarrow> Inl RuntimeError)"

section \<open>The Gram matrix\<close>

text \<open>
  \<^verbatim>\<open>
  def gram_matrix(tensor):
      batch_size, d, h, w = tensor.size()
      tensor = tensor.view(d, h * w)
      gram = torch.mm(tensor, tensor.t())
      return gram
  \<close>
  Unpacking a size that has not four components raises \<^verbatim>\<open>ValueError\<close>; the view raises
  \<^verbatim>\<open>RuntimeError\<close> when the batch holds more than one image.
\<close>

definition gram_matrix :: "tensor \<Rightarrow> error + tensor" where
  "gram_matrix tensor = (case shape tensor of
      [batch_size, d, h, w] \<Rightarrow>
        bindE (view tensor [d, h * w]) (\<lambda>tensor'.
        bindE (tensor_t tensor') (\<lambda>tt. mm tensor' tt))
    | _ \<Rightarrow> Inl ValueError)"

text \<open>Reading aids for the statements: the flattened feature map of one channel of a
  one-image batch, and the entry \<open>(i, j)\<close> of a matrix.\<close>

definition channel :: "tensor \<Rightarrow> nat \<Rightarrow> real list" where
  "channel t c = (case shape t of
      [batch_size, d, h, w] \<Rightarrow> take (h * w) (drop (c * (h * w)) (entries t))
    | _ \<Rightarrow> [])"

definition at2 :: "tensor \<Rightarrow> nat \<Rightarrow> nat \<Rightarrow> real" where
  "at2 g i j = entries g ! (i * (shape g ! 1) + j)"

section \<open>Element-wise arithmetic and reductions\<close>

text \<open>
  Binary tensor operators broadcast their operands: the shapes are aligned at the last
  dimension, a dimension of size one is stretched, and any other mismatch raises
  \<^verbatim>\<open>RuntimeError\<close>. Operands of equal shape are combined entry by entry.
\<close>

fun broadcast_rev :: "nat list \<Rightarrow> nat list \<Rightarrow> error + nat list" where
  "broadcast_rev [] ys = Inr ys"
| "broadcast_rev (x # xs) [] = Inr (x # xs)"
| "broadcast_rev (x # xs) (y # ys) =
     (if x = y \<or> y = 1 then bindE (broadcast_rev xs ys) (\<lambda>r. Inr (x # r))
      else if x = 1 then bindE (broadcast_rev xs ys) (\<lambda>r. Inr (y # r))
      else Inl RuntimeError)"

definition broadcast_shapes :: "nat list \<Rightarrow> nat list \<Rightarrow> error + nat list" where
  "broadcast_shapes a b = bindE (broadcast_rev (rev a) (rev b)) (\<lambda>r. Inr (rev r))"

fun unravel :: "nat list \<Rightarrow> nat \<Rightarrow> nat list" where
  "unravel [] k = []"
| "unravel (s # shp) k = (k div prod_list shp) mod s # unravel shp k"

fun ravel :: "nat list \<Rightarrow> nat list \<Rightarrow> nat" where
  "ravel (s # shp) (i # idx) = i * prod_list shp + ravel shp idx"
| "ravel _ _ = 0"

definition expand :: "tensor \<Rightarrow> nat list \<Rightarrow> tensor" where
  "expand t rs =
     \<lparr>shape = rs,
      entries = map (\<lambda>k. entries t ! ravel (shape t)
                  (map2 (\<lambda>s i. if s = 1 then 0 else i) (shape t)
                     (drop (length rs - length (shape t)) (unravel rs k))))
                [0..<prod_list rs]\<rparr>"

definition tsub :: "tensor \<Rightarrow> tensor \<Rightarrow> error + tensor" where
  "tsub a b =
     (if shape a = shape b
      then Inr \<lparr>shape = shape a, entries = map2 (-) (entries a) (entries b)\<rparr>
      else bindE (broadcast_shapes (shape a) (shape b)) (\<lambda>rs.
        Inr \<lparr>shape = rs, entries = map2 (-) (entries (expand a rs)) (entries (expand b rs))\<rparr>))"

definition pow2 :: "tensor \<Rightarrow> tensor" where
  "pow2 x = x\<lparr>entries := map (\<lambda>v. v ^ 2) (entries x)\<rparr>"

definition torch_abs :: "tensor \<Rightarrow> tensor" where
  "torch_abs x = x\<lparr>entries := map abs (entries x)\<rparr>"

definition tsum :: "tensor \<Rightarrow> real" where
  "tsum x = sum_list (entries x)"

text \<open>\<^verbatim>\<open>torch.mean\<close> of a tensor without entries is \<^verbatim>\<open>nan\<close>.\<close>

definition mean :: "tensor \<Rightarrow> scalar" where
  "mean x = (if entries x = [] then None
             else Some (sum_list (entries x) / real (length (entries x))))"

definition smul :: "real \<Rightarrow> scalar \<Rightarrow> scalar" where
  "smul c x = map_option (\<lambda>v. c * v) x"

definition sadd :: "scalar \<Rightarrow> scalar \<Rightarrow> scalar" where
  "sadd x y = (case (x, y) of (Some u, Some v) \<Rightarrow> Some (u + v) | _ \<Rightarrow> None)"

definition sdiv :: "scalar \<Rightarrow> int \<Rightarrow> scalar" where
  "sdiv x n = (if n = 0 then None else map_option (\<lambda>v. v / real_of_int n) x)"

text \<open>The mean squared difference \<^verbatim>\<open>torch.mean((a - b) ** 2)\<close>.\<close>

definition mse :: "tensor \<Rightarrow> tensor \<Rightarrow> error + scalar" where
  "mse a b = bindE (tsub a b) (\<lambda>d. Inr (mean (pow2 d)))"

section \<open>Slices\<close>

text \<open>
  A slice \<^verbatim>\<open>lo:hi\<close> along one axis, all other axes whole. An omitted bound is
  \<open>None\<close>; a bound is clamped into the axis and a negative bound counts from its end,
  as in Python.
\<close>

definition py_bound :: "nat \<Rightarrow> int \<Rightarrow> nat" where
  "py_bound n i = (if i < 0 then nat (max 0 (int n + i)) else min n (nat i))"

definition slice :: "tensor \<Rightarrow> nat \<Rightarrow> int option \<Rightarrow> int option \<Rightarrow> tensor" where
  "slice t k start stop =
     (let n = shape t ! k;
          lo = (case start of None \<Rightarrow> 0 | Some i \<Rightarrow> py_bound n i);
          hi = (case stop of None \<Rightarrow> n | Some i \<Rightarrow> py_bound n i);
          len = hi - lo;
          outer = prod_list (take k (shape t));
          inner = prod_list (drop (Suc k) (shape t))
      in \<lparr>shape = (shape t)[k := len],
          entries = concat (map (\<lambda>out. take (len * inner)
                       (drop ((out * n + lo) * inner) (entries t))) [0..<outer])\<rparr>)"

definition size_at :: "tensor \<Rightarrow> nat \<Rightarrow> error + nat" where
  "size_at t k = (if k < length (shape t) then Inr (shape t ! k) else Inl IndexError)"

section \<open>The three losses\<close>

type_synonym features = "(string \<times> tensor) list"

definition lookup :: "(string \<times> 'v) list \<Rightarrow> string \<Rightarrow> error + 'v" where
  "lookup d k = (case map_of d k of None \<Rightarrow> Inl KeyError | Some v \<Rightarrow> Inr v)"

text \<open>
  \<^verbatim>\<open>
  content_loss = 0
  for layer in content_layers_weights:
      content_loss += content_layers_weights[layer] * torch.mean((target_features[layer] - content_features[layer]) ** 2)
  \<close>
\<close>

fun content_loss_loop ::
  "(string \<times> real) list \<Rightarrow> features \<Rightarrow> features \<Rightarrow> scalar \<Rightarrow> error + scalar" where
  "content_loss_loop [] target_features content_features content_loss = Inr content_loss"
| "content_loss_loop ((layer, wt) # rest) target_features content_features content_loss =
     bindE (lookup target_features layer) (\<lambda>tf.
     bindE (lookup content_features layer) (\<lambda>cf.
     bindE (mse tf cf) (\<lambda>m.
       content_loss_loop rest target_features content_features (sadd content_loss (smul wt m)))))"

definition content_loss :: "(string \<times> real) list \<Rightarrow> features \<Rightarrow> features \<Rightarrow> error + scalar" where
  "content_loss clw target_features content_features =
     content_loss_loop clw target_features content_features (Some 0)"

text \<open>
  \<^verbatim>\<open>
  content_layers_weights = {}
  content_layers_weights['conv3_2'] = content_weight_blend
  content_layers_weights['conv4_2'] = 1 - content_weight_blend
  \<close>
\<close>

definition content_layers_weights :: "real \<Rightarrow> (string \<times> real) list" where
  "content_layers_weights content_weight_blend =
     AList.update ''conv4_2'' (1 - content_weight_blend)
       (AList.update ''conv3_2'' content_weight_blend [])"

text \<open>
  \<^verbatim>\<open>
  style_layers = ['conv1_1','conv2_1', 'conv3_1', 'conv4_1', 'conv5_1']
  layer_weight = 1.0
  style_layers_weights = {}
  for style_layer in style_layers:
      style_layers_weights[style_layer] = layer_weight
      layer_weight *= style_layer_weight_exp
  \<close>
\<close>

definition style_layers :: "string list" where
  "style_layers = [''conv1_1'', ''conv2_1'', ''conv3_1'', ''conv4_1'', ''conv5_1'']"

fun style_weights_loop ::
  "string list \<Rightarrow> real \<Rightarrow> real \<Rightarrow> (string \<times> real) list \<Rightarrow> (string \<times> real) list" where
  "style_weights_loop [] layer_weight style_layer_weight_exp acc = acc"
| "style_weights_loop (style_layer # rest) layer_weight style_layer_weight_exp acc =
     style_weights_loop rest (layer_weight * style_layer_weight_exp) style_layer_weight_exp
       (AList.update style_layer layer_weight acc)"

definition style_layers_weights :: "real \<Rightarrow> (string \<times> real) list" where
  "style_layers_weights style_layer_weight_exp =
     style_weights_loop style_layers 1 style_layer_weight_exp []"

text \<open>
  \<^verbatim>\<open>
  style_loss = 0
  for layer in style_layers_weights:
      target_features_layer = target_features[layer]
      batch_size, d, h, w = target_features_layer.shape
      target_gram = gram_matrix(target_features_layer)
      style_gram = style_gms[layer]
      layer_style_loss = style_layers_weights[layer] * torch.mean((target_gram - style_gram) ** 2)
      style_loss +=  layer_style_loss / (d * h * w)
  \<close>
\<close>

fun style_loss_loop ::
  "(string \<times> real) list \<Rightarrow> features \<Rightarrow> features \<Rightarrow> scalar \<Rightarrow> error + scalar" where
  "style_loss_loop [] target_features style_gms style_loss = Inr style_loss"
| "style_loss_loop ((layer, wt) # rest) target_features style_gms style_loss =
     bindE (lookup target_features layer) (\<lambda>target_features_layer.
       case shape target_features_layer of
         [batch_size, d, h, w] \<Rightarrow>
           bindE (gram_matrix target_features_layer) (\<lambda>target_gram.
           bindE (lookup style_gms layer) (\<lambda>style_gram.
           bindE (mse target_gram style_gram) (\<lambda>m.
             style_loss_loop rest target_features style_gms
               (sadd style_loss (sdiv (smul wt m) (int (d * h * w)))))))
       | _ \<Rightarrow> Inl ValueError)"

definition style_loss :: "(string \<times> real) list \<Rightarrow> features \<Rightarrow> features \<Rightarrow> error + scalar" where
  "style_loss slw target_features style_gms =
     style_loss_loop slw target_features style_gms (Some 0)"

text \<open>
  \<^verbatim>\<open>
  batch_size = target.size()[0]
  h_x = target.size()[2]
  w_x = target.size()[3]
  count_h =  (target.size()[2]-1) * target.size()[3]
  count_w = target.size()[2] * (target.size()[3] - 1)
  h_tv = torch.abs(target[:,:,1:,:]-target[:,:,:h_x-1,:]).sum()
  w_tv = torch.abs(target[:,:,:,1:]-target[:,:,:,:w_x-1]).sum()
  tv_loss =  2 * (h_tv/count_h + w_tv/count_w) / batch_size
  \<close>
\<close>

definition tv_loss :: "tensor \<Rightarrow> error + scalar" where
  "tv_loss target =
     bindE (size_at target 0) (\<lambda>batch_size.
     bindE (size_at target 2) (\<lambda>h_x.
     bindE (size_at target 3) (\<lambda>w_x.
       let count_h = (int h_x - 1) * int w_x;
           count_w = int h_x * (int w_x - 1) in
       bindE (tsub (slice target 2 (Some 1) None)
                   (slice target 2 None (Some (int h_x - 1)))) (\<lambda>dh.
       bindE (tsub (slice target 3 (Some 1) None)
                   (slice target 3 None (Some (int w_x - 1)))) (\<lambda>dw.
         let h_tv = tsum (torch_abs dh);
             w_tv = tsum (torch_abs dw) in
         Inr (sdiv (smul 2 (sadd (sdiv (Some h_tv) count_h) (sdiv (Some w_tv) count_w)))
                   (int batch_size)))))))"

text \<open>
  \<^verbatim>\<open>
  total_loss = content_weight * content_loss + style_weight * style_loss + tv_weight * tv_loss
  \<close>
\<close>

definition total_loss ::
  "real \<Rightarrow> real \<Rightarrow> real \<Rightarrow> scalar \<Rightarrow> scalar \<Rightarrow> scalar \<Rightarrow> scalar" where
  "total_loss content_weight style_weight tv_weight c s t =
     sadd (sadd (smul content_weight c) (smul style_weight s)) (smul tv_weight t)"

text \<open>The three losses of one iteration, from the target and its features.\<close>

definition loss_terms ::
  "(string \<times> real) list \<Rightarrow> (string \<times> real) list \<Rightarrow> features \<Rightarrow> features \<Rightarrow>
   features \<Rightarrow> tensor \<Rightarrow> error + (scalar \<times> scalar \<times> scalar)" where
  "loss_terms clw slw content_features style_gms target_features target =
     bindE (content_loss clw target_features content_features) (\<lambda>c.
     bindE (style_loss slw target_features style_gms) (\<lambda>s.
     bindE (tv_loss target) (\<lambda>t. Inr (c, s, t))))"

text \<open>Reading aids for the statement about the total variation: the pixel at batch
  index \<open>n\<close>, channel \<open>c\<close>, row \<open>y\<close> and column \<open>x\<close> of a four-dimensional
  tensor, and the sums of the absolute differences of vertically and of horizontally
  adjacent pixels.\<close>

definition px :: "tensor \<Rightarrow> nat \<Rightarrow> nat \<Rightarrow> nat \<Rightarrow> nat \<Rightarrow> real" where
  "px t n c y x =
     (case shape t of
        [b, ch, h, w] \<Rightarrow> entries t ! (((n * ch + c) * h + y) * w + x)
      | _ \<Rightarrow> 0)"

definition h_variation :: "tensor \<Rightarrow> real" where
  "h_variation t =
     (case shape t of
        [b, c, h, w] \<Rightarrow> (\<Sum>n<b. \<Sum>ch<c. \<Sum>y<h - 1. \<Sum>x<w. \<bar>px t n ch (Suc y) x - px t n ch y x\<bar>)
      | _ \<Rightarrow> 0)"

definition w_variation :: "tensor \<Rightarrow> real" where
  "w_variation t =
     (case shape t of
        [b, c, h, w] \<Rightarrow> (\<Sum>n<b. \<Sum>ch<c. \<Sum>y<h. \<Sum>x<w - 1. \<bar>px t n ch y (Suc x) - px t n ch y x\<bar>)
      | _ \<Rightarrow> 0)"

text \<open>Reading aid for the statements: the mean of the squared differences of the entries
  of two tensors.\<close>

definition mean_sq :: "tensor \<Rightarrow> tensor \<Rightarrow> real" where
  "mean_sq a b =
     sum_list (map2 (\<lambda>u v. (u - v) ^ 2) (entries a) (entries b)) / real (length (entries a))"

section \<open>Parameters in memory, the network and feature extraction\<close>

text \<open>
  Tensors that autograd and the optimizer act on live in a store: an address holds the
  tensor's data, its \<^verbatim>\<open>requires_grad\<close> flag and its \<^verbatim>\<open>.grad\<close>. The network
  \<^verbatim>\<open>vgg\<close> comes from \<^verbatim>\<open>torchvision\<close>: it is a parameter of the model, the ordered
  dictionary \<^verbatim>\<open>model._modules\<close> of named layers, each layer a function of its
  parameters' current data and of its input.
\<close>

type_synonym addr = nat

record cell =
  data :: tensor
  requires_grad :: bool
  grad :: "tensor option"

type_synonym store = "addr \<Rightarrow> cell"

record layer =
  lparams :: "addr list"
  lforward :: "tensor list \<Rightarrow> tensor \<Rightarrow> error + tensor"

type_synonym network = "(string \<times> layer) list"

definition parameters :: "network \<Rightarrow> addr list" where
  "parameters model = concat (map (\<lambda>(name, l). lparams l) model)"

text \<open>
  \<^verbatim>\<open>
  for param in vgg.parameters():
      param.requires_grad_(False)
  \<close>
\<close>

definition freeze :: "network \<Rightarrow> store \<Rightarrow> store" where
  "freeze model s = fold (\<lambda>param s'. s'(param := (s' param)\<lparr>requires_grad := False\<rparr>))
                      (parameters model) s"

text \<open>
  \<^verbatim>\<open>
  def get_features(image, model, layers=None):
      if layers is None:
          layers = {'0': 'conv1_1', '5': 'conv2_1', '10': 'conv3_1', '19': 'conv4_1',
                    '12': 'conv3_2', '21': 'conv4_2', '28': 'conv5_1'}
      features = {}
      x = image
      for name, layer in model._modules.items():
          x = layer(x)
          if name in layers:
              features[layers[name]] = x
      return features
  \<close>
\<close>

definition default_layers :: "(string \<times> string) list" where
  "default_layers =
     [(''0'', ''conv1_1''), (''5'', ''conv2_1''), (''10'', ''conv3_1''), (''19'', ''conv4_1''),
      (''12'', ''conv3_2''), (''21'', ''conv4_2''), (''28'', ''conv5_1'')]"

fun forward_loop ::
  "store \<Rightarrow> network \<Rightarrow> (string \<times> string) list \<Rightarrow> tensor \<Rightarrow> features \<Rightarrow> error + features" where
  "forward_loop s [] layers x features = Inr features"
| "forward_loop s ((name, l) # rest) layers x features =
     bindE (lforward l (map (\<lambda>a. data (s a)) (lparams l)) x) (\<lambda>x'.
       forward_loop s rest layers x'
         (case map_of layers name of
            Some key \<Rightarrow> AList.update key x' features
          | None \<Rightarrow> features))"

definition get_features :: "store \<Rightarrow> tensor \<Rightarrow> network \<Rightarrow> error + features" where
  "get_features s img model = forward_loop s model default_layers img []"

section \<open>Autograd and the optimizer\<close>

text \<open>
  \<^verbatim>\<open>optim.Adam(params, lr)\<close> keeps the list of the tensors it was given, its learning rate
  and a state for each of them; it raises \<^verbatim>\<open>ValueError\<close> for a negative learning rate
  and for an empty list of tensors. \<^verbatim>\<open>zero_grad\<close> clears the gradients of the listed
  tensors; \<^verbatim>\<open>backward\<close> adds, to every leaf of the loss that requires a gradient, the
  derivative of the loss; \<^verbatim>\<open>step\<close> rewrites the data of every listed tensor that has a
  gradient. The derivative and Adam's update rule belong to the library and are the
  parameters \<open>autograd\<close> and \<open>adam\<close> of the model.
\<close>

record 'o optimizer =
  param_groups :: "addr list"
  opt_lr :: real
  opt_state :: "addr \<Rightarrow> 'o option"

definition Adam :: "addr list \<Rightarrow> real \<Rightarrow> error + 'o optimizer" where
  "Adam params rate =
     (if rate < 0 then Inl ValueError
      else if params = [] then Inl ValueError
      else Inr \<lparr>param_groups = params, opt_lr = rate, opt_state = (\<lambda>p. None)\<rparr>)"

definition zero_grad :: "'o optimizer \<Rightarrow> store \<Rightarrow> store" where
  "zero_grad opt s = fold (\<lambda>p s'. s'(p := (s' p)\<lparr>grad := None\<rparr>)) (param_groups opt) s"

definition accumulate :: "tensor option \<Rightarrow> tensor \<Rightarrow> tensor" where
  "accumulate old g =
     (case old of None \<Rightarrow> g
      | Some g0 \<Rightarrow> g0\<lparr>entries := map2 (+) (entries g0) (entries g)\<rparr>)"

definition accumulate_grads ::
  "((store \<Rightarrow> error + scalar) \<Rightarrow> store \<Rightarrow> addr \<Rightarrow> tensor) \<Rightarrow> (store \<Rightarrow> error + scalar) \<Rightarrow>
   addr list \<Rightarrow> store \<Rightarrow> store" where
  "accumulate_grads derivative objective leaves s =
     fold (\<lambda>p s'. if requires_grad (s' p)
                   then s'(p := (s' p)\<lparr>grad := Some (accumulate (grad (s' p)) (derivative objective s p))\<rparr>)
                   else s')
          (remdups leaves) s"

text \<open>
  The output of a layer requires a gradient when its input does or when one of the layer's
  parameters does. \<^verbatim>\<open>get_features(content, vgg)\<close> and \<^verbatim>\<open>get_features(style, vgg)\<close>
  run once, before the loop, on images that require no gradient: the feature map recorded
  under a name carries the graph of that forward pass exactly when a parameter of a layer
  up to the recorded one requires a gradient. The losses of every iteration are built on
  these feature maps, so the graph, if there is one, is part of every
  \<^verbatim>\<open>total_loss\<close>. \<^verbatim>\<open>backward()\<close> frees the tensors that the layers saved in the
  graphs it has walked, and walking a freed graph again raises \<^verbatim>\<open>RuntimeError\<close>. The
  graph that the iterations share is \<open>Detached\<close> when there is none, and otherwise
  \<open>Retained\<close> until the first \<^verbatim>\<open>backward()\<close> and \<open>Freed\<close> after it. The store is
  left as it was when \<^verbatim>\<open>backward()\<close> raises.
\<close>

datatype graph = Detached | Retained | Freed

fun requires_grad_loop ::
  "store \<Rightarrow> network \<Rightarrow> (string \<times> string) list \<Rightarrow> bool \<Rightarrow> (string \<times> bool) list \<Rightarrow>
   (string \<times> bool) list" where
  "requires_grad_loop s [] layers rg flags = flags"
| "requires_grad_loop s ((name, l) # rest) layers rg flags =
     (let rg' = (rg \<or> list_ex (\<lambda>p. requires_grad (s p)) (lparams l)) in
      requires_grad_loop s rest layers rg'
        (case map_of layers name of
           Some key \<Rightarrow> AList.update key rg' flags
         | None \<Rightarrow> flags))"

definition features_require_grad :: "store \<Rightarrow> network \<Rightarrow> (string \<times> bool) list" where
  "features_require_grad s model = requires_grad_loop s model default_layers False []"

text \<open>
  The loss is computed from the outputs of the recorded layers that it reads: the layers
  of the network after the last of them are not in its graph, and \<^verbatim>\<open>backward()\<close>
  leaves their parameters alone.
\<close>

definition loss_layers :: "network \<Rightarrow> string list \<Rightarrow> network" where
  "loss_layers model used =
     rev (dropWhile (\<lambda>(name, l). case map_of default_layers name of
                                     Some key \<Rightarrow> key \<notin> set used
                                   | None \<Rightarrow> True)
            (rev model))"

definition shared_graph :: "store \<Rightarrow> network \<Rightarrow> string list \<Rightarrow> graph" where
  "shared_graph s model used =
     (if list_ex (\<lambda>l. map_of (features_require_grad s model) l = Some True) used
      then Retained else Detached)"

definition backward ::
  "((store \<Rightarrow> error + scalar) \<Rightarrow> store \<Rightarrow> addr \<Rightarrow> tensor) \<Rightarrow> (store \<Rightarrow> error + scalar) \<Rightarrow>
   addr list \<Rightarrow> graph \<Rightarrow> store \<Rightarrow> error + (graph \<times> store)" where
  "backward derivative objective leaves g s =
     (if g = Freed then Inl RuntimeError
      else Inr (if g = Retained then Freed else Detached,
                accumulate_grads derivative objective leaves s))"

definition step ::
  "(real \<Rightarrow> 'o option \<Rightarrow> tensor \<Rightarrow> tensor \<Rightarrow> tensor \<times> 'o) \<Rightarrow> 'o optimizer \<Rightarrow> store \<Rightarrow>
   'o optimizer \<times> store" where
  "step update opt s =
     fold (\<lambda>p (opt', s').
             case grad (s' p) of
               None \<Rightarrow> (opt', s')
             | Some g \<Rightarrow>
                 (case update (opt_lr opt') (opt_state opt' p) (data (s' p)) g of
                    (x, st) \<Rightarrow> (opt'\<lparr>opt_state := (opt_state opt')(p := Some st)\<rparr>,
                                s'(p := (s' p)\<lparr>data := x\<rparr>))))
          (param_groups opt) (opt, s)"

section \<open>Conversion of a tensor to an image\<close>

text \<open>
  \<^verbatim>\<open>
  def im_convert(tensor):
      image = tensor.to("cpu").clone().detach()
      image = image.numpy().squeeze()
      image = image.transpose(1,2,0)
      image = image * np.array((0.229, 0.224, 0.225)) + np.array((0.485, 0.456, 0.406))
      image = image.clip(0, 1)
      return image
  \<close>
  \<^verbatim>\<open>squeeze\<close> drops every axis of size one; \<^verbatim>\<open>transpose(1,2,0)\<close> needs exactly
  three axes; the arithmetic broadcasts against the three normalisation constants. numpy
  raises \<^verbatim>\<open>ValueError\<close> where the axes or the shapes do not fit.
\<close>

definition squeeze :: "tensor \<Rightarrow> tensor" where
  "squeeze x = x\<lparr>shape := filter (\<lambda>n. n \<noteq> 1) (shape x)\<rparr>"

definition transpose_120 :: "tensor \<Rightarrow> error + tensor" where
  "transpose_120 x =
     (case shape x of
        [c, h, w] \<Rightarrow>
          Inr \<lparr>shape = [h, w, c],
               entries = concat (map (\<lambda>i. concat (map (\<lambda>j.
                           map (\<lambda>k. entries x ! ((k * h + i) * w + j)) [0..<c])
                         [0..<w])) [0..<h])\<rparr>
      | _ \<Rightarrow> Inl ValueError)"

definition np_binop :: "(real \<Rightarrow> real \<Rightarrow> real) \<Rightarrow> tensor \<Rightarrow> tensor \<Rightarrow> error + tensor" where
  "np_binop f a b =
     (case broadcast_shapes (shape a) (shape b) of
        Inl e \<Rightarrow> Inl ValueError
      | Inr rs \<Rightarrow>
          Inr \<lparr>shape = rs, entries = map2 f (entries (expand a rs)) (entries (expand b rs))\<rparr>)"

definition clamp :: "tensor \<Rightarrow> real \<Rightarrow> real \<Rightarrow> tensor" where
  "clamp x lo hi = x\<lparr>entries := map (\<lambda>v. min hi (max lo v)) (entries x)\<rparr>"

text \<open>
  \<^verbatim>\<open>transforms.ToPILImage("RGB")(pic)\<close> takes a tensor of two or three dimensions, the
  channels first, and raises \<^verbatim>\<open>ValueError\<close> for any other number of dimensions; two
  dimensions are read as one channel. The mode \<^verbatim>\<open>"RGB"\<close> is accepted for three channels
  only, \<^verbatim>\<open>ValueError\<close> again otherwise. The image has the channels last and its
  entries are bytes, \<^verbatim>\<open>pic.mul(255).byte()\<close>: for the values between 0 and 1 that
  \<^verbatim>\<open>clamp(0,1)\<close> leaves, the integer part of the product.
\<close>

definition ToPILImage_RGB :: "tensor \<Rightarrow> error + tensor" where
  "ToPILImage_RGB pic =
     (if length (shape pic) \<noteq> 2 \<and> length (shape pic) \<noteq> 3 then Inl ValueError
      else
        let pic' = (if length (shape pic) = 2 then pic\<lparr>shape := 1 # shape pic\<rparr> else pic) in
        if hd (shape pic') \<noteq> 3 then Inl ValueError
        else transpose_120
               (pic'\<lparr>entries := map (\<lambda>v. real_of_int (\<lfloor>v * 255\<rfloor> mod 256)) (entries pic')\<rparr>))"

definition im_convert :: "tensor \<Rightarrow> error + tensor" where
  "im_convert x =
     bindE (transpose_120 (squeeze x)) (\<lambda>img.
     bindE (np_binop (*) img \<lparr>shape = [3], entries = [0.229, 0.224, 0.225]\<rparr>) (\<lambda>scaled.
     bindE (np_binop (+) scaled \<lparr>shape = [3], entries = [0.485, 0.456, 0.406]\<rparr>) (\<lambda>shifted.
       Inr (clamp shifted 0 1))))"

section \<open>The function \<^verbatim>\<open>stylize\<close>\<close>

text \<open>
  A run is observed through the calls it makes: loading an image, a forward pass of the
  network, the computation of the losses of an iteration (with the weights used and the
  values found), an optimizer step, the display of the progress and the export of the
  result. The machine holds the store, the next unused address and the calls made so far;
  an exception leaves \<^verbatim>\<open>stylize\<close> with the machine as it was when raised.
\<close>

datatype subject = Content | Style | Target

datatype event =
    ImageLoaded string
  | FeatureExtraction subject
  | LossComputation int "real \<times> real \<times> real" "scalar \<times> scalar \<times> scalar" scalar
  | OptimizerStep int
  | ShowProgress int
  | SaveImage string tensor
  | SaveFigure string

record machine =
  heap :: store
  next_free :: addr
  trace :: "event list"

text \<open>
  What the notebook takes from its libraries and from the files: \<open>load_image\<close> stands
  for the notebook's function of that name, whose body opens a file or a URL and applies
  \<^verbatim>\<open>torchvision\<close> transforms; \<open>vgg\<close> is the global network; \<open>rand_stream\<close> the
  samples \<^verbatim>\<open>torch.rand\<close> draws; \<open>uninitialised\<close> the memory \<^verbatim>\<open>Tensor.new\<close> hands out;
  \<open>save_image\<close> is the writing of the file by \<^verbatim>\<open>target_out.save(out_path)\<close> on the
  image that \<^verbatim>\<open>ToPILImage\<close> has made, and \<open>save_figure\<close> the drawing of the three
  images and \<^verbatim>\<open>plt.savefig(out_path)\<close>: each returns the exception it raises, if any.
\<close>

record 'o env =
  load_image :: "string \<Rightarrow> nat list option \<Rightarrow> error + tensor"
  vgg :: network
  rand_stream :: "nat \<Rightarrow> real"
  autograd :: "(store \<Rightarrow> error + scalar) \<Rightarrow> store \<Rightarrow> addr \<Rightarrow> tensor"
  adam :: "real \<Rightarrow> 'o option \<Rightarrow> tensor \<Rightarrow> tensor \<Rightarrow> tensor \<times> 'o"
  uninitialised :: "nat \<Rightarrow> real"
  save_image :: "string \<Rightarrow> tensor \<Rightarrow> error option"
  save_figure :: "string \<Rightarrow> tensor \<Rightarrow> tensor \<Rightarrow> tensor \<Rightarrow> error option"

text \<open>The arguments of \<^verbatim>\<open>stylize\<close>, and their default values.\<close>

record args =
  content_path :: string
  style_path :: string
  out_path :: string
  target_init :: string
  out_format :: string
  lr :: real
  show_every :: int
  steps :: int
  style_layer_weight_exp :: real
  content_weight_blend :: real
  content_weight :: real
  style_weight :: real
  tv_weight :: real

definition defaults :: "string \<Rightarrow> string \<Rightarrow> string \<Rightarrow> args" where
  "defaults cp sp outp =
     \<lparr>content_path = cp, style_path = sp, out_path = outp, target_init = ''clone'',
      out_format = ''image-only'', lr = 0.03, show_every = 500, steps = 2000,
      style_layer_weight_exp = 1, content_weight_blend = 1,
      content_weight = 7.5, style_weight = 100, tv_weight = 200\<rparr>"

text \<open>
  The local variables of \<^verbatim>\<open>stylize\<close> that change while it runs: the three weights
  (\<^verbatim>\<open>content_weight\<close>, \<^verbatim>\<open>style_weight\<close>, \<^verbatim>\<open>tv_weight\<close>, assigned in the loop), and
  \<^verbatim>\<open>h_x\<close> and \<^verbatim>\<open>w_x\<close>, which are unbound until the loop body has run once; with
  them the two images, and the state of the graph that \<^verbatim>\<open>content_features\<close> and
  \<^verbatim>\<open>style_gms\<close> carry.
\<close>

record 'o frame =
  mach :: machine
  optimizer :: "'o optimizer"
  target :: addr
  cur_content_weight :: real
  cur_style_weight :: real
  cur_tv_weight :: real
  h_x :: "nat option"
  w_x :: "nat option"
  content_image :: tensor
  style_image :: tensor
  features_graph :: graph

definition attempt :: "machine \<Rightarrow> error + 'a \<Rightarrow> (error \<times> machine) + 'a" where
  "attempt m r = (case r of Inl e \<Rightarrow> Inl (e, m) | Inr x \<Rightarrow> Inr x)"

definition emit :: "event \<Rightarrow> machine \<Rightarrow> machine" where
  "emit e m = m\<lparr>trace := trace m @ [e]\<rparr>"

definition new_leaf :: "tensor \<Rightarrow> machine \<Rightarrow> addr \<times> machine" where
  "new_leaf x m =
     (next_free m,
      m\<lparr>heap := (heap m)(next_free m := \<lparr>data = x, requires_grad = True, grad = None\<rparr>),
        next_free := Suc (next_free m)\<rparr>)"

definition torch_full :: "nat list \<Rightarrow> real \<Rightarrow> tensor" where
  "torch_full shp fill_value = \<lparr>shape = shp, entries = replicate (prod_list shp) fill_value\<rparr>"

definition torch_rand :: "(nat \<Rightarrow> real) \<Rightarrow> nat list \<Rightarrow> tensor" where
  "torch_rand samples shp = \<lparr>shape = shp, entries = map samples [0..<prod_list shp]\<rparr>"

text \<open>
  \<^verbatim>\<open>
  if target_init == "clone":
      target = content.clone().requires_grad_(True).to(device)
  elif target_init == "blank":
      target = torch.full(content.shape,fill_value = 0.5, requires_grad=True, device=device)
  elif target_init == "random":
      target = torch.rand(content.shape, requires_grad=True, device=device)
  else:
      raise ValueError('Unexpected Initialization Method{}'.format(target_init))
  \<close>
\<close>

definition define_target ::
  "'o env \<Rightarrow> string \<Rightarrow> tensor \<Rightarrow> machine \<Rightarrow> (error \<times> machine) + (addr \<times> machine)" where
  "define_target env init content m =
     (if init = ''clone'' then Inr (new_leaf content m)
      else if init = ''blank'' then Inr (new_leaf (torch_full (shape content) 0.5) m)
      else if init = ''random'' then Inr (new_leaf (torch_rand (rand_stream env) (shape content)) m)
      else Inl (ValueError, m))"

text \<open>
  \<^verbatim>\<open>
  if target_init == "blank" or target_init == "random":
      if ii <= steps * 0.2:
          content_weight = 1
          style_weight = 0.01
          tv_weight = 2
      else:
          content_weight = 10
          style_weight = 1e2
          tv_weight = 20
  \<close>
  The comparison is made on real numbers. The double nearest to 0.2 lies above it, so
  the floating-point product \<^verbatim>\<open>steps * 0.2\<close> is never below a fifth of \<open>steps\<close>, and
  for the integers \<open>ii\<close> and \<open>steps\<close> both comparisons agree.
\<close>

definition set_weights :: "args \<Rightarrow> int \<Rightarrow> 'o frame \<Rightarrow> 'o frame" where
  "set_weights a ii st =
     (if target_init a = ''blank'' \<or> target_init a = ''random'' then
        (if real_of_int ii \<le> real_of_int (steps a) * 0.2
         then st\<lparr>cur_content_weight := 1, cur_style_weight := 0.01, cur_tv_weight := 2\<rparr>
         else st\<lparr>cur_content_weight := 10, cur_style_weight := 100, cur_tv_weight := 20\<rparr>)
      else st)"

text \<open>The loss that \<^verbatim>\<open>total_loss.backward()\<close> differentiates, as a function of the store.\<close>

definition objective ::
  "network \<Rightarrow> (string \<times> real) list \<Rightarrow> (string \<times> real) list \<Rightarrow> features \<Rightarrow> features \<Rightarrow>
   addr \<Rightarrow> real \<Rightarrow> real \<Rightarrow> real \<Rightarrow> store \<Rightarrow> error + scalar" where
  "objective model clw slw content_features style_gms tgt cw sw tw s =
     bindE (get_features s (data (s tgt)) model) (\<lambda>target_features.
     bindE (loss_terms clw slw content_features style_gms target_features (data (s tgt)))
       (\<lambda>(c, sl, t). Inr (total_loss cw sw tw c sl t)))"

text \<open>
  \<^verbatim>\<open>style_gms = {layer: gram_matrix(style_features[layer]) for layer in style_features}\<close>
\<close>

fun gram_all :: "features \<Rightarrow> error + features" where
  "gram_all [] = Inr []"
| "gram_all ((layer, x) # rest) =
     bindE (gram_matrix x) (\<lambda>g. bindE (gram_all rest) (\<lambda>gs. Inr ((layer, g) # gs)))"

text \<open>
  When \<^verbatim>\<open>content_features\<close> and \<^verbatim>\<open>style_gms\<close> carry a graph, the loss depends on
  the parameters of the network through them as well.
\<close>

definition attached_objective ::
  "network \<Rightarrow> (string \<times> real) list \<Rightarrow> (string \<times> real) list \<Rightarrow> tensor \<Rightarrow> tensor \<Rightarrow>
   addr \<Rightarrow> real \<Rightarrow> real \<Rightarrow> real \<Rightarrow> store \<Rightarrow> error + scalar" where
  "attached_objective model clw slw content style tgt cw sw tw s =
     bindE (get_features s content model) (\<lambda>content_features.
     bindE (get_features s style model) (\<lambda>style_features.
     bindE (gram_all style_features) (\<lambda>style_gms.
       objective model clw slw content_features style_gms tgt cw sw tw s)))"

text \<open>
  One pass through the body of \<^verbatim>\<open>for ii in tqdm.tqdm(range(1, steps + 1))\<close>: the
  weights, the forward pass on the target, the three losses and their weighted sum,
  \<^verbatim>\<open>optimizer.zero_grad(); total_loss.backward(); optimizer.step()\<close>, and, under
  \<^verbatim>\<open>if ii % show_every == 0\<close>, the display \<^verbatim>\<open>plt.imshow(im_convert(target))\<close> of the
  updated target. \<^verbatim>\<open>backward()\<close> is given the weighted sum as a function of the store
  and the leaves it can reach: the target and the parameters of the layers that the loss
  reads. The \<^verbatim>\<open>print\<close> calls are left out.
\<close>

definition iteration ::
  "'o env \<Rightarrow> args \<Rightarrow> features \<Rightarrow> features \<Rightarrow> (string \<times> real) list \<Rightarrow> (string \<times> real) list \<Rightarrow>
   int \<Rightarrow> 'o frame \<Rightarrow> (error \<times> machine) + 'o frame" where
  "iteration env a content_features style_gms slw clw ii st0 =
     (let st = set_weights a ii st0;
          m = mach st;
          x = data (heap m (target st)) in
      bindE (attempt m (get_features (heap m) x (vgg env))) (\<lambda>target_features.
      let m1 = emit (FeatureExtraction Target) m in
      bindE (attempt m1 (loss_terms clw slw content_features style_gms target_features x))
        (\<lambda>(c, s, t).
      let cw = cur_content_weight st;
          sw = cur_style_weight st;
          tw = cur_tv_weight st;
          total = total_loss cw sw tw c s t;
          m2 = emit (LossComputation ii (cw, sw, tw) (c, s, t) total) m1;
          s1 = zero_grad (optimizer st) (heap m2)
      in bindE (attempt (m2\<lparr>heap := s1\<rparr>)
                  (backward (autograd env)
                     (if features_graph st = Detached
                      then objective (vgg env) clw slw content_features style_gms (target st)
                             cw sw tw
                      else attached_objective (vgg env) clw slw (content_image st)
                             (style_image st) (target st) cw sw tw)
                     (target st # parameters (loss_layers (vgg env) (map fst clw @ map fst slw)))
                     (features_graph st) s1))
           (\<lambda>(g, s2).
         case step (adam env) (optimizer st) s2 of
           (opt', s3) \<Rightarrow>
             let m3 = emit (OptimizerStep ii) (m2\<lparr>heap := s3\<rparr>);
                 st' = st\<lparr>mach := m3, optimizer := opt',
                          h_x := Some (shape x ! 2), w_x := Some (shape x ! 3),
                          features_graph := g\<rparr>
             in if show_every a = 0 then Inl (ZeroDivisionError, m3)
                else if ii mod show_every a = 0
                then bindE (attempt m3 (im_convert (data (s3 (target st)))))
                       (\<lambda>img. Inr (st'\<lparr>mach := emit (ShowProgress ii) m3\<rparr>))
                else Inr st'))))"

fun run_loop ::
  "'o env \<Rightarrow> args \<Rightarrow> features \<Rightarrow> features \<Rightarrow> (string \<times> real) list \<Rightarrow> (string \<times> real) list \<Rightarrow>
   int list \<Rightarrow> 'o frame \<Rightarrow> (error \<times> machine) + 'o frame" where
  "run_loop env a content_features style_gms slw clw [] st = Inr st"
| "run_loop env a content_features style_gms slw clw (ii # rest) st =
     bindE (iteration env a content_features style_gms slw clw ii st)
       (run_loop env a content_features style_gms slw clw rest)"

text \<open>
  The export, for \<^verbatim>\<open>target_init == "clone"\<close>:
  \<^verbatim>\<open>
  target = target.detach().cpu().view(-1, h_x, w_x)
  target_out = target.new(*target.size())
  std = [0.229, 0.224, 0.225]
  mean = [0.485, 0.456, 0.406]
  target_out[0, :, :] = target[0, :, :] * std[0] + mean[0]
  target_out[1, :, :] = target[1, :, :] * std[1] + mean[1]
  target_out[2, :, :] = target[2, :, :] * std[2] + mean[2]
  target_out = target_out.clamp(0,1)
  \<close>
\<close>

definition view_infer :: "tensor \<Rightarrow> nat \<Rightarrow> nat \<Rightarrow> error + tensor" where
  "view_infer t h w =
     (if h * w = 0 \<or> numel t mod (h * w) \<noteq> 0 then Inl RuntimeError
      else Inr (t\<lparr>shape := [numel t div (h * w), h, w]\<rparr>))"

definition set_channel :: "tensor \<Rightarrow> tensor \<Rightarrow> nat \<Rightarrow> real \<Rightarrow> real \<Rightarrow> error + tensor" where
  "set_channel target_out tgt k sd mn =
     (case shape tgt of
        [c, h, w] \<Rightarrow>
          if k < c
          then Inr (target_out\<lparr>entries :=
                 take (k * (h * w)) (entries target_out) @
                 map (\<lambda>v. v * sd + mn) (take (h * w) (drop (k * (h * w)) (entries tgt))) @
                 drop (Suc k * (h * w)) (entries target_out)\<rparr>)
          else Inl IndexError
      | _ \<Rightarrow> Inl IndexError)"

definition denormalize :: "(nat \<Rightarrow> real) \<Rightarrow> tensor \<Rightarrow> error + tensor" where
  "denormalize fresh tgt =
     (let target_out = \<lparr>shape = shape tgt, entries = map fresh [0..<numel tgt]\<rparr> in
      bindE (set_channel target_out tgt 0 0.229 0.485) (\<lambda>o0.
      bindE (set_channel o0 tgt 1 0.224 0.456) (\<lambda>o1.
      bindE (set_channel o1 tgt 2 0.225 0.406) (\<lambda>o2.
        Inr (clamp o2 0 1)))))"

text \<open>
  \<^verbatim>\<open>
  if target_init == "clone": ... else: target_out = target
  if out_format == "image-only":
      target_out = transforms.ToPILImage("RGB")(target_out)
      target_out.save(out_path)
  elif out_format == "comparison":
      ... ax1.imshow(im_convert(target)) ... ax2.imshow(im_convert(content))
      ... ax3.imshow(im_convert(style)) ... plt.savefig(out_path)
  else:
      raise ValueError('Unexpected Output Format{}'.format(out_format))
  \<close>
  With \<open>''clone''\<close> the variable \<^verbatim>\<open>target\<close> is by then the three-dimensional view.
  Otherwise \<^verbatim>\<open>target_out\<close> is the target itself, with its batch dimension.
\<close>

definition export ::
  "'o env \<Rightarrow> args \<Rightarrow> tensor \<Rightarrow> tensor \<Rightarrow> 'o frame \<Rightarrow> (error \<times> machine) + machine" where
  "export env a content style st =
     (let m = mach st;
          tgt = data (heap m (target st)) in
      bindE (if target_init a = ''clone''
             then (case (h_x st, w_x st) of
                     (Some h, Some w) \<Rightarrow>
                       bindE (attempt m (view_infer tgt h w)) (\<lambda>tgt'.
                       bindE (attempt m (denormalize (uninitialised env) tgt')) (\<lambda>target_out.
                         Inr (tgt', target_out)))
                   | _ \<Rightarrow> Inl (UnboundLocalError, m))
             else Inr (tgt, tgt)) (\<lambda>(tgt', target_out).
      if out_format a = ''image-only''
      then bindE (attempt m (ToPILImage_RGB target_out)) (\<lambda>img.
             let m' = emit (SaveImage (out_path a) img) m in
             case save_image env (out_path a) img of
               None \<Rightarrow> Inr m'
             | Some e \<Rightarrow> Inl (e, m'))
      else if out_format a = ''comparison''
      then bindE (attempt m (im_convert tgt')) (\<lambda>i1.
           bindE (attempt m (im_convert content)) (\<lambda>i2.
           bindE (attempt m (im_convert style)) (\<lambda>i3.
             let m' = emit (SaveFigure (out_path a)) m in
             case save_figure env (out_path a) i1 i2 i3 of
               None \<Rightarrow> Inr m'
             | Some e \<Rightarrow> Inl (e, m'))))
      else Inl (ValueError, m)))"

definition load :: "'o env \<Rightarrow> string \<Rightarrow> nat list option \<Rightarrow> machine \<Rightarrow> (error \<times> machine) + (tensor \<times> machine)" where
  "load env path shp m =
     bindE (attempt m (load_image env path shp)) (\<lambda>x. Inr (x, emit (ImageLoaded path) m))"

definition forward_pass :: "'o env \<Rightarrow> subject \<Rightarrow> tensor \<Rightarrow> machine \<Rightarrow> (error \<times> machine) + (features \<times> machine)" where
  "forward_pass env who x m =
     bindE (attempt m (get_features (heap m) x (vgg env)))
       (\<lambda>f. Inr (f, emit (FeatureExtraction who) m))"

text \<open>
  The whole function. \<^verbatim>\<open>content.shape[-2:]\<close> is the last two dimensions of the content
  image; \<^verbatim>\<open>lr = lr if target_init == "clone" else min(lr*10, 0.2)\<close>;
  \<^verbatim>\<open>optimizer = optim.Adam([target], lr = lr)\<close>, before the forward passes on the
  content and on the style image. The losses read \<^verbatim>\<open>content_features\<close> at the layers of
  \<^verbatim>\<open>content_layers_weights\<close> and \<^verbatim>\<open>style_gms\<close> at the layers of
  \<^verbatim>\<open>style_layers_weights\<close>.
\<close>

definition stylize :: "'o env \<Rightarrow> args \<Rightarrow> machine \<Rightarrow> (error \<times> machine) + machine" where
  "stylize env a m0 =
     bindE (load env (content_path a) None m0) (\<lambda>(content, m1).
     bindE (load env (style_path a)
              (Some (drop (length (shape content) - 2) (shape content))) m1) (\<lambda>(style, m2).
     bindE (define_target env (target_init a) content m2) (\<lambda>(tgt, m3).
     let lr' = (if target_init a = ''clone'' then lr a else min (lr a * 10) 0.2) in
     bindE (attempt m3 (Adam [tgt] lr')) (\<lambda>opt.
     bindE (forward_pass env Content content m3) (\<lambda>(content_features, m4).
     bindE (forward_pass env Style style m4) (\<lambda>(style_features, m5).
     bindE (attempt m5 (gram_all style_features)) (\<lambda>style_gms.
     let slw = style_layers_weights (style_layer_weight_exp a);
         clw = content_layers_weights (content_weight_blend a);
         st0 = \<lparr>mach = m5, optimizer = opt, target = tgt,
                cur_content_weight = content_weight a, cur_style_weight = style_weight a,
                cur_tv_weight = tv_weight a, h_x = None, w_x = None,
                content_image = content, style_image = style,
                features_graph = shared_graph (heap m5) (vgg env) (map fst clw @ map fst slw)\<rparr> in
     bindE (run_loop env a content_features style_gms slw clw [1..steps a] st0)
       (\<lambda>st. export env a content style st))))))))"

section \<open>What a run is observed to do, and what it needs of its environment\<close>

text \<open>
  The calls of a run without their payloads; the calls one iteration of the loop makes;
  the machine a run ends with, whether it returns or raises. A network is regular for an
  input shape when, on every well-formed input of that shape, \<open>get_features\<close> returns
  feature maps of one image whose shapes depend on the layer alone and which include the
  seven layers recorded by default. An update rule is shape preserving when the updated
  tensor has the shape and the number of entries of the old one. A network is frozen in
  a store when none of its parameters requires a gradient there, as after the notebook's
  loop over \<^verbatim>\<open>vgg.parameters()\<close>.
\<close>

definition recorded_layers :: "string list" where
  "recorded_layers = map snd default_layers"

definition shaped :: "(string \<Rightarrow> nat \<times> nat \<times> nat) \<Rightarrow> features \<Rightarrow> bool" where
  "shaped dims f \<longleftrightarrow>
     (\<forall>(l, t) \<in> set f. shape t = [1, fst (dims l), fst (snd (dims l)), snd (snd (dims l))]) \<and>
     (\<forall>l \<in> set recorded_layers. map_of f l \<noteq> None)"

definition regular :: "network \<Rightarrow> store \<Rightarrow> nat list \<Rightarrow> (string \<Rightarrow> nat \<times> nat \<times> nat) \<Rightarrow> bool" where
  "regular model s shp dims \<longleftrightarrow>
     (\<forall>x. shape x = shp \<and> well_formed x \<longrightarrow>
          (\<exists>f. get_features s x model = Inr f \<and> shaped dims f))"

definition shape_preserving ::
  "(real \<Rightarrow> 'o option \<Rightarrow> tensor \<Rightarrow> tensor \<Rightarrow> tensor \<times> 'o) \<Rightarrow> bool" where
  "shape_preserving update \<longleftrightarrow>
     (\<forall>rate st x g. shape (fst (update rate st x g)) = shape x \<and>
        length (entries (fst (update rate st x g))) = length (entries x))"

definition frozen :: "network \<Rightarrow> store \<Rightarrow> bool" where
  "frozen model s \<longleftrightarrow> (\<forall>p \<in> set (parameters model). \<not> requires_grad (s p))"

definition loop_inv :: "'o env \<Rightarrow> store \<Rightarrow> nat list \<Rightarrow> 'o frame \<Rightarrow> bool" where
  "loop_inv env s0 shp st \<longleftrightarrow>
     param_groups (optimizer st) = [target st] \<and>
     target st \<notin> set (parameters (vgg env)) \<and>
     features_graph st = Detached \<and>
     frozen (vgg env) s0 \<and>
     requires_grad (heap (mach st) (target st)) \<and>
     shape (data (heap (mach st) (target st))) = shp \<and>
     well_formed (data (heap (mach st) (target st))) \<and>
     (\<forall>p \<in> set (parameters (vgg env)).
        data (heap (mach st) p) = data (s0 p) \<and>
        requires_grad (heap (mach st) p) = requires_grad (s0 p) \<and>
        (\<not> requires_grad (s0 p) \<longrightarrow> heap (mach st) p = s0 p))"

definition iteration_events ::
  "args \<Rightarrow> int \<Rightarrow> real \<times> real \<times> real \<Rightarrow> scalar \<times> scalar \<times> scalar \<Rightarrow> event list" where
  "iteration_events a ii wts ls =
     [FeatureExtraction Target,
      LossComputation ii wts ls
        (case (wts, ls) of ((cw, sw, tw), (c, s, t)) \<Rightarrow> total_loss cw sw tw c s t),
      OptimizerStep ii] @
     (if ii mod show_every a = 0 then [ShowProgress ii] else [])"

definition current_weights :: "'o frame \<Rightarrow> real \<times> real \<times> real" where
  "current_weights st = (cur_content_weight st, cur_style_weight st, cur_tv_weight st)"

datatype call = Load | Forward subject | Losses int | Step int | Show int | Export

fun skeleton :: "event \<Rightarrow> call" where
  "skeleton (ImageLoaded path) = Load"
| "skeleton (FeatureExtraction who) = Forward who"
| "skeleton (LossComputation ii wts ls tot) = Losses ii"
| "skeleton (OptimizerStep ii) = Step ii"
| "skeleton (ShowProgress ii) = Show ii"
| "skeleton (SaveImage path x) = Export"
| "skeleton (SaveFigure path) = Export"

definition iteration_calls :: "args \<Rightarrow> int \<Rightarrow> call list" where
  "iteration_calls a ii =
     [Forward Target, Losses ii, Step ii] @ (if ii mod show_every a = 0 then [Show ii] else [])"

definition valid_init :: "string \<Rightarrow> bool" where
  "valid_init init \<longleftrightarrow> init = ''clone'' \<or> init = ''blank'' \<or> init = ''random''"

definition initial_target :: "'o env \<Rightarrow> string \<Rightarrow> tensor \<Rightarrow> tensor" where
  "initial_target env init content =
     (if init = ''clone'' then content
      else if init = ''blank'' then torch_full (shape content) 0.5
      else torch_rand (rand_stream env) (shape content))"

definition final_machine :: "(error \<times> machine) + machine \<Rightarrow> machine" where
  "final_machine r = (case r of Inl (e, m) \<Rightarrow> m | Inr m \<Rightarrow> m)"

fun is_step :: "call \<Rightarrow> bool" where
  "is_step (Step ii) = True"
| "is_step c = False"

fun is_losses :: "call \<Rightarrow> bool" where
  "is_losses (Losses ii) = True"
| "is_losses c = False"

text \<open>
  What a run needs of its environment to be followed to its end: both images load, as
  \<open>load_image\<close> returns them (one image, three channels, the style image resized to
  the content image's height and width, at least two pixels each way), the network is
  regular for that shape, the
  update rule preserves shapes, and the network's parameters are allocated.
\<close>

definition admissible ::
  "'o env \<Rightarrow> args \<Rightarrow> machine \<Rightarrow> tensor \<Rightarrow> tensor \<Rightarrow> nat \<Rightarrow> nat \<Rightarrow>
   (string \<Rightarrow> nat \<times> nat \<times> nat) \<Rightarrow> bool" where
  "admissible env a m0 content style h w dims \<longleftrightarrow>
     load_image env (content_path a) None = Inr content \<and>
     load_image env (style_path a) (Some [h, w]) = Inr style \<and>
     shape content = [1, 3, h, w] \<and> 2 \<le> h \<and> 2 \<le> w \<and> well_formed content \<and>
     shape style = [1, 3, h, w] \<and> well_formed style \<and>
     regular (vgg env) (heap m0) [1, 3, h, w] dims \<and>
     shape_preserving (adam env) \<and>
     (\<forall>p \<in> set (parameters (vgg env)). p < next_free m0)"

section \<open>A small environment for the examples\<close>

text \<open>
  A network of seven layers that return their input, under the names that
  \<open>get_features\<close> records, two images of three channels and two by two pixels,
  plain gradient descent for the update rule, and a store that holds one parameter, frozen
  as the notebook freezes the network.
\<close>

definition identity_layer :: layer where
  "identity_layer = \<lparr>lparams = [0], lforward = (\<lambda>ws x. Inr x)\<rparr>"

definition example_network :: network where
  "example_network = map (\<lambda>name. (name, identity_layer)) [''0'', ''5'', ''10'', ''12'', ''19'', ''21'', ''28'']"

definition example_content :: tensor where
  "example_content = \<lparr>shape = [1, 3, 2, 2], entries = [1, 2, 3, 4, 5, 6, 7, 8, 9, 10, 11, 12]\<rparr>"

definition example_style :: tensor where
  "example_style = \<lparr>shape = [1, 3, 2, 2], entries = [2, 2, 3, 4, 5, 6, 7, 9, 9, 10, 11, 12]\<rparr>"

definition example_env :: "unit env" where
  "example_env =
     \<lparr>load_image = (\<lambda>path shp. if path = ''content.jpg'' then Inr example_content
                               else if path = ''style.jpg'' then Inr example_style
                               else Inl RuntimeError),
      vgg = example_network,
      rand_stream = (\<lambda>n. 1 / (real n + 2)),
      autograd = (\<lambda>f s p. (data (s p))\<lparr>entries := map (\<lambda>v. 1) (entries (data (s p)))\<rparr>),
      adam = (\<lambda>rate st x g.
                (x\<lparr>entries := map2 (\<lambda>u v. u - rate * v) (entries x)
                     (entries g @ replicate (length (entries x) - length (entries g)) 0)\<rparr>, ())),
      uninitialised = (\<lambda>n. 0),
      save_image = (\<lambda>path x. None),
      save_figure = (\<lambda>path x y z. None)\<rparr>"

definition example_store :: store where
  "example_store = (\<lambda>p. \<lparr>data = \<lparr>shape = [], entries = [1]\<rparr>, requires_grad = True, grad = None\<rparr>)"

definition example_machine :: machine where
  "example_machine =
     \<lparr>heap = freeze example_network example_store, next_free = 1, trace = []\<rparr>"

definition example_args :: args where
  "example_args = (defaults ''content.jpg'' ''style.jpg'' ''result.png'')\<lparr>steps := 2, show_every := 2\<rparr>"

definition example_all_features :: "tensor \<Rightarrow> features" where
  "example_all_features x =
     map (\<lambda>l. (l, x))
       [''conv1_1'', ''conv2_1'', ''conv3_1'', ''conv3_2'', ''conv4_1'', ''conv4_2'', ''conv5_1'']"

text \<open>Feature maps on which the two content layers differ, and feature maps that are the
  same tensor at each of the five style layers.\<close>

definition blend_target_features :: features where
  "blend_target_features =
     [(''conv3_2'', \<lparr>shape = [1, 1, 1, 1], entries = [1]\<rparr>),
      (''conv4_2'', \<lparr>shape = [1, 1, 1, 1], entries = [2]\<rparr>)]"

definition blend_content_features :: features where
  "blend_content_features =
     [(''conv3_2'', \<lparr>shape = [1, 1, 1, 1], entries = [0]\<rparr>),
      (''conv4_2'', \<lparr>shape = [1, 1, 1, 1], entries = [0]\<rparr>)]"

definition example_features :: "tensor \<Rightarrow> features" where
  "example_features x = map (\<lambda>l. (l, x)) style_layers"

section \<open>Facts about row-major tables\<close>

lemma tabulate2_Suc: "tabulate2 (Suc m) n f = tabulate2 m n f @ map (f m) [0..<n]"
  by (simp add: tabulate2_def)

lemma length_tabulate2 [simp]: "length (tabulate2 m n f) = m * n"
  by (induction m) (simp_all add: tabulate2_Suc tabulate2_def)

lemma flat_index_less: "i < m \<Longrightarrow> j < n \<Longrightarrow> i * n + j < m * (n::nat)"
proof -
  assume a: "i < m" "j < n"
  then have "Suc i * n \<le> m * n" by (intro mult_le_mono1) simp
  with a show ?thesis by simp
qed

lemma nth_tabulate2: "i < m \<Longrightarrow> j < n \<Longrightarrow> tabulate2 m n f ! (i * n + j) = f i j"
proof (induction m)
  case 0
  then show ?case by simp
next
  case (Suc m)
  show ?case
  proof (cases "i < m")
    case True
    then have "i * n + j < m * n"
      using Suc.prems(2) by (rule flat_index_less)
    then show ?thesis using Suc.IH True Suc.prems(2)
      by (simp add: tabulate2_Suc nth_append)
  next
    case False
    then have "i = m" using Suc.prems(1) by simp
    then show ?thesis using Suc.prems(2)
      by (simp add: tabulate2_Suc nth_append)
  qed
qed

lemma take_drop_nth:
  "a + n \<le> length xs \<Longrightarrow> take n (drop a xs) = map (\<lambda>k. xs ! (a + k)) [0..<n]"
  by (auto intro!: nth_equalityI)

lemma chunk_in_range: "i < d \<Longrightarrow> i * n + n \<le> d * (n::nat)"
proof -
  assume "i < d"
  then have "Suc i * n \<le> d * n" by (intro mult_le_mono1) simp
  then show ?thesis by simp
qed

section \<open>Gram matrix: entries are inner products of channels\<close>

lemma col_transpose:
  assumes "shape a = [d, n]" and "length (entries a) = d * n" and "j < d"
  shows "col \<lparr>shape = [n, d], entries = tabulate2 n d (\<lambda>j i. entries a ! (i * n + j))\<rparr> j
         = take n (drop (j * n) (entries a))"
proof -
  have "j * n + n \<le> length (entries a)"
    using assms(2,3) by (simp add: chunk_in_range)
  then have "take n (drop (j * n) (entries a)) = map (\<lambda>k. entries a ! (j * n + k)) [0..<n]"
    by (rule take_drop_nth)
  moreover have "map (\<lambda>k. tabulate2 n d (\<lambda>j i. entries a ! (i * n + j)) ! (k * d + j)) [0..<n]
      = map (\<lambda>k. entries a ! (j * n + k)) [0..<n]"
    using assms(3) by (simp add: nth_tabulate2)
  ultimately show ?thesis by (simp add: col_def)
qed

text \<open>
  Claim C2. For a well-formed input of shape \<open>(1, d, h, w)\<close>, \<open>gram_matrix\<close> returns a
  \<open>d\<close> by \<open>d\<close> matrix whose entry \<open>(i, j)\<close> is the inner product of the flattened
  feature maps of channels \<open>i\<close> and \<open>j\<close>.
\<close>

theorem gram_matrix_entries:
  assumes "shape t = [1, d, h, w]" and "well_formed t"
  shows "\<exists>g. gram_matrix t = Inr g \<and> shape g = [d, d] \<and> well_formed g \<and>
           (\<forall>i<d. \<forall>j<d. at2 g i j = inner (channel t i) (channel t j))"
proof -
  let ?n = "h * w"
  let ?t' = "t\<lparr>shape := [d, ?n]\<rparr>"
  let ?tt = "\<lparr>shape = [?n, d], entries = tabulate2 ?n d (\<lambda>j i. entries ?t' ! (i * ?n + j))\<rparr>"
  let ?g = "\<lparr>shape = [d, d], entries = tabulate2 d d (\<lambda>i j. inner (row ?t' i) (col ?tt j))\<rparr>"
  have len: "length (entries t) = d * ?n"
    using assms by (simp add: well_formed_def numel_def)
  have g: "gram_matrix t = Inr ?g"
    using assms(1)
    by (simp add: gram_matrix_def view_def numel_def tensor_t_def mm_def bindE_def)
  have ent: "at2 ?g i j = inner (channel t i) (channel t j)" if "i < d" "j < d" for i j
  proof -
    have "at2 ?g i j = inner (row ?t' i) (col ?tt j)"
      using that by (simp add: at2_def nth_tabulate2)
    moreover have "row ?t' i = channel t i"
      using assms(1) by (simp add: row_def channel_def)
    moreover have "col ?tt j = channel t j"
      using col_transpose [of ?t' d ?n j] len that(2) assms(1)
      by (simp add: channel_def)
    ultimately show ?thesis by simp
  qed
  have "well_formed ?g" by (simp add: well_formed_def numel_def)
  with g ent show ?thesis by auto
qed

theorem gram_matrix_entries_witness:
  "shape \<lparr>shape = [1, 2, 1, 2], entries = [1, 2, 3, 4]\<rparr> = [1, 2, 1, 2] \<and>
   well_formed \<lparr>shape = [1, 2, 1, 2], entries = [1, 2, 3, 4]\<rparr> \<and>
   (\<exists>g. gram_matrix \<lparr>shape = [1, 2, 1, 2], entries = [1, 2, 3, 4]\<rparr> = Inr g \<and>
        shape g = [2, 2] \<and> at2 g 0 1 = 11 \<and> at2 g 1 1 = 25)"
proof -
  let ?t = "\<lparr>shape = [1, 2, 1, 2], entries = [1, 2, 3, 4]\<rparr>"
  have c: "well_formed ?t" by (simp add: well_formed_def numel_def)
  have "inner (channel ?t 0) (channel ?t 1) = 11" "inner (channel ?t 1) (channel ?t 1) = 25"
    by (simp_all add: inner_def channel_def)
  with gram_matrix_entries [of ?t 2 1 2] c show ?thesis by auto
qed

section \<open>The target image\<close>



section \<open>Total variation\<close>

lemma sum_group:
  fixes f :: "nat \<Rightarrow> real"
  shows "(\<Sum>k<m * n. f k) = (\<Sum>i<m. \<Sum>j<n. f (i * n + j))"
proof -
  have "sum f {i * n..<i * n + n} = (\<Sum>j<n. f (i * n + j))" for i
    using sum.shift_bounds_nat_ivl [of f 0 "i * n" n]
    by (simp add: atLeast0LessThan add.commute)
  then have "(\<Sum>i<m. \<Sum>j<n. f (i * n + j)) = (\<Sum>i<m. sum f {i * n..<i * n + n})"
    by simp
  also have "\<dots> = sum f {..<m * n}" by (rule sum.nat_group)
  finally show ?thesis by simp
qed

lemma length_chunks:
  "(\<And>out. out < n \<Longrightarrow> a out + L \<le> length xs) \<Longrightarrow>
   length (concat (map (\<lambda>out. take L (drop (a out) xs)) [0..<n])) = n * L"
proof (induction n)
  case 0
  then show ?case by simp
next
  case (Suc n)
  have "a n + L \<le> length xs" using Suc.prems by simp
  then have "min (length xs - a n) L = L" by simp
  moreover have "length (concat (map (\<lambda>out. take L (drop (a out) xs)) [0..<n])) = n * L"
    using Suc.prems by (intro Suc.IH) simp
  ultimately show ?case by simp
qed

lemma sum_abs_diff_chunk:
  fixes xs :: "real list"
  assumes "a + L \<le> length xs" and "b + L \<le> length xs"
  shows "sum_list (map abs (map2 (-) (take L (drop a xs)) (take L (drop b xs))))
         = (\<Sum>i<L. \<bar>xs ! (a + i) - xs ! (b + i)\<bar>)"
proof -
  have "map abs (map2 (-) (take L (drop a xs)) (take L (drop b xs)))
        = map (\<lambda>i. \<bar>xs ! (a + i) - xs ! (b + i)\<bar>) [0..<L]"
    using assms by (auto intro!: nth_equalityI)
  then show ?thesis
    by (simp add: interv_sum_list_conv_sum_set_nat atLeast0LessThan)
qed

lemma sum_abs_diff_chunks:
  fixes xs :: "real list"
  assumes "\<And>out. out < n \<Longrightarrow> a out + L \<le> length xs"
      and "\<And>out. out < n \<Longrightarrow> b out + L \<le> length xs"
  shows "sum_list (map abs (map2 (-)
            (concat (map (\<lambda>out. take L (drop (a out) xs)) [0..<n]))
            (concat (map (\<lambda>out. take L (drop (b out) xs)) [0..<n]))))
         = (\<Sum>out<n. \<Sum>i<L. \<bar>xs ! (a out + i) - xs ! (b out + i)\<bar>)"
  using assms
proof (induction n)
  case 0
  then show ?case by simp
next
  case (Suc n)
  have la: "length (concat (map (\<lambda>out. take L (drop (a out) xs)) [0..<n])) = n * L"
    using Suc.prems(1) by (intro length_chunks) simp
  have lb: "length (concat (map (\<lambda>out. take L (drop (b out) xs)) [0..<n])) = n * L"
    using Suc.prems(2) by (intro length_chunks) simp
  have last: "sum_list (map abs (map2 (-) (take L (drop (a n) xs)) (take L (drop (b n) xs))))
         = (\<Sum>i<L. \<bar>xs ! (a n + i) - xs ! (b n + i)\<bar>)"
    using Suc.prems by (intro sum_abs_diff_chunk) simp_all
  have ih: "sum_list (map abs (map2 (-)
            (concat (map (\<lambda>out. take L (drop (a out) xs)) [0..<n]))
            (concat (map (\<lambda>out. take L (drop (b out) xs)) [0..<n]))))
         = (\<Sum>out<n. \<Sum>i<L. \<bar>xs ! (a out + i) - xs ! (b out + i)\<bar>)"
    using Suc.prems by (intro Suc.IH) simp_all
  let ?A = "concat (map (\<lambda>out. take L (drop (a out) xs)) [0..<n])"
  let ?B = "concat (map (\<lambda>out. take L (drop (b out) xs)) [0..<n])"
  let ?A' = "take L (drop (a n) xs)"
  let ?B' = "take L (drop (b n) xs)"
  have "map abs (map2 (-) (?A @ ?A') (?B @ ?B'))
        = map abs (map2 (-) ?A ?B) @ map abs (map2 (-) ?A' ?B')"
    using la lb by simp
  then have "sum_list (map abs (map2 (-) (?A @ ?A') (?B @ ?B')))
        = sum_list (map abs (map2 (-) ?A ?B)) + sum_list (map abs (map2 (-) ?A' ?B'))"
    by (simp only: sum_list_append)
  also have "\<dots> = (\<Sum>out<n. \<Sum>i<L. \<bar>xs ! (a out + i) - xs ! (b out + i)\<bar>)
        + (\<Sum>i<L. \<bar>xs ! (a n + i) - xs ! (b n + i)\<bar>)"
    by (simp only: ih last)
  finally show ?case by simp
qed

lemma slice_rows_from:
  assumes "shape t = [b, c, h, w]" and "1 \<le> h"
  shows "slice t 2 (Some 1) None =
     \<lparr>shape = [b, c, h - 1, w],
      entries = concat (map (\<lambda>out. take ((h - 1) * w) (drop ((out * h + 1) * w) (entries t)))
                  [0..<b * c])\<rparr>"
  using assms by (simp add: slice_def py_bound_def Let_def)

lemma slice_rows_to:
  assumes "shape t = [b, c, h, w]" and "1 \<le> h"
  shows "slice t 2 None (Some (int h - 1)) =
     \<lparr>shape = [b, c, h - 1, w],
      entries = concat (map (\<lambda>out. take ((h - 1) * w) (drop (out * h * w) (entries t)))
                  [0..<b * c])\<rparr>"
  using assms by (simp add: slice_def py_bound_def Let_def nat_diff_distrib)

lemma slice_cols_from:
  assumes "shape t = [b, c, h, w]" and "1 \<le> w"
  shows "slice t 3 (Some 1) None =
     \<lparr>shape = [b, c, h, w - 1],
      entries = concat (map (\<lambda>out. take (w - 1) (drop (out * w + 1) (entries t)))
                  [0..<b * c * h])\<rparr>"
  using assms by (simp add: slice_def py_bound_def Let_def mult.assoc)

lemma slice_cols_to:
  assumes "shape t = [b, c, h, w]" and "1 \<le> w"
  shows "slice t 3 None (Some (int w - 1)) =
     \<lparr>shape = [b, c, h, w - 1],
      entries = concat (map (\<lambda>out. take (w - 1) (drop (out * w) (entries t)))
                  [0..<b * c * h])\<rparr>"
  using assms by (simp add: slice_def py_bound_def Let_def nat_diff_distrib mult.assoc)


lemma h_tv_sum:
  assumes "shape t = [b, c, h, w]" and "well_formed t" and "1 \<le> h"
  shows "tsub (slice t 2 (Some 1) None) (slice t 2 None (Some (int h - 1))) = Inr dh
         \<Longrightarrow> tsum (torch_abs dh) = h_variation t"
proof -
  let ?E = "entries t"
  let ?L = "(h - 1) * w"
  assume d: "tsub (slice t 2 (Some 1) None) (slice t 2 None (Some (int h - 1))) = Inr dh"
  have len: "length ?E = b * c * h * w"
    using assms by (simp add: well_formed_def numel_def)
  have bound: "out * h * w + w + ?L \<le> length ?E" if "out < b * c" for out
  proof -
    have "out * (h * w) + h * w \<le> (b * c) * (h * w)"
      using that by (rule chunk_in_range)
    moreover have "w + ?L = h * w" using assms(3) by (simp add: algebra_simps)
    ultimately show ?thesis using len by (simp add: algebra_simps)
  qed
  have "entries (torch_abs dh) = map abs (map2 (-)
          (concat (map (\<lambda>out. take ?L (drop (out * h * w + w) ?E)) [0..<b * c]))
          (concat (map (\<lambda>out. take ?L (drop (out * h * w) ?E)) [0..<b * c])))"
    using d assms(1,3)
    by (auto simp add: slice_rows_from slice_rows_to tsub_def torch_abs_def algebra_simps)
  moreover have "sum_list (map abs (map2 (-)
          (concat (map (\<lambda>out. take ?L (drop (out * h * w + w) ?E)) [0..<b * c]))
          (concat (map (\<lambda>out. take ?L (drop (out * h * w) ?E)) [0..<b * c]))))
      = (\<Sum>out<b * c. \<Sum>i<?L. \<bar>?E ! (out * h * w + w + i) - ?E ! (out * h * w + i)\<bar>)"
  proof (rule sum_abs_diff_chunks)
    show "out * h * w + w + ?L \<le> length ?E" if "out < b * c" for out
      using that by (rule bound)
    show "out * h * w + ?L \<le> length ?E" if "out < b * c" for out
      using bound [OF that] by simp
  qed
  ultimately have flat: "tsum (torch_abs dh)
      = (\<Sum>out<b * c. \<Sum>i<?L. \<bar>?E ! (out * h * w + w + i) - ?E ! (out * h * w + i)\<bar>)"
    by (simp only: tsum_def)
  have "h_variation t = (\<Sum>n<b. \<Sum>ch<c. \<Sum>y<h - 1. \<Sum>x<w.
      \<bar>?E ! ((n * c + ch) * h * w + w + (y * w + x)) - ?E ! ((n * c + ch) * h * w + (y * w + x))\<bar>)"
    using assms(1) by (simp add: h_variation_def px_def algebra_simps)
  also have "\<dots> = (\<Sum>out<b * c. \<Sum>i<?L. \<bar>?E ! (out * h * w + w + i) - ?E ! (out * h * w + i)\<bar>)"
    by (simp add: sum_group)
  finally show ?thesis using flat by simp
qed


lemma w_tv_sum:
  assumes "shape t = [b, c, h, w]" and "well_formed t" and "1 \<le> w"
  shows "tsub (slice t 3 (Some 1) None) (slice t 3 None (Some (int w - 1))) = Inr dw
         \<Longrightarrow> tsum (torch_abs dw) = w_variation t"
proof -
  let ?E = "entries t"
  let ?L = "w - 1"
  assume d: "tsub (slice t 3 (Some 1) None) (slice t 3 None (Some (int w - 1))) = Inr dw"
  have len: "length ?E = b * c * h * w"
    using assms by (simp add: well_formed_def numel_def)
  have bound: "out * w + 1 + ?L \<le> length ?E" if "out < b * c * h" for out
  proof -
    have "out * w + w \<le> (b * c * h) * w"
      using that by (rule chunk_in_range)
    then show ?thesis using len assms(3) by simp
  qed
  have "entries (torch_abs dw) = map abs (map2 (-)
          (concat (map (\<lambda>out. take ?L (drop (out * w + 1) ?E)) [0..<b * c * h]))
          (concat (map (\<lambda>out. take ?L (drop (out * w) ?E)) [0..<b * c * h])))"
    using d assms(1,3)
    by (auto simp add: slice_cols_from slice_cols_to tsub_def torch_abs_def)
  moreover have "sum_list (map abs (map2 (-)
          (concat (map (\<lambda>out. take ?L (drop (out * w + 1) ?E)) [0..<b * c * h]))
          (concat (map (\<lambda>out. take ?L (drop (out * w) ?E)) [0..<b * c * h]))))
      = (\<Sum>out<b * c * h. \<Sum>i<?L. \<bar>?E ! (out * w + 1 + i) - ?E ! (out * w + i)\<bar>)"
  proof (rule sum_abs_diff_chunks)
    show "out * w + 1 + ?L \<le> length ?E" if "out < b * c * h" for out
      using that by (rule bound)
    show "out * w + ?L \<le> length ?E" if "out < b * c * h" for out
      using bound [OF that] by simp
  qed
  ultimately have flat: "tsum (torch_abs dw)
      = (\<Sum>out<b * c * h. \<Sum>i<?L. \<bar>?E ! (out * w + 1 + i) - ?E ! (out * w + i)\<bar>)"
    by (simp only: tsum_def)
  have "w_variation t = (\<Sum>n<b. \<Sum>ch<c. \<Sum>y<h. \<Sum>x<w - 1.
      \<bar>?E ! (((n * c + ch) * h + y) * w + 1 + x) - ?E ! (((n * c + ch) * h + y) * w + x)\<bar>)"
    using assms(1) by (simp add: w_variation_def px_def)
  also have "\<dots> = (\<Sum>out<b * c * h. \<Sum>i<?L. \<bar>?E ! (out * w + 1 + i) - ?E ! (out * w + i)\<bar>)"
    by (simp add: sum_group)
  finally show ?thesis using flat by simp
qed

text \<open>
  Claim C4. For a target of shape \<open>(b, c, h, w)\<close> with at least two rows, two columns
  and one image, the total-variation loss is
  \<open>2 * (H / ((h - 1) * w) + W / (h * (w - 1))) / b\<close>, where \<open>H\<close> is the sum of the
  absolute differences of vertically adjacent pixels and \<open>W\<close> that of horizontally
  adjacent pixels.
\<close>

theorem tv_loss_formula:
  assumes "shape t = [b, c, h, w]" and "well_formed t"
      and "2 \<le> h" and "2 \<le> w" and "1 \<le> b"
  shows "tv_loss t = Inr (Some (2 * (h_variation t / real ((h - 1) * w)
                                    + w_variation t / real (h * (w - 1))) / real b))"
proof -
  obtain dh where dh: "tsub (slice t 2 (Some 1) None) (slice t 2 None (Some (int h - 1))) = Inr dh"
    using assms(1,3) by (simp add: slice_rows_from slice_rows_to tsub_def)
  obtain dw where dw: "tsub (slice t 3 (Some 1) None) (slice t 3 None (Some (int w - 1))) = Inr dw"
    using assms(1,4) by (simp add: slice_cols_from slice_cols_to tsub_def)
  have h: "tsum (torch_abs dh) = h_variation t"
    using assms(1,2,3) dh by (intro h_tv_sum) simp_all
  have w: "tsum (torch_abs dw) = w_variation t"
    using assms(1,2,4) dw by (intro w_tv_sum) simp_all
  have unfolded: "tv_loss t = Inr (sdiv (smul 2 (sadd
        (sdiv (Some (h_variation t)) ((int h - 1) * int w))
        (sdiv (Some (w_variation t)) (int h * (int w - 1))))) (int b))"
    using assms(1) by (simp add: tv_loss_def size_at_def bindE_def dh dw h w Let_def)
  have ch: "sdiv (Some x) ((int h - 1) * int w) = Some (x / real ((h - 1) * w))" for x
    using assms(3,4) by (simp add: sdiv_def of_nat_diff)
  have cw: "sdiv (Some x) (int h * (int w - 1)) = Some (x / real (h * (w - 1)))" for x
    using assms(3,4) by (simp add: sdiv_def of_nat_diff)
  have cb: "sdiv (Some x) (int b) = Some (x / real b)" for x
    using assms(5) by (simp add: sdiv_def)
  show ?thesis
    by (simp only: unfolded ch cw sadd_def smul_def cb option.map prod.case option.case)
qed


lemma example_h_variation: "h_variation example_content = 12"
  by (simp add: h_variation_def px_def example_content_def eval_nat_numeral)

lemma example_w_variation: "w_variation example_content = 6"
  by (simp add: w_variation_def px_def example_content_def eval_nat_numeral)

theorem tv_loss_formula_witness:
  "shape example_content = [1, 3, 2, 2] \<and> well_formed example_content \<and>
   (2::nat) \<le> 2 \<and> (1::nat) \<le> 1 \<and> tv_loss example_content = Inr (Some 18)"
  using tv_loss_formula [of example_content 1 3 2 2] example_h_variation example_w_variation
  by (simp add: example_content_def well_formed_def numel_def)

section \<open>Content loss\<close>

lemma sq_diff_comp: "(\<lambda>v. v ^ 2) \<circ> (\<lambda>(x, y). x - y) = (\<lambda>(u, v :: real). (u - v) ^ 2)"
  by (simp add: fun_eq_iff)

lemma mse_same_shape:
  assumes "shape a = shape b" and "length (entries a) = length (entries b)"
      and "entries a \<noteq> []"
  shows "mse a b = Inr (Some (mean_sq a b))"
proof -
  have "entries b \<noteq> []" using assms(2,3) by auto
  then show ?thesis
    using assms
    by (simp add: mse_def tsub_def bindE_def mean_def pow2_def mean_sq_def sq_diff_comp)
qed

lemma content_layers_weights_eq:
  "content_layers_weights blend = [(''conv3_2'', blend), (''conv4_2'', 1 - blend)]"
  by (simp add: content_layers_weights_def)

lemma content_loss_step:
  assumes "map_of tf l = Some t" and "map_of cf l = Some c"
      and "shape t = shape c" and "length (entries t) = length (entries c)"
      and "entries t \<noteq> []"
  shows "content_loss_loop ((l, wt) # rest) tf cf (Some acc)
         = content_loss_loop rest tf cf (Some (acc + wt * mean_sq t c))"
  using assms by (simp add: lookup_def bindE_def mse_same_shape sadd_def smul_def)

text \<open>
  Claim C1, as the code has it. The content loss is a blend over two layers:
  \<open>content_weight_blend\<close> times the mean squared error between the target's and the
  content image's feature maps at \<open>conv3_2\<close>, plus \<open>1 - content_weight_blend\<close> times
  that at \<open>conv4_2\<close>. With the default \<open>content_weight_blend = 1\<close> it is the mean
  squared error at the one layer \<open>conv3_2\<close>.
\<close>

theorem content_loss_blend:
  assumes "map_of tf ''conv3_2'' = Some t3" and "map_of cf ''conv3_2'' = Some c3"
      and "shape t3 = shape c3" and "length (entries t3) = length (entries c3)"
      and "entries t3 \<noteq> []"
      and "map_of tf ''conv4_2'' = Some t4" and "map_of cf ''conv4_2'' = Some c4"
      and "shape t4 = shape c4" and "length (entries t4) = length (entries c4)"
      and "entries t4 \<noteq> []"
  shows "content_loss (content_layers_weights blend) tf cf
           = Inr (Some (blend * mean_sq t3 c3 + (1 - blend) * mean_sq t4 c4)) \<and>
         content_loss (content_layers_weights (content_weight_blend (defaults cp sp outp))) tf cf
           = Inr (Some (mean_sq t3 c3))"
  using assms
  by (simp add: content_loss_def content_layers_weights_eq content_loss_step defaults_def
      del: content_loss_loop.simps(2))

text \<open>
  For \<open>content_weight_blend = 1/2\<close> and feature maps whose mean squared errors are 1 at
  \<open>conv3_2\<close> and 4 at \<open>conv4_2\<close>, the content loss is 5/2: the mean squared error
  of neither layer.
\<close>

theorem content_loss_one_layer_counterexample:
  "content_loss (content_layers_weights (1 / 2)) blend_target_features blend_content_features
     = Inr (Some (5 / 2)) \<and>
   mse \<lparr>shape = [1, 1, 1, 1], entries = [1]\<rparr> \<lparr>shape = [1, 1, 1, 1], entries = [0]\<rparr>
     = Inr (Some 1) \<and>
   mse \<lparr>shape = [1, 1, 1, 1], entries = [2]\<rparr> \<lparr>shape = [1, 1, 1, 1], entries = [0]\<rparr>
     = Inr (Some 4)"
  by (simp add: content_loss_def content_layers_weights_def blend_target_features_def
      blend_content_features_def lookup_def bindE_def mse_def tsub_def pow2_def mean_def
      sadd_def smul_def)

theorem content_loss_blend_witness:
  "content_loss (content_layers_weights (1 / 2)) blend_target_features blend_content_features
     = Inr (Some (1 / 2 * mean_sq \<lparr>shape = [1, 1, 1, 1], entries = [1]\<rparr>
                                  \<lparr>shape = [1, 1, 1, 1], entries = [0]\<rparr>
                + (1 - 1 / 2) * mean_sq \<lparr>shape = [1, 1, 1, 1], entries = [2]\<rparr>
                                        \<lparr>shape = [1, 1, 1, 1], entries = [0]\<rparr>)) \<and>
   content_loss (content_layers_weights 1) blend_target_features blend_content_features
     = Inr (Some 1)"
  using content_loss_blend [of blend_target_features "\<lparr>shape = [1, 1, 1, 1], entries = [1]\<rparr>"
      blend_content_features "\<lparr>shape = [1, 1, 1, 1], entries = [0]\<rparr>"
      "\<lparr>shape = [1, 1, 1, 1], entries = [2]\<rparr>" "\<lparr>shape = [1, 1, 1, 1], entries = [0]\<rparr>"
      "1 / 2" "''c''" "''s''" "''o''"]
  by (simp add: blend_target_features_def blend_content_features_def defaults_def mean_sq_def)

section \<open>Style loss\<close>

lemma style_layers_weights_eq:
  "style_layers_weights e =
     [(''conv1_1'', 1), (''conv2_1'', e), (''conv3_1'', e ^ 2), (''conv4_1'', e ^ 3),
      (''conv5_1'', e ^ 4)]"
  by (simp add: style_layers_weights_def style_layers_def power2_eq_square power3_eq_cube
      power4_eq_xxxx)

lemma gram_matrix_shape:
  assumes "shape t = [1, d, h, w]"
  shows "\<exists>g. gram_matrix t = Inr g \<and> shape g = [d, d] \<and> length (entries g) = d * d"
  using assms
  by (simp add: gram_matrix_def view_def numel_def tensor_t_def mm_def bindE_def)

lemma style_loss_step:
  assumes "map_of tf l = Some t" and "shape t = [1, d, h, w]" and "0 < d * h * w"
      and "gram_matrix t = Inr g"
      and "map_of style_gms l = Some s" and "shape s = [d, d]" and "length (entries s) = d * d"
  shows "style_loss_loop ((l, wt) # rest) tf style_gms (Some acc)
         = style_loss_loop rest tf style_gms (Some (acc + wt * mean_sq g s / real (d * h * w)))"
proof -
  obtain g' where g': "gram_matrix t = Inr g'" "shape g' = [d, d]" "length (entries g') = d * d"
    using gram_matrix_shape [OF assms(2)] by blast
  with assms(4) have g: "shape g = [d, d]" "length (entries g) = d * d" by simp_all
  have "entries g \<noteq> []" using g(2) assms(3) by auto
  then have m: "mse g s = Inr (Some (mean_sq g s))"
    using g assms(6,7) by (intro mse_same_shape) simp_all
  show ?thesis
    using assms(1,2,3,4,5) m
    by (simp add: lookup_def bindE_def sadd_def smul_def sdiv_def)
qed

lemma gram_all_lookup:
  "gram_all sf = Inr gms \<Longrightarrow> map_of sf l = Some x \<Longrightarrow>
   \<exists>g. gram_matrix x = Inr g \<and> map_of gms l = Some g"
proof (induction sf arbitrary: gms)
  case Nil
  then show ?case by simp
next
  case (Cons p sf)
  obtain l' x' where p: "p = (l', x')" by (cases p)
  from Cons.prems(1) p obtain g' gs where
    g: "gram_matrix x' = Inr g'" "gram_all sf = Inr gs" "gms = (l', g') # gs"
    by (auto simp add: bindE_def split: sum.splits)
  show ?case
  proof (cases "l' = l")
    case True
    then show ?thesis using Cons.prems(2) p g by simp
  next
    case False
    then have "map_of sf l = Some x" using Cons.prems(2) p by simp
    from Cons.IH [OF g(2) this] show ?thesis using False g(3) by simp
  qed
qed

text \<open>
  Claim C3. The style loss is the sum, over the five style layers \<open>conv1_1\<close>,
  \<open>conv2_1\<close>, \<open>conv3_1\<close>, \<open>conv4_1\<close>, \<open>conv5_1\<close>, of the mean squared
  difference between the Gram matrix of the target's feature map and the Gram matrix of
  the style image's feature map, multiplied by the layer's weight (the \<open>k\<close>-th power of
  \<open>style_layer_weight_exp\<close> for the \<open>k\<close>-th layer) and divided by the size
  \<open>d * h * w\<close> of the layer.
\<close>

theorem style_loss_sum:
  assumes "gram_all style_features = Inr style_gms"
      and "\<forall>k<5. map_of tf (style_layers ! k) = Some (T k) \<and>
             shape (T k) = [1, d k, h k, w k] \<and> 0 < d k * h k * w k \<and>
             gram_matrix (T k) = Inr (G k) \<and>
             map_of style_features (style_layers ! k) = Some (X k) \<and>
             shape (X k) = [1, d k, h' k, w' k] \<and> gram_matrix (X k) = Inr (S k)"
  shows "style_loss (style_layers_weights e) tf style_gms
         = Inr (Some (\<Sum>k<5. e ^ k * mean_sq (G k) (S k) / real (d k * h k * w k)))"
proof -
  have step: "style_loss_loop ((style_layers ! k, wt) # rest) tf style_gms (Some acc)
      = style_loss_loop rest tf style_gms
          (Some (acc + wt * mean_sq (G k) (S k) / real (d k * h k * w k)))"
    if "k < 5" for k wt rest acc
  proof (rule style_loss_step)
    show "map_of tf (style_layers ! k) = Some (T k)" using assms(2) that by simp
    show "shape (T k) = [1, d k, h k, w k]" using assms(2) that by simp
    show "0 < d k * h k * w k" using assms(2) that by simp
    show "gram_matrix (T k) = Inr (G k)" using assms(2) that by simp
    have x: "map_of style_features (style_layers ! k) = Some (X k)"
      "shape (X k) = [1, d k, h' k, w' k]" "gram_matrix (X k) = Inr (S k)"
      using assms(2) that by simp_all
    from gram_all_lookup [OF assms(1) x(1)] x(3)
    show "map_of style_gms (style_layers ! k) = Some (S k)" by simp
    from gram_matrix_shape [OF x(2)] x(3)
    show "shape (S k) = [d k, d k]" "length (entries (S k)) = d k * d k" by auto
  qed
  have l0: "style_loss_loop ((''conv1_1'', wt) # rest) tf style_gms (Some acc)
      = style_loss_loop rest tf style_gms
          (Some (acc + wt * mean_sq (G 0) (S 0) / real (d 0 * h 0 * w 0)))"
    for wt rest acc
    using step [of 0 wt rest acc] by (simp add: style_layers_def del: style_loss_loop.simps)
  have l1: "style_loss_loop ((''conv2_1'', wt) # rest) tf style_gms (Some acc)
      = style_loss_loop rest tf style_gms
          (Some (acc + wt * mean_sq (G 1) (S 1) / real (d 1 * h 1 * w 1)))"
    for wt rest acc
    using step [of 1 wt rest acc] by (simp add: style_layers_def del: style_loss_loop.simps)
  have l2: "style_loss_loop ((''conv3_1'', wt) # rest) tf style_gms (Some acc)
      = style_loss_loop rest tf style_gms
          (Some (acc + wt * mean_sq (G 2) (S 2) / real (d 2 * h 2 * w 2)))"
    for wt rest acc
    using step [of 2 wt rest acc] by (simp add: style_layers_def del: style_loss_loop.simps)
  have l3: "style_loss_loop ((''conv4_1'', wt) # rest) tf style_gms (Some acc)
      = style_loss_loop rest tf style_gms
          (Some (acc + wt * mean_sq (G 3) (S 3) / real (d 3 * h 3 * w 3)))"
    for wt rest acc
    using step [of 3 wt rest acc] by (simp add: style_layers_def del: style_loss_loop.simps)
  have l4: "style_loss_loop ((''conv5_1'', wt) # rest) tf style_gms (Some acc)
      = style_loss_loop rest tf style_gms
          (Some (acc + wt * mean_sq (G 4) (S 4) / real (d 4 * h 4 * w 4)))"
    for wt rest acc
    using step [of 4 wt rest acc] by (simp add: style_layers_def del: style_loss_loop.simps)
  have "(\<Sum>k<5. e ^ k * mean_sq (G k) (S k) / real (d k * h k * w k))
      = 1 * mean_sq (G 0) (S 0) / real (d 0 * h 0 * w 0)
        + e * mean_sq (G 1) (S 1) / real (d 1 * h 1 * w 1)
        + e ^ 2 * mean_sq (G 2) (S 2) / real (d 2 * h 2 * w 2)
        + e ^ 3 * mean_sq (G 3) (S 3) / real (d 3 * h 3 * w 3)
        + e ^ 4 * mean_sq (G 4) (S 4) / real (d 4 * h 4 * w 4)"
    by (simp add: eval_nat_numeral)
  moreover have "style_loss (style_layers_weights e) tf style_gms
      = Inr (Some (0 + 1 * mean_sq (G 0) (S 0) / real (d 0 * h 0 * w 0)
        + e * mean_sq (G 1) (S 1) / real (d 1 * h 1 * w 1)
        + e ^ 2 * mean_sq (G 2) (S 2) / real (d 2 * h 2 * w 2)
        + e ^ 3 * mean_sq (G 3) (S 3) / real (d 3 * h 3 * w 3)
        + e ^ 4 * mean_sq (G 4) (S 4) / real (d 4 * h 4 * w 4)))"
    by (simp only: style_loss_def style_layers_weights_eq l0 l1 l2 l3 l4 style_loss_loop.simps(1))
  ultimately show ?thesis by simp
qed

lemma example_gram_content:
  "gram_matrix example_content
     = Inr \<lparr>shape = [3, 3], entries = [30, 70, 110, 70, 174, 278, 110, 278, 446]\<rparr>"
  by (simp add: gram_matrix_def view_def numel_def tensor_t_def mm_def bindE_def
      example_content_def tabulate2_def inner_def row_def col_def eval_nat_numeral)

lemma example_gram_style:
  "gram_matrix example_style
     = Inr \<lparr>shape = [3, 3], entries = [33, 79, 119, 79, 191, 290, 119, 290, 446]\<rparr>"
  by (simp add: gram_matrix_def view_def numel_def tensor_t_def mm_def bindE_def
      example_style_def tabulate2_def inner_def row_def col_def eval_nat_numeral)

lemma example_gram_all:
  "gram_all (example_features example_style)
     = Inr (example_features \<lparr>shape = [3, 3], entries = [33, 79, 119, 79, 191, 290, 119, 290, 446]\<rparr>)"
  by (simp add: example_features_def style_layers_def example_gram_style bindE_def)


lemma example_features_lookup:
  "k < 5 \<Longrightarrow> map_of (example_features x) (style_layers ! k) = Some x"
proof -
  assume "k < 5"
  then consider "k = 0" | "k = 1" | "k = 2" | "k = 3" | "k = 4" by linarith
  then show ?thesis
    by cases (simp_all add: example_features_def style_layers_def)
qed

theorem style_loss_sum_witness:
  "gram_all (example_features example_style)
     = Inr (example_features \<lparr>shape = [3, 3], entries = [33, 79, 119, 79, 191, 290, 119, 290, 446]\<rparr>) \<and>
   style_loss (style_layers_weights 2) (example_features example_content)
     (example_features \<lparr>shape = [3, 3], entries = [33, 79, 119, 79, 191, 290, 119, 290, 446]\<rparr>)
     = Inr (Some (14105 / 54))"
proof -
  let ?GC = "\<lparr>shape = [3, 3], entries = [30, 70, 110, 70, 174, 278, 110, 278, 446]\<rparr>"
  let ?GS = "\<lparr>shape = [3, 3], entries = [33, 79, 119, 79, 191, 290, 119, 290, 446]\<rparr>"
  have m: "mean_sq ?GC ?GS = 910 / 9" by (simp add: mean_sq_def)
  have sh: "shape example_content = [1, 3, 2, 2]" "shape example_style = [1, 3, 2, 2]"
    by (simp_all add: example_content_def example_style_def)
  have "\<forall>k<5. map_of (example_features example_content) (style_layers ! k) = Some example_content \<and>
             shape example_content = [1, 3, 2, 2] \<and> 0 < (3::nat) * 2 * 2 \<and>
             gram_matrix example_content = Inr ?GC \<and>
             map_of (example_features example_style) (style_layers ! k) = Some example_style \<and>
             shape example_style = [1, 3, 2, 2] \<and> gram_matrix example_style = Inr ?GS"
    using sh by (simp add: example_features_lookup example_gram_content example_gram_style)
  from style_loss_sum [OF example_gram_all, of "example_features example_content"
      "\<lambda>k. example_content" "\<lambda>k. 3" "\<lambda>k. 2" "\<lambda>k. 2" "\<lambda>k. ?GC" "\<lambda>k. example_style"
      "\<lambda>k. 2" "\<lambda>k. 2" "\<lambda>k. ?GS" 2, OF this]
  have "style_loss (style_layers_weights 2) (example_features example_content)
     (example_features ?GS) = Inr (Some (\<Sum>k<5. 2 ^ k * (910 / 9) / real (3 * 2 * 2)))"
    by (simp only: m)
  moreover have "(\<Sum>k<5. 2 ^ k * (910 / 9) / real (3 * 2 * 2)) = (14105 / 54 :: real)"
    by (simp add: eval_nat_numeral)
  ultimately show ?thesis using example_gram_all by simp
qed

section \<open>The store under the optimizer\<close>

lemma fold_zero_grad:
  "data (fold (\<lambda>p s'. s'(p := (s' p)\<lparr>grad := None\<rparr>)) ps s q) = data (s q) \<and>
   requires_grad (fold (\<lambda>p s'. s'(p := (s' p)\<lparr>grad := None\<rparr>)) ps s q) = requires_grad (s q) \<and>
   (q \<notin> set ps \<longrightarrow> fold (\<lambda>p s'. s'(p := (s' p)\<lparr>grad := None\<rparr>)) ps s q = s q)"
  by (induction ps arbitrary: s) auto

lemma fold_backward:
  "data (fold (\<lambda>p s'. if requires_grad (s' p)
                   then s'(p := (s' p)\<lparr>grad := Some (G s' p)\<rparr>)
                   else s') ps s q) = data (s q) \<and>
   requires_grad (fold (\<lambda>p s'. if requires_grad (s' p)
                   then s'(p := (s' p)\<lparr>grad := Some (G s' p)\<rparr>)
                   else s') ps s q) = requires_grad (s q) \<and>
   (\<not> requires_grad (s q) \<longrightarrow> fold (\<lambda>p s'. if requires_grad (s' p)
                   then s'(p := (s' p)\<lparr>grad := Some (G s' p)\<rparr>)
                   else s') ps s q = s q)"
  by (induction ps arbitrary: s) auto

lemma zero_grad_frame:
  "data (zero_grad opt s q) = data (s q)"
  "requires_grad (zero_grad opt s q) = requires_grad (s q)"
  "q \<notin> set (param_groups opt) \<Longrightarrow> zero_grad opt s q = s q"
  using fold_zero_grad [of "param_groups opt" s q] by (simp_all add: zero_grad_def)

lemma accumulate_grads_frame:
  "data (accumulate_grads dv obj leaves s q) = data (s q)"
  "requires_grad (accumulate_grads dv obj leaves s q) = requires_grad (s q)"
  "\<not> requires_grad (s q) \<Longrightarrow> accumulate_grads dv obj leaves s q = s q"
  using fold_backward [of "\<lambda>s' p. accumulate (grad (s' p)) (dv obj s p)" "remdups leaves" s q]
  by (simp_all add: accumulate_grads_def)

lemma fold_no_grad:
  "\<forall>p \<in> set ps. \<not> requires_grad (s p) \<Longrightarrow>
   fold (\<lambda>p s'. if requires_grad (s' p)
                 then s'(p := (s' p)\<lparr>grad := Some (G s' p)\<rparr>)
                 else s') ps s = s"
  by (induction ps arbitrary: s) auto

lemma accumulate_grads_target:
  assumes "requires_grad (s tgt)" and "tgt \<notin> set ps" and "\<forall>p \<in> set ps. \<not> requires_grad (s p)"
  shows "accumulate_grads dv obj (tgt # ps) s =
         s(tgt := (s tgt)\<lparr>grad := Some (accumulate (grad (s tgt)) (dv obj s tgt))\<rparr>)"
proof -
  define s1 where "s1 = s(tgt := (s tgt)\<lparr>grad := Some (accumulate (grad (s tgt)) (dv obj s tgt))\<rparr>)"
  have "\<forall>p \<in> set (remdups ps). \<not> requires_grad (s1 p)"
    using assms(2,3) by (auto simp add: s1_def)
  then have f: "fold (\<lambda>p s'. if requires_grad (s' p)
                   then s'(p := (s' p)\<lparr>grad := Some (accumulate (grad (s' p)) (dv obj s p))\<rparr>)
                   else s') (remdups ps) s1 = s1"
    by (rule fold_no_grad)
  have "accumulate_grads dv obj (tgt # ps) s =
      fold (\<lambda>p s'. if requires_grad (s' p)
                   then s'(p := (s' p)\<lparr>grad := Some (accumulate (grad (s' p)) (dv obj s p))\<rparr>)
                   else s') (remdups ps) s1"
    using assms(1,2) by (simp add: accumulate_grads_def s1_def)
  from this f have "accumulate_grads dv obj (tgt # ps) s = s1" by (rule trans)
  then show ?thesis by (simp only: s1_def)
qed

lemma parameters_loss_layers:
  "set (parameters (loss_layers model used)) \<subseteq> set (parameters model)"
proof -
  have "set (loss_layers model used) \<subseteq> set model"
    by (auto simp add: loss_layers_def dest: set_dropWhileD)
  then show ?thesis by (fastforce simp add: parameters_def)
qed

lemma backward_detached:
  "backward dv obj leaves Detached s = Inr (Detached, accumulate_grads dv obj leaves s)"
  by (simp add: backward_def)

lemma set_update_flags:
  "(k, v) \<in> set (AList.update key b flags) \<Longrightarrow> (k, v) \<in> set flags \<or> v = b"
  by (induction flags) (auto split: if_splits)

lemma requires_grad_loop_frozen:
  assumes "\<forall>p \<in> set (parameters model). \<not> requires_grad (s p)"
      and "\<forall>(k, v) \<in> set flags. \<not> v"
  shows "\<forall>(k, v) \<in> set (requires_grad_loop s model layers False flags). \<not> v"
  using assms
proof (induction model arbitrary: flags)
  case Nil
  then show ?case by simp
next
  case (Cons m model)
  obtain name l where m: "m = (name, l)" by (cases m)
  have here: "\<not> list_ex (\<lambda>p. requires_grad (s p)) (lparams l)"
    using Cons.prems(1) m by (auto simp add: parameters_def list_ex_iff)
  have rest: "\<forall>p \<in> set (parameters model). \<not> requires_grad (s p)"
    using Cons.prems(1) by (simp add: parameters_def)
  have fl: "\<forall>(k, v) \<in> set (case map_of layers name of
           Some key \<Rightarrow> AList.update key False flags
         | None \<Rightarrow> flags). \<not> v"
    using Cons.prems(2) by (auto split: option.splits dest: set_update_flags)
  show ?case
    using Cons.IH [OF rest fl] here by (simp add: m)
qed

lemma shared_graph_frozen:
  assumes "frozen model s"
  shows "shared_graph s model used = Detached"
proof -
  have "\<forall>(k, v) \<in> set (features_require_grad s model). \<not> v"
    unfolding features_require_grad_def
    by (rule requires_grad_loop_frozen) (use assms in \<open>simp_all add: frozen_def\<close>)
  then have "map_of (features_require_grad s model) l \<noteq> Some True" for l
    by (auto dest: map_of_SomeD)
  then show ?thesis by (simp add: shared_graph_def list_ex_iff)
qed

lemma fold_step:
  "(q \<notin> set ps \<longrightarrow> snd (fold (\<lambda>p (opt', s').
             case grad (s' p) of
               None \<Rightarrow> (opt', s')
             | Some g \<Rightarrow>
                 (case update (opt_lr opt') (opt_state opt' p) (data (s' p)) g of
                    (x, st) \<Rightarrow> (opt'\<lparr>opt_state := (opt_state opt')(p := Some st)\<rparr>,
                                s'(p := (s' p)\<lparr>data := x\<rparr>)))) ps (opt, s)) q = s q) \<and>
   param_groups (fst (fold (\<lambda>p (opt', s').
             case grad (s' p) of
               None \<Rightarrow> (opt', s')
             | Some g \<Rightarrow>
                 (case update (opt_lr opt') (opt_state opt' p) (data (s' p)) g of
                    (x, st) \<Rightarrow> (opt'\<lparr>opt_state := (opt_state opt')(p := Some st)\<rparr>,
                                s'(p := (s' p)\<lparr>data := x\<rparr>)))) ps (opt, s))) = param_groups opt"
  by (induction ps arbitrary: opt s) (auto split: option.splits prod.splits)

lemma step_frame:
  "q \<notin> set (param_groups opt) \<Longrightarrow> snd (step update opt s) q = s q"
  "param_groups (fst (step update opt s)) = param_groups opt"
  using fold_step [of q "param_groups opt" update opt s] by (simp_all add: step_def)

lemma step_single:
  assumes "param_groups opt = [p]"
  shows "\<exists>x. snd (step update opt s) = s(p := (s p)\<lparr>data := x\<rparr>) \<and>
             (grad (s p) = None \<longrightarrow> x = data (s p)) \<and>
             (\<forall>g. grad (s p) = Some g \<longrightarrow>
                x = fst (update (opt_lr opt) (opt_state opt p) (data (s p)) g))"
  using assms by (auto simp add: step_def split: option.splits prod.splits)

lemma forward_loop_frame:
  assumes "\<forall>p \<in> set (parameters model). data (s p) = data (s' p)"
  shows "forward_loop s model layers x f = forward_loop s' model layers x f"
  using assms
proof (induction model arbitrary: x f)
  case Nil
  then show ?case by simp
next
  case (Cons m model)
  obtain name l where m: "m = (name, l)" by (cases m)
  have w: "map (\<lambda>a. data (s a)) (lparams l) = map (\<lambda>a. data (s' a)) (lparams l)"
    using Cons.prems m by (simp add: parameters_def)
  have rest: "\<forall>p \<in> set (parameters model). data (s p) = data (s' p)"
    using Cons.prems by (simp add: parameters_def)
  show ?case
    using Cons.IH [OF rest] by (simp add: m w)
qed

lemma get_features_frame:
  "\<forall>p \<in> set (parameters model). data (s p) = data (s' p) \<Longrightarrow>
   get_features s x model = get_features s' x model"
  by (simp add: get_features_def forward_loop_frame)

lemma shaped_lookup:
  assumes "shaped dims f" and "l \<in> set recorded_layers"
  shows "\<exists>t. map_of f l = Some t \<and> shape t = [1, fst (dims l), fst (snd (dims l)), snd (snd (dims l))]"
proof -
  from assms obtain t where t: "map_of f l = Some t" by (auto simp add: shaped_def)
  then have "(l, t) \<in> set f" by (rule map_of_SomeD)
  with assms(1) have "shape t = [1, fst (dims l), fst (snd (dims l)), snd (snd (dims l))]"
    by (auto simp add: shaped_def)
  with t show ?thesis by simp
qed

lemma mse_ok: "shape a = shape b \<Longrightarrow> \<exists>m. mse a b = Inr m"
  by (simp add: mse_def tsub_def bindE_def)

lemma content_loss_ok:
  assumes "shaped dims tf" and "shaped dims cf"
  shows "\<exists>c. content_loss (content_layers_weights blend) tf cf = Inr c"
proof -
  have layer: "\<exists>t c m. map_of tf l = Some t \<and> map_of cf l = Some c \<and> mse t c = Inr m"
    if "l \<in> set recorded_layers" for l
  proof -
    from shaped_lookup [OF assms(1) that] shaped_lookup [OF assms(2) that]
    obtain t c where "map_of tf l = Some t" "map_of cf l = Some c" "shape t = shape c"
      by auto
    with mse_ok [of t c] show ?thesis by auto
  qed
  from layer [of "''conv3_2''"] layer [of "''conv4_2''"]
  show ?thesis
    by (auto simp add: content_loss_def content_layers_weights_eq lookup_def bindE_def
        recorded_layers_def default_layers_def)
qed

lemma gram_all_ok:
  "(\<forall>(l, t) \<in> set sf. \<exists>d h w. shape t = [1, d, h, w]) \<Longrightarrow> \<exists>gms. gram_all sf = Inr gms"
proof (induction sf)
  case Nil
  then show ?case by simp
next
  case (Cons p sf)
  obtain l t where p: "p = (l, t)" by (cases p)
  with Cons.prems obtain d h w where "shape t = [1, d, h, w]" by auto
  from gram_matrix_shape [OF this] obtain g where "gram_matrix t = Inr g" by blast
  moreover from Cons obtain gs where "gram_all sf = Inr gs" by auto
  ultimately show ?case by (simp add: p bindE_def)
qed

lemma style_loss_loop_ok:
  assumes "\<forall>(l, wt) \<in> set ws. \<exists>t d h w g. map_of tf l = Some t \<and> shape t = [1, d, h, w] \<and>
             map_of gms l = Some g \<and> shape g = [d, d]"
  shows "\<exists>r. style_loss_loop ws tf gms acc = Inr r"
  using assms
proof (induction ws arbitrary: acc)
  case Nil
  then show ?case by simp
next
  case (Cons p ws)
  obtain l wt where p: "p = (l, wt)" by (cases p)
  with Cons.prems obtain t d h w g where
    l: "map_of tf l = Some t" "shape t = [1, d, h, w]" "map_of gms l = Some g" "shape g = [d, d]"
    by auto
  from gram_matrix_shape [OF l(2)] obtain tg where tg: "gram_matrix t = Inr tg" "shape tg = [d, d]"
    by blast
  from mse_ok [of tg g] tg(2) l(4) obtain m where m: "mse tg g = Inr m" by auto
  have "\<exists>r. style_loss_loop ws tf gms acc' = Inr r" for acc'
    using Cons.prems by (intro Cons.IH) simp
  then show ?case
    using l tg m by (simp add: p lookup_def bindE_def)
qed

lemma tv_loss_ok: "shape x = [b, c, h, w] \<Longrightarrow> \<exists>t. tv_loss x = Inr t"
  by (cases "h = 0"; cases "w = 0")
    (simp_all add: tv_loss_def size_at_def bindE_def tsub_def slice_def py_bound_def Let_def
      nat_diff_distrib)

lemma style_gms_shaped:
  assumes "gram_all sf = Inr gms" and "shaped dims sf" and "l \<in> set recorded_layers"
  shows "\<exists>g. map_of gms l = Some g \<and> shape g = [fst (dims l), fst (dims l)]"
proof -
  from shaped_lookup [OF assms(2,3)] obtain t where
    t: "map_of sf l = Some t" "shape t = [1, fst (dims l), fst (snd (dims l)), snd (snd (dims l))]"
    by blast
  from gram_all_lookup [OF assms(1) t(1)] obtain g where
    g: "gram_matrix t = Inr g" "map_of gms l = Some g" by blast
  from gram_matrix_shape [OF t(2)] g(1) have "shape g = [fst (dims l), fst (dims l)]" by auto
  with g(2) show ?thesis by simp
qed

lemma style_loss_ok:
  assumes "shaped dims tf"
      and "\<forall>l \<in> set recorded_layers. \<exists>g. map_of gms l = Some g \<and> shape g = [fst (dims l), fst (dims l)]"
  shows "\<exists>r. style_loss (style_layers_weights e) tf gms = Inr r"
  unfolding style_loss_def
proof (rule style_loss_loop_ok, clarify)
  fix l wt
  assume "(l, wt) \<in> set (style_layers_weights e)"
  then have l: "l \<in> set recorded_layers"
    by (auto simp add: style_layers_weights_eq recorded_layers_def default_layers_def)
  from shaped_lookup [OF assms(1) l] assms(2) l
  show "\<exists>t d h w g. map_of tf l = Some t \<and> shape t = [1, d, h, w] \<and>
             map_of gms l = Some g \<and> shape g = [d, d]"
    by fastforce
qed

lemma loss_terms_ok:
  assumes "shaped dims tf" and "shaped dims cf"
      and "\<forall>l \<in> set recorded_layers. \<exists>g. map_of gms l = Some g \<and> shape g = [fst (dims l), fst (dims l)]"
      and "shape x = [b, c, h, w]"
  shows "\<exists>cl sl tl. loss_terms (content_layers_weights blend) (style_layers_weights e) cf gms tf x
           = Inr (cl, sl, tl) \<and>
         content_loss (content_layers_weights blend) tf cf = Inr cl \<and>
         style_loss (style_layers_weights e) tf gms = Inr sl \<and> tv_loss x = Inr tl"
proof -
  from content_loss_ok [OF assms(1,2)] obtain cl where
    "content_loss (content_layers_weights blend) tf cf = Inr cl" by blast
  moreover from style_loss_ok [OF assms(1,3)] obtain sl where
    "style_loss (style_layers_weights e) tf gms = Inr sl" by blast
  moreover from tv_loss_ok [OF assms(4)] obtain tl where "tv_loss x = Inr tl" by blast
  ultimately show ?thesis by (simp add: loss_terms_def bindE_def)
qed

lemma set_weights_fields:
  "mach (set_weights a ii st) = mach st"
  "optimizer (set_weights a ii st) = optimizer st"
  "target (set_weights a ii st) = target st"
  "h_x (set_weights a ii st) = h_x st"
  "w_x (set_weights a ii st) = w_x st"
  "features_graph (set_weights a ii st) = features_graph st"
  by (simp_all add: set_weights_def)

lemma objective_frame:
  assumes "\<forall>p \<in> set (parameters model). data (s p) = data (s' p)"
      and "data (s tgt) = data (s' tgt)"
  shows "objective model clw slw cf gms tgt cw sw tw s = objective model clw slw cf gms tgt cw sw tw s'"
  using get_features_frame [OF assms(1)] assms(2) by (simp add: objective_def)

lemma iteration_run:
  fixes env :: "'o env"
  assumes inv: "loop_inv env s0 shp st"
      and reg: "regular (vgg env) s0 shp dims"
      and cf: "shaped dims cf"
      and gms: "\<forall>l \<in> set recorded_layers.
                  \<exists>g. map_of gms l = Some g \<and> shape g = [fst (dims l), fst (dims l)]"
      and upd: "shape_preserving (adam env)"
      and shp: "shp = [b, c, h, w]"
      and im: "\<forall>x. shape x = shp \<longrightarrow> (\<exists>img. im_convert x = Inr img)"
  shows "\<exists>st' tf cl sl tl m3.
      iteration env a cf gms (style_layers_weights e) (content_layers_weights blend) ii st =
        (if show_every a = 0 then Inl (ZeroDivisionError, m3) else Inr st') \<and>
      trace m3 = trace (mach st) @
        [FeatureExtraction Target,
         LossComputation ii (current_weights (set_weights a ii st)) (cl, sl, tl)
           (case current_weights (set_weights a ii st) of
              (cw, sw, tw) \<Rightarrow> total_loss cw sw tw cl sl tl),
         OptimizerStep ii] \<and>
      heap m3 = heap (mach st') \<and>
      loop_inv env s0 shp st' \<and>
      get_features (heap (mach st)) (data (heap (mach st) (target st))) (vgg env) = Inr tf \<and>
      content_loss (content_layers_weights blend) tf cf = Inr cl \<and>
      style_loss (style_layers_weights e) tf gms = Inr sl \<and>
      tv_loss (data (heap (mach st) (target st))) = Inr tl \<and>
      trace (mach st') = trace (mach st) @
        iteration_events a ii (current_weights (set_weights a ii st)) (cl, sl, tl) \<and>
      current_weights st' = current_weights (set_weights a ii st) \<and>
      target st' = target st \<and> next_free (mach st') = next_free (mach st) \<and>
      h_x st' = Some h \<and> w_x st' = Some w \<and>
      grad (heap (mach st') (target st)) =
        Some (autograd env
               (objective (vgg env) (content_layers_weights blend) (style_layers_weights e) cf gms
                  (target st) (cur_content_weight (set_weights a ii st))
                  (cur_style_weight (set_weights a ii st)) (cur_tv_weight (set_weights a ii st)))
               (zero_grad (optimizer st) (heap (mach st))) (target st)) \<and>
      data (heap (mach st') (target st)) =
        fst (adam env (opt_lr (optimizer st)) (opt_state (optimizer st) (target st))
               (data (heap (mach st) (target st)))
               (autograd env
                 (objective (vgg env) (content_layers_weights blend) (style_layers_weights e) cf gms
                    (target st) (cur_content_weight (set_weights a ii st))
                    (cur_style_weight (set_weights a ii st)) (cur_tv_weight (set_weights a ii st)))
                 (zero_grad (optimizer st) (heap (mach st))) (target st)))"
proof -
  define stw where "stw = set_weights a ii st"
  define m where "m = mach st"
  define tgt where "tgt = target st"
  define x where "x = data (heap m tgt)"
  define slw where "slw = style_layers_weights e"
  define clw where "clw = content_layers_weights blend"
  have f: "mach stw = m" "target stw = tgt" "optimizer stw = optimizer st"
    "features_graph stw = features_graph st"
    by (simp_all add: stw_def m_def tgt_def set_weights_fields)
  have x: "shape x = shp" "well_formed x"
    using inv by (simp_all add: loop_inv_def x_def m_def tgt_def)
  have pg: "param_groups (optimizer st) = [tgt]" and nt: "tgt \<notin> set (parameters (vgg env))"
    and dg: "features_graph st = Detached" and rq: "requires_grad (heap m tgt)"
    and fz: "frozen (vgg env) s0"
    using inv by (simp_all add: loop_inv_def tgt_def m_def)
  have same: "\<forall>p \<in> set (parameters (vgg env)). data (heap m p) = data (s0 p)"
    using inv by (simp add: loop_inv_def m_def)
  have nrq: "\<forall>p \<in> set (parameters (vgg env)). \<not> requires_grad (heap m p)"
    using inv fz by (simp add: loop_inv_def m_def frozen_def)
  from reg x obtain tf where tf0: "get_features s0 x (vgg env) = Inr tf" and tfs: "shaped dims tf"
    by (auto simp add: regular_def)
  have tf: "get_features (heap m) x (vgg env) = Inr tf"
    using get_features_frame [OF same] tf0 by simp
  from loss_terms_ok [OF tfs cf gms, of x b c h w blend e] x(1) shp
  obtain cl sl tl where
    lt: "loss_terms clw slw cf gms tf x = Inr (cl, sl, tl)" and
    ls: "content_loss clw tf cf = Inr cl" "style_loss slw tf gms = Inr sl" "tv_loss x = Inr tl"
    by (auto simp add: clw_def slw_def)
  define wts where "wts = current_weights stw"
  define total where "total = (case wts of (cw, sw, tw) \<Rightarrow> total_loss cw sw tw cl sl tl)"
  define m1 where "m1 = emit (FeatureExtraction Target) m"
  define m2 where "m2 = emit (LossComputation ii wts (cl, sl, tl) total) m1"
  define s1 where "s1 = zero_grad (optimizer st) (heap m2)"
  define obj where "obj = objective (vgg env) clw slw cf gms tgt (cur_content_weight stw)
      (cur_style_weight stw) (cur_tv_weight stw)"
  define G where "G = autograd env obj s1 tgt"
  define ps where "ps = parameters (loss_layers (vgg env) (map fst clw @ map fst slw))"
  define s2 where "s2 = accumulate_grads (autograd env) obj (tgt # ps) s1"
  obtain opt' s3 where st3: "step (adam env) (optimizer st) s2 = (opt', s3)"
    by (cases "step (adam env) (optimizer st) s2")
  define m3 where "m3 = emit (OptimizerStep ii) (m2\<lparr>heap := s3\<rparr>)"
  define st1 where "st1 = stw\<lparr>mach := m3, optimizer := opt', h_x := Some (shape x ! 2),
      w_x := Some (shape x ! 3), features_graph := Detached\<rparr>"
  define st' where "st' = (if ii mod show_every a = 0
      then st1\<lparr>mach := emit (ShowProgress ii) m3\<rparr> else st1)"
  have hm: "heap m2 = heap m" by (simp add: m2_def m1_def emit_def)
  have s1t: "s1 tgt = (heap m tgt)\<lparr>grad := None\<rparr>"
    by (simp add: s1_def zero_grad_def pg hm)
  have s1p: "s1 p = heap m p" if "p \<in> set (parameters (vgg env))" for p
  proof -
    have "p \<notin> set (param_groups (optimizer st))" using that nt pg by auto
    then show ?thesis by (simp add: s1_def zero_grad_frame hm)
  qed
  have sub: "set ps \<subseteq> set (parameters (vgg env))"
    unfolding ps_def by (rule parameters_loss_layers)
  have nps: "tgt \<notin> set ps" "\<forall>p \<in> set ps. \<not> requires_grad (s1 p)"
    using nt nrq s1p sub by auto
  have rq1: "requires_grad (s1 tgt)" using rq by (simp add: s1t)
  have s2e: "s2 = s1(tgt := (s1 tgt)\<lparr>grad := Some G\<rparr>)"
    unfolding s2_def G_def
    using accumulate_grads_target [OF rq1 nps, of "autograd env" obj]
    by (simp add: s1t accumulate_def)
  have s12: "data (s2 q) = data (heap m q)" "requires_grad (s2 q) = requires_grad (heap m q)" for q
    by (simp_all add: s2_def s1_def accumulate_grads_frame zero_grad_frame hm)
  have s2v: "s2 p = heap m p" if "p \<in> set (parameters (vgg env))" for p
    using that nt s1p [OF that] by (auto simp add: s2e)
  have pg': "param_groups opt' = [tgt]"
    using step_frame(2) [of "adam env" "optimizer st" s2] st3 pg by simp
  have s3o: "s3 p = s2 p" if "p \<noteq> tgt" for p
    using step_frame(1) [of p "optimizer st" "adam env" s2] st3 pg that by simp
  from step_single [OF pg, of "adam env" s2] st3 obtain x' where
    x': "s3 = s2(tgt := (s2 tgt)\<lparr>data := x'\<rparr>)"
      "\<forall>g. grad (s2 tgt) = Some g \<longrightarrow>
          x' = fst (adam env (opt_lr (optimizer st)) (opt_state (optimizer st) tgt) (data (s2 tgt)) g)"
    by auto
  have g2: "grad (s2 tgt) = Some G" by (simp add: s2e)
  have x'e: "x' = fst (adam env (opt_lr (optimizer st)) (opt_state (optimizer st) tgt) x G)"
    using x'(2) g2 s12(1) [of tgt] by (simp add: x_def)
  have x's: "shape x' = shape x \<and> length (entries x') = length (entries x)"
    using upd by (simp add: x'e shape_preserving_def)
  from im x's x(1) obtain img where img: "im_convert (data (s3 tgt)) = Inr img"
    by (auto simp add: x'(1))
  have bw: "backward (autograd env) obj (tgt # ps) (features_graph st) s1
      = Inr (Detached, s2)"
    by (simp add: dg backward_detached s2_def)
  have run: "iteration env a cf gms slw clw ii st =
      (if show_every a = 0 then Inl (ZeroDivisionError, m3) else Inr st')"
    using tf lt st3 img bw
    by (simp add: iteration_def Let_def f attempt_def bindE_def stw_def [symmetric] m_def [symmetric]
        tgt_def [symmetric] x_def [symmetric] wts_def current_weights_def total_def
        m1_def [symmetric] m2_def s1_def obj_def m3_def st1_def st'_def ps_def clw_def slw_def
        dg)
  have h3: "heap (mach st') = s3" "target st' = tgt" "optimizer st' = opt'"
    "features_graph st' = Detached"
    by (simp_all add: st'_def st1_def m3_def emit_def f)
  have inv': "loop_inv env s0 shp st'"
    unfolding loop_inv_def h3
  proof (intro conjI ballI)
    show "param_groups opt' = [tgt]" by (rule pg')
    show "tgt \<notin> set (parameters (vgg env))" by (rule nt)
    show "Detached = Detached" by simp
    show "frozen (vgg env) s0" by (rule fz)
    show "requires_grad (s3 tgt)" using rq s12(2) [of tgt] by (simp add: x'(1))
    show "shape (data (s3 tgt)) = shp" using x's x(1) by (simp add: x'(1))
    show "well_formed (data (s3 tgt))"
      using x's x by (simp add: x'(1) well_formed_def numel_def)
  next
    fix p assume p: "p \<in> set (parameters (vgg env))"
    then have ne: "p \<noteq> tgt" using nt by auto
    have old: "data (heap m p) = data (s0 p)" "requires_grad (heap m p) = requires_grad (s0 p)"
      "\<not> requires_grad (s0 p) \<longrightarrow> heap m p = s0 p"
      using inv p by (simp_all add: loop_inv_def m_def)
    show "data (s3 p) = data (s0 p)" using s3o [OF ne] s12(1) [of p] old(1) by simp
    show "requires_grad (s3 p) = requires_grad (s0 p)"
      using s3o [OF ne] s12(2) [of p] old(2) by simp
    show "\<not> requires_grad (s0 p) \<longrightarrow> s3 p = s0 p"
      using s3o [OF ne] s2v [OF p] old(3) by simp
  qed
  have tr3: "trace m3 = trace m @
        [FeatureExtraction Target,
         LossComputation ii wts (cl, sl, tl) total,
         OptimizerStep ii]"
    by (simp add: m3_def m2_def m1_def emit_def)
  have hm3: "heap m3 = heap (mach st')"
    by (simp add: h3 m3_def emit_def)
  have tr: "trace (mach st') = trace m @ iteration_events a ii wts (cl, sl, tl)"
    by (simp add: st'_def st1_def m3_def m2_def m1_def emit_def iteration_events_def total_def
        split: prod.splits)
  have rest: "current_weights st' = wts" "next_free (mach st') = next_free m"
    "h_x st' = Some h" "w_x st' = Some w"
    using x(1) shp
    by (simp_all add: st'_def st1_def m3_def m2_def m1_def emit_def wts_def current_weights_def)
  have s1z: "s1 = zero_grad (optimizer st) (heap m)" by (simp add: s1_def hm)
  have gr: "grad (heap (mach st') tgt) = Some G"
    by (simp add: h3 x'(1) g2)
  have da: "data (heap (mach st') tgt) =
      fst (adam env (opt_lr (optimizer st)) (opt_state (optimizer st) tgt) x G)"
    by (simp add: h3 x'(1) x'e)
  show ?thesis
    using run tr3 hm3 inv' tf ls tr rest h3(2) gr da
    unfolding slw_def clw_def wts_def total_def stw_def m_def tgt_def x_def G_def obj_def s1z
    by blast
qed

lemma set_weights_again:
  "current_weights st1 = current_weights (set_weights a ii st) \<Longrightarrow>
   current_weights (set_weights a jj st1) = current_weights (set_weights a jj st)"
  by (simp add: set_weights_def current_weights_def)

lemma skeleton_iteration_events:
  "map skeleton (iteration_events a ii wts ls) = iteration_calls a ii"
  by (simp add: iteration_events_def iteration_calls_def)

lemma loss_in_iteration_events:
  "LossComputation jj wts' ls' tot \<in> set (iteration_events a ii wts ls) \<Longrightarrow>
   jj = ii \<and> wts' = wts \<and> ls' = ls \<and>
   tot = (case (wts, ls) of ((cw, sw, tw), (c, s, t)) \<Rightarrow> total_loss cw sw tw c s t)"
  by (auto simp add: iteration_events_def split: if_splits)

lemma run_loop_run:
  fixes env :: "'o env"
  assumes reg: "regular (vgg env) s0 shp dims"
      and cf: "shaped dims cf"
      and gms: "\<forall>l \<in> set recorded_layers.
                  \<exists>g. map_of gms l = Some g \<and> shape g = [fst (dims l), fst (dims l)]"
      and upd: "shape_preserving (adam env)"
      and shp: "shp = [b, c, h, w]"
      and sh: "show_every a \<noteq> 0"
      and im: "\<forall>x. shape x = shp \<longrightarrow> (\<exists>img. im_convert x = Inr img)"
  shows "loop_inv env s0 shp st \<Longrightarrow>
    \<exists>st' new.
      run_loop env a cf gms (style_layers_weights e) (content_layers_weights blend) iis st = Inr st' \<and>
      loop_inv env s0 shp st' \<and>
      trace (mach st') = trace (mach st) @ new \<and>
      map skeleton new = concat (map (iteration_calls a) iis) \<and>
      (\<forall>jj wts ls tot. LossComputation jj wts ls tot \<in> set new \<longrightarrow>
         wts = current_weights (set_weights a jj st) \<and>
         tot = (case (wts, ls) of ((cw, sw, tw), (c, s, t)) \<Rightarrow> total_loss cw sw tw c s t)) \<and>
      target st' = target st \<and> next_free (mach st') = next_free (mach st) \<and>
      (iis = [] \<longrightarrow> st' = st) \<and>
      (iis \<noteq> [] \<longrightarrow> h_x st' = Some h \<and> w_x st' = Some w)"
proof (induction iis arbitrary: st)
  case Nil
  then show ?case by simp
next
  case (Cons ii iis)
  from iteration_run [OF Cons.prems reg cf gms upd shp im, where e = e and blend = blend
      and ii = ii and a = a]
  obtain st1 tf cl sl tl m3 where
    it0: "iteration env a cf gms (style_layers_weights e) (content_layers_weights blend) ii st =
        (if show_every a = 0 then Inl (ZeroDivisionError, m3) else Inr st1)"
    and inv1: "loop_inv env s0 shp st1"
    and tr1: "trace (mach st1) = trace (mach st) @
        iteration_events a ii (current_weights (set_weights a ii st)) (cl, sl, tl)"
    and w1: "current_weights st1 = current_weights (set_weights a ii st)"
    and f1: "target st1 = target st" "next_free (mach st1) = next_free (mach st)"
      "h_x st1 = Some h" "w_x st1 = Some w"
    by blast
  have it: "iteration env a cf gms (style_layers_weights e) (content_layers_weights blend) ii st
      = Inr st1"
    using it0 sh by simp
  from Cons.IH [OF inv1] obtain st' new where
    run: "run_loop env a cf gms (style_layers_weights e) (content_layers_weights blend) iis st1 = Inr st'"
    and inv': "loop_inv env s0 shp st'"
    and tr': "trace (mach st') = trace (mach st1) @ new"
    and sk': "map skeleton new = concat (map (iteration_calls a) iis)"
    and ev': "\<forall>jj wts ls tot. LossComputation jj wts ls tot \<in> set new \<longrightarrow>
         wts = current_weights (set_weights a jj st1) \<and>
         tot = (case (wts, ls) of ((cw, sw, tw), (c, s, t)) \<Rightarrow> total_loss cw sw tw c s t)"
    and f': "target st' = target st1" "next_free (mach st') = next_free (mach st1)"
      "iis = [] \<longrightarrow> st' = st1" "iis \<noteq> [] \<longrightarrow> h_x st' = Some h \<and> w_x st' = Some w"
    by blast
  let ?new = "iteration_events a ii (current_weights (set_weights a ii st)) (cl, sl, tl) @ new"
  have 1: "run_loop env a cf gms (style_layers_weights e) (content_layers_weights blend)
      (ii # iis) st = Inr st'"
    using it run by (simp add: bindE_def)
  have 2: "trace (mach st') = trace (mach st) @ ?new" using tr1 tr' by simp
  have 3: "map skeleton ?new = concat (map (iteration_calls a) (ii # iis))"
    using sk' by (simp add: skeleton_iteration_events)
  have 4: "wts = current_weights (set_weights a jj st) \<and>
         tot = (case (wts, ls) of ((cw, sw, tw), (c, s, t)) \<Rightarrow> total_loss cw sw tw c s t)"
    if "LossComputation jj wts ls tot \<in> set ?new" for jj wts ls tot
  proof (cases "LossComputation jj wts ls tot \<in> set new")
    case True
    from ev' [rule_format, OF True] set_weights_again [OF w1, of jj] show ?thesis
      by (simp only:)
  next
    case False
    with that have "LossComputation jj wts ls tot \<in>
        set (iteration_events a ii (current_weights (set_weights a ii st)) (cl, sl, tl))"
      by simp
    from loss_in_iteration_events [OF this] show ?thesis by simp
  qed
  have 5: "h_x st' = Some h \<and> w_x st' = Some w" using f' f1 by (cases "iis = []") simp_all
  show ?case
    using 1 inv' 2 3 4 5 f' f1 by (intro exI [of _ st'] exI [of _ ?new]) simp
qed

lemma define_target_run:
  assumes "valid_init init"
  shows "define_target env init content m =
     Inr (next_free m,
          m\<lparr>heap := (heap m)(next_free m :=
                 \<lparr>data = initial_target env init content, requires_grad = True, grad = None\<rparr>),
            next_free := Suc (next_free m)\<rparr>)"
  using assms by (auto simp add: valid_init_def define_target_def new_leaf_def initial_target_def)

lemma initial_target_shape:
  "well_formed content \<Longrightarrow>
   shape (initial_target env init content) = shape content \<and>
   well_formed (initial_target env init content)"
  by (simp add: initial_target_def torch_full_def torch_rand_def well_formed_def numel_def)

lemma stylize_setup:
  fixes env :: "'o env"
  assumes lc: "load_image env (content_path a) None = Inr content"
      and lst: "load_image env (style_path a)
                 (Some (drop (length (shape content) - 2) (shape content))) = Inr style"
      and sc: "shape content = shp" "well_formed content"
      and ss: "shape style = shp" "well_formed style"
      and reg: "regular (vgg env) (heap m0) shp dims"
      and al: "\<forall>p \<in> set (parameters (vgg env)). p < next_free m0"
      and vi: "valid_init (target_init a)"
      and fz: "frozen (vgg env) (heap m0)"
      and lr: "0 \<le> lr a"
  shows "\<exists>cf gms st0.
     stylize env a m0 =
       bindE (run_loop env a cf gms (style_layers_weights (style_layer_weight_exp a))
                (content_layers_weights (content_weight_blend a)) [1..steps a] st0)
         (\<lambda>st. export env a content style st) \<and>
     shaped dims cf \<and>
     (\<forall>l \<in> set recorded_layers.
         \<exists>g. map_of gms l = Some g \<and> shape g = [fst (dims l), fst (dims l)]) \<and>
     loop_inv env (heap m0) shp st0 \<and>
     trace (mach st0) = trace m0 @ [ImageLoaded (content_path a), ImageLoaded (style_path a),
        FeatureExtraction Content, FeatureExtraction Style] \<and>
     target st0 = next_free m0 \<and>
     data (heap (mach st0) (target st0)) = initial_target env (target_init a) content \<and>
     current_weights st0 = (content_weight a, style_weight a, tv_weight a) \<and>
     h_x st0 = None \<and> w_x st0 = None"
proof -
  define m1 where "m1 = emit (ImageLoaded (content_path a)) m0"
  define m2 where "m2 = emit (ImageLoaded (style_path a)) m1"
  define tgt where "tgt = next_free m0"
  define m3 where "m3 = m2\<lparr>heap := (heap m2)(next_free m2 :=
      \<lparr>data = initial_target env (target_init a) content, requires_grad = True, grad = None\<rparr>),
      next_free := Suc (next_free m2)\<rparr>"
  define lr' where "lr' = (if target_init a = ''clone'' then lr a else min (lr a * 10) 0.2)"
  define opt :: "'o optimizer" where
    "opt = \<lparr>param_groups = [tgt], opt_lr = lr', opt_state = (\<lambda>p. None)\<rparr>"
  have l1: "load env (content_path a) None m0 = Inr (content, m1)"
    by (simp add: load_def lc attempt_def bindE_def m1_def)
  have l2: "load env (style_path a) (Some (drop (length (shape content) - 2) (shape content))) m1
      = Inr (style, m2)"
    by (simp add: load_def lst attempt_def bindE_def m2_def)
  have nf: "next_free m2 = tgt" by (simp add: m2_def m1_def emit_def tgt_def)
  have dt: "define_target env (target_init a) content m2 = Inr (tgt, m3)"
    using define_target_run [OF vi, of env content m2] by (simp add: m3_def nf)
  have "0 \<le> lr'" using lr by (simp add: lr'_def)
  then have ad: "Adam [tgt] lr' = Inr opt" by (simp add: Adam_def opt_def)
  have nt: "tgt \<notin> set (parameters (vgg env))" using al by (auto simp add: tgt_def)
  have h3: "heap m3 = (heap m0)(tgt :=
      \<lparr>data = initial_target env (target_init a) content, requires_grad = True, grad = None\<rparr>)"
    by (simp add: m3_def m2_def m1_def emit_def nf [unfolded m2_def m1_def emit_def, simplified])
  have same: "\<forall>p \<in> set (parameters (vgg env)). data (heap m3 p) = data (heap m0 p)"
    using nt by (auto simp add: h3)
  have fz3: "frozen (vgg env) (heap m3)"
    using fz nt by (auto simp add: frozen_def h3)
  from reg sc obtain cf where cf0: "get_features (heap m0) content (vgg env) = Inr cf"
    and cfs: "shaped dims cf" by (auto simp add: regular_def)
  from reg ss obtain sf where sf0: "get_features (heap m0) style (vgg env) = Inr sf"
    and sfs: "shaped dims sf" by (auto simp add: regular_def)
  define m4 where "m4 = emit (FeatureExtraction Content) m3"
  define m5 where "m5 = emit (FeatureExtraction Style) m4"
  have h45: "heap m4 = heap m3" "heap m5 = heap m3" by (simp_all add: m4_def m5_def emit_def)
  have f1: "forward_pass env Content content m3 = Inr (cf, m4)"
    using get_features_frame [OF same, of content] cf0
    by (simp add: forward_pass_def attempt_def bindE_def m4_def)
  have f2: "forward_pass env Style style m4 = Inr (sf, m5)"
    using get_features_frame [OF same, of style] sf0
    by (simp add: forward_pass_def attempt_def bindE_def m5_def h45)
  have "\<forall>(l, t) \<in> set sf. \<exists>d h w. shape t = [1, d, h, w]"
    using sfs by (auto simp add: shaped_def)
  from gram_all_ok [OF this] obtain gms where ga: "gram_all sf = Inr gms" by blast
  have gs: "\<forall>l \<in> set recorded_layers.
         \<exists>g. map_of gms l = Some g \<and> shape g = [fst (dims l), fst (dims l)]"
    using style_gms_shaped [OF ga sfs] by blast
  define st0 :: "'o frame" where "st0 =
     \<lparr>mach = m5, optimizer = opt, target = tgt,
      cur_content_weight = content_weight a, cur_style_weight = style_weight a,
      cur_tv_weight = tv_weight a, h_x = None, w_x = None,
      content_image = content, style_image = style, features_graph = Detached\<rparr>"
  have sg: "shared_graph (heap m5) (vgg env) used = Detached" for used
    using shared_graph_frozen [OF fz3] by (simp add: h45)
  have run: "stylize env a m0 =
       bindE (run_loop env a cf gms (style_layers_weights (style_layer_weight_exp a))
                (content_layers_weights (content_weight_blend a)) [1..steps a] st0)
         (\<lambda>st. export env a content style st)"
    by (simp add: stylize_def l1 l2 dt f1 f2 ga bindE_def attempt_def Let_def st0_def
        lr'_def [symmetric] ad sg)
  have inv: "loop_inv env (heap m0) shp st0"
    using nt initial_target_shape [OF sc(2), of env "target_init a"] sc(1) fz
    by (simp add: loop_inv_def st0_def h45 h3 opt_def)
  have tr: "trace (mach st0) = trace m0 @ [ImageLoaded (content_path a),
        ImageLoaded (style_path a), FeatureExtraction Content, FeatureExtraction Style]"
    by (simp add: st0_def m5_def m4_def m3_def m2_def m1_def emit_def)
  have rest: "target st0 = next_free m0"
    "data (heap (mach st0) (target st0)) = initial_target env (target_init a) content"
    "current_weights st0 = (content_weight a, style_weight a, tv_weight a)"
    "h_x st0 = None" "w_x st0 = None"
    by (simp_all add: st0_def tgt_def h45 h3 current_weights_def)
  show ?thesis
    using run cfs gs inv tr rest by blast
qed

lemma stylize_negative_lr:
  assumes lc: "load_image env (content_path a) None = Inr content"
      and lst: "load_image env (style_path a)
                 (Some (drop (length (shape content) - 2) (shape content))) = Inr style"
      and vi: "valid_init (target_init a)"
      and lr: "lr a < 0"
  shows "\<exists>m. stylize env a m0 = Inl (ValueError, m) \<and>
             trace m = trace m0 @ [ImageLoaded (content_path a), ImageLoaded (style_path a)]"
proof -
  have "(if target_init a = ''clone'' then lr a else min (lr a * 10) 0.2) < 0"
    using lr by simp
  then show ?thesis
    using define_target_run [OF vi, of env content]
    by (simp add: stylize_def load_def lc lst attempt_def bindE_def Let_def Adam_def emit_def)
qed

lemma broadcast_channels: "broadcast_shapes [h, w, c] [c] = Inr [h, w, c]"
  by (simp add: broadcast_shapes_def bindE_def)

lemma im_convert_ok:
  assumes "shape x = [1, 3, h, w] \<or> shape x = [3, h, w]" and "2 \<le> h" and "2 \<le> w"
  shows "\<exists>img. im_convert x = Inr img \<and> shape img = [h, w, 3]"
proof -
  have "shape (squeeze x) = [3, h, w]"
    using assms by (auto simp add: squeeze_def)
  then show ?thesis
    by (simp add: im_convert_def transpose_120_def np_binop_def broadcast_channels bindE_def
        clamp_def)
qed

lemma view_infer_image:
  assumes "shape t = [1, 3, h, w]" and "0 < h" and "0 < w"
  shows "view_infer t h w = Inr (t\<lparr>shape := [3, h, w]\<rparr>)"
proof -
  have "numel t = 3 * (h * w)" using assms(1) by (simp add: numel_def)
  then show ?thesis using assms(2,3) by (simp add: view_infer_def)
qed

lemma denormalize_ok:
  assumes "shape t = [3, h, w]"
  shows "\<exists>r. denormalize fresh t = Inr r \<and> shape r = [3, h, w]"
  using assms by (simp add: denormalize_def bindE_def Let_def set_channel_def clamp_def)

lemma ToPILImage_RGB_ok:
  assumes "shape x = [3, h, w]"
  shows "\<exists>img. ToPILImage_RGB x = Inr img \<and> shape img = [h, w, 3]"
  using assms by (simp add: ToPILImage_RGB_def transpose_120_def)

lemma ToPILImage_RGB_batch:
  assumes "shape x = [b, c, h, w]"
  shows "ToPILImage_RGB x = Inl ValueError"
  using assms by (simp add: ToPILImage_RGB_def)

lemma export_run:
  assumes "shape (data (heap (mach st) (target st))) = [1, 3, h, w]" and "2 \<le> h" and "2 \<le> w"
      and "target_init a = ''clone'' \<longrightarrow> h_x st = Some h \<and> w_x st = Some w"
      and "shape content = [1, 3, h, w]" and "shape style = [1, 3, h, w]"
  shows "\<exists>img i1 i2 i3.
     shape img = [h, w, 3] \<and> shape i1 = [h, w, 3] \<and> shape i2 = [h, w, 3] \<and>
     shape i3 = [h, w, 3] \<and>
     export env a content style st =
     (if out_format a = ''image-only''
      then (if target_init a = ''clone''
            then (case save_image env (out_path a) img of
                    None \<Rightarrow> Inr (emit (SaveImage (out_path a) img) (mach st))
                  | Some e \<Rightarrow> Inl (e, emit (SaveImage (out_path a) img) (mach st)))
            else Inl (ValueError, mach st))
      else if out_format a = ''comparison''
      then (case save_figure env (out_path a) i1 i2 i3 of
              None \<Rightarrow> Inr (emit (SaveFigure (out_path a)) (mach st))
            | Some e \<Rightarrow> Inl (e, emit (SaveFigure (out_path a)) (mach st)))
      else Inl (ValueError, mach st))"
proof -
  define tgt where "tgt = data (heap (mach st) (target st))"
  have t: "shape tgt = [1, 3, h, w]" using assms(1) by (simp add: tgt_def)
  from im_convert_ok [of content h w] assms(2,3,5) obtain i2 where
    i2: "im_convert content = Inr i2" "shape i2 = [h, w, 3]" by auto
  from im_convert_ok [of style h w] assms(2,3,6) obtain i3 where
    i3: "im_convert style = Inr i3" "shape i3 = [h, w, 3]" by auto
  show ?thesis
  proof (cases "target_init a = ''clone''")
    case True
    have v: "view_infer tgt h w = Inr (tgt\<lparr>shape := [3, h, w]\<rparr>)"
      using t assms(2,3) by (intro view_infer_image) simp_all
    from denormalize_ok [of "tgt\<lparr>shape := [3, h, w]\<rparr>" h w "uninitialised env"] obtain r where
      r: "denormalize (uninitialised env) (tgt\<lparr>shape := [3, h, w]\<rparr>) = Inr r"
        "shape r = [3, h, w]" by auto
    from ToPILImage_RGB_ok [OF r(2)] obtain img where
      img: "ToPILImage_RGB r = Inr img" "shape img = [h, w, 3]" by blast
    from im_convert_ok [of "tgt\<lparr>shape := [3, h, w]\<rparr>" h w] assms(2,3) obtain i1 where
      i1: "im_convert (tgt\<lparr>shape := [3, h, w]\<rparr>) = Inr i1" "shape i1 = [h, w, 3]" by auto
    show ?thesis
      using True assms(4) v r(1) img i1 i2 i3
      by (intro exI [of _ img] exI [of _ i1] exI [of _ i2] exI [of _ i3])
        (simp add: export_def Let_def attempt_def bindE_def tgt_def [symmetric])
  next
    case False
    from im_convert_ok [of tgt h w] t assms(2,3) obtain i1 where
      i1: "im_convert tgt = Inr i1" "shape i1 = [h, w, 3]" by auto
    show ?thesis
      using False i1 i2 i3 ToPILImage_RGB_batch [OF t]
      by (intro exI [of _ i1] exI [of _ i1] exI [of _ i2] exI [of _ i3])
        (simp add: export_def Let_def attempt_def bindE_def tgt_def [symmetric])
  qed
qed


lemma upto_nonempty: "1 \<le> n \<Longrightarrow> [1..n] \<noteq> []"
  by (simp add: upto.simps)

lemma filter_step_calls: "filter is_step (concat (map (iteration_calls a) iis)) = map Step iis"
  by (induction iis) (simp_all add: iteration_calls_def)

lemma filter_losses_calls: "filter is_losses (concat (map (iteration_calls a) iis)) = map Losses iis"
  by (induction iis) (simp_all add: iteration_calls_def)

lemma filter_forward_calls:
  "filter (\<lambda>c. c = Forward Target) (concat (map (iteration_calls a) iis))
   = replicate (length iis) (Forward Target)"
  by (induction iis) (simp_all add: iteration_calls_def)

lemma stylize_loop:
  fixes env :: "'o env"
  assumes lc: "load_image env (content_path a) None = Inr content"
      and lst: "load_image env (style_path a)
                 (Some (drop (length (shape content) - 2) (shape content))) = Inr style"
      and sc: "shape content = [b, c, h, w]" "well_formed content"
      and ss: "shape style = [b, c, h, w]" "well_formed style"
      and reg: "regular (vgg env) (heap m0) [b, c, h, w] dims"
      and upd: "shape_preserving (adam env)"
      and al: "\<forall>p \<in> set (parameters (vgg env)). p < next_free m0"
      and vi: "valid_init (target_init a)"
      and sh: "show_every a \<noteq> 0"
      and im: "\<forall>x. shape x = [b, c, h, w] \<longrightarrow> (\<exists>img. im_convert x = Inr img)"
      and fz: "frozen (vgg env) (heap m0)"
      and lr: "0 \<le> lr a"
  shows "\<exists>cf gms st0 st new.
     stylize env a m0 = export env a content style st \<and>
     shaped dims cf \<and>
     (\<forall>l \<in> set recorded_layers.
         \<exists>g. map_of gms l = Some g \<and> shape g = [fst (dims l), fst (dims l)]) \<and>
     loop_inv env (heap m0) [b, c, h, w] st0 \<and>
     target st0 = next_free m0 \<and>
     data (heap (mach st0) (target st0)) = initial_target env (target_init a) content \<and>
     current_weights st0 = (content_weight a, style_weight a, tv_weight a) \<and>
     (\<forall>iis. \<exists>stk. run_loop env a cf gms (style_layers_weights (style_layer_weight_exp a))
                (content_layers_weights (content_weight_blend a)) iis st0 = Inr stk \<and>
              loop_inv env (heap m0) [b, c, h, w] stk \<and> target stk = target st0) \<and>
     run_loop env a cf gms (style_layers_weights (style_layer_weight_exp a))
                (content_layers_weights (content_weight_blend a)) [1..steps a] st0 = Inr st \<and>
     loop_inv env (heap m0) [b, c, h, w] st \<and>
     trace (mach st) = trace m0 @ [ImageLoaded (content_path a), ImageLoaded (style_path a),
        FeatureExtraction Content, FeatureExtraction Style] @ new \<and>
     map skeleton new = concat (map (iteration_calls a) [1..steps a]) \<and>
     (\<forall>jj wts ls tot. LossComputation jj wts ls tot \<in> set new \<longrightarrow>
         wts = current_weights (set_weights a jj st0) \<and>
         tot = (case (wts, ls) of ((cw, sw, tw), (c, s, t)) \<Rightarrow> total_loss cw sw tw c s t)) \<and>
     (1 \<le> steps a \<longrightarrow> h_x st = Some h \<and> w_x st = Some w) \<and>
     (steps a < 1 \<longrightarrow> h_x st = None \<and> w_x st = None)"
proof -
  from stylize_setup [OF lc lst sc ss reg al vi fz lr] obtain cf gms st0 where
    s: "stylize env a m0 =
       bindE (run_loop env a cf gms (style_layers_weights (style_layer_weight_exp a))
                (content_layers_weights (content_weight_blend a)) [1..steps a] st0)
         (\<lambda>st. export env a content style st)"
    and cfs: "shaped dims cf"
    and gs: "\<forall>l \<in> set recorded_layers.
         \<exists>g. map_of gms l = Some g \<and> shape g = [fst (dims l), fst (dims l)]"
    and inv: "loop_inv env (heap m0) [b, c, h, w] st0"
    and tr0: "trace (mach st0) = trace m0 @ [ImageLoaded (content_path a),
        ImageLoaded (style_path a), FeatureExtraction Content, FeatureExtraction Style]"
    and r0: "target st0 = next_free m0"
      "data (heap (mach st0) (target st0)) = initial_target env (target_init a) content"
      "current_weights st0 = (content_weight a, style_weight a, tv_weight a)"
      "h_x st0 = None" "w_x st0 = None"
    by blast
  note loop = run_loop_run [OF reg cfs gs upd refl sh im inv,
      of "style_layer_weight_exp a" "content_weight_blend a"]
  have pre: "\<forall>iis. \<exists>stk. run_loop env a cf gms (style_layers_weights (style_layer_weight_exp a))
                (content_layers_weights (content_weight_blend a)) iis st0 = Inr stk \<and>
              loop_inv env (heap m0) [b, c, h, w] stk \<and> target stk = target st0"
    using loop by blast
  from loop [of "[1..steps a]"] obtain st new where
    run: "run_loop env a cf gms (style_layers_weights (style_layer_weight_exp a))
                (content_layers_weights (content_weight_blend a)) [1..steps a] st0 = Inr st"
    and inv': "loop_inv env (heap m0) [b, c, h, w] st"
    and tr: "trace (mach st) = trace (mach st0) @ new"
    and sk: "map skeleton new = concat (map (iteration_calls a) [1..steps a])"
    and ev: "\<forall>jj wts ls tot. LossComputation jj wts ls tot \<in> set new \<longrightarrow>
         wts = current_weights (set_weights a jj st0) \<and>
         tot = (case (wts, ls) of ((cw, sw, tw), (c, s, t)) \<Rightarrow> total_loss cw sw tw c s t)"
    and e: "[1..steps a] = [] \<longrightarrow> st = st0"
      "[1..steps a] \<noteq> [] \<longrightarrow> h_x st = Some h \<and> w_x st = Some w"
    by blast
  have 1: "stylize env a m0 = export env a content style st" using s run by (simp add: bindE_def)
  have 2: "1 \<le> steps a \<longrightarrow> h_x st = Some h \<and> w_x st = Some w"
    using e(2) upto_nonempty by blast
  have 3: "steps a < 1 \<longrightarrow> h_x st = None \<and> w_x st = None"
    using e(1) r0(4,5) by simp
  have 4: "trace (mach st) = trace m0 @ [ImageLoaded (content_path a),
        ImageLoaded (style_path a), FeatureExtraction Content, FeatureExtraction Style] @ new"
    using tr tr0 by simp
  show ?thesis
    using 1 cfs gs inv r0(1,2,3) pre run inv' 4 sk ev 2 3 by blast
qed

section \<open>Runs of \<^verbatim>\<open>stylize\<close>\<close>

lemma admissible_loop:
  fixes env :: "'o env"
  assumes ad: "admissible env a m0 content style h w dims"
      and vi: "valid_init (target_init a)"
      and sh: "show_every a \<noteq> 0"
      and fz: "frozen (vgg env) (heap m0)"
      and lr: "0 \<le> lr a"
  shows "\<exists>cf gms st0 st new.
     stylize env a m0 = export env a content style st \<and>
     shaped dims cf \<and>
     (\<forall>l \<in> set recorded_layers.
         \<exists>g. map_of gms l = Some g \<and> shape g = [fst (dims l), fst (dims l)]) \<and>
     loop_inv env (heap m0) [1, 3, h, w] st0 \<and>
     target st0 = next_free m0 \<and>
     data (heap (mach st0) (target st0)) = initial_target env (target_init a) content \<and>
     current_weights st0 = (content_weight a, style_weight a, tv_weight a) \<and>
     (\<forall>iis. \<exists>stk. run_loop env a cf gms (style_layers_weights (style_layer_weight_exp a))
                (content_layers_weights (content_weight_blend a)) iis st0 = Inr stk \<and>
              loop_inv env (heap m0) [1, 3, h, w] stk \<and> target stk = target st0) \<and>
     run_loop env a cf gms (style_layers_weights (style_layer_weight_exp a))
                (content_layers_weights (content_weight_blend a)) [1..steps a] st0 = Inr st \<and>
     loop_inv env (heap m0) [1, 3, h, w] st \<and>
     trace (mach st) = trace m0 @ [ImageLoaded (content_path a), ImageLoaded (style_path a),
        FeatureExtraction Content, FeatureExtraction Style] @ new \<and>
     map skeleton new = concat (map (iteration_calls a) [1..steps a]) \<and>
     (\<forall>jj wts ls tot. LossComputation jj wts ls tot \<in> set new \<longrightarrow>
         wts = current_weights (set_weights a jj st0) \<and>
         tot = (case (wts, ls) of ((cw, sw, tw), (c, s, t)) \<Rightarrow> total_loss cw sw tw c s t)) \<and>
     (1 \<le> steps a \<longrightarrow> h_x st = Some h \<and> w_x st = Some w) \<and>
     (steps a < 1 \<longrightarrow> h_x st = None \<and> w_x st = None)"
proof -
  from ad have
    lc: "load_image env (content_path a) None = Inr content" and
    lst0: "load_image env (style_path a) (Some [h, w]) = Inr style" and
    sc: "shape content = [1, 3, h, w]" "well_formed content" and
    ss: "shape style = [1, 3, h, w]" "well_formed style" and
    reg: "regular (vgg env) (heap m0) [1, 3, h, w] dims" and
    upd: "shape_preserving (adam env)" and
    al: "\<forall>p \<in> set (parameters (vgg env)). p < next_free m0"
    by (simp_all add: admissible_def)
  have lst: "load_image env (style_path a)
                 (Some (drop (length (shape content) - 2) (shape content))) = Inr style"
    using lst0 sc(1) by simp
  have hw: "2 \<le> h" "2 \<le> w" using ad by (simp_all add: admissible_def)
  have im: "\<forall>x. shape x = [1, 3, h, w] \<longrightarrow> (\<exists>img. im_convert x = Inr img)"
    using im_convert_ok [OF _ hw] by blast
  show ?thesis
    by (rule stylize_loop [OF lc lst sc ss reg upd al vi sh im fz lr])
qed

lemma filter_export_calls:
  "filter (\<lambda>c. c = Export) (concat (map (iteration_calls a) iis)) = []"
  by (induction iis) (simp_all add: iteration_calls_def)

lemma export_final:
  "final_machine (export env a content style st) = mach st \<or>
   (\<exists>img. final_machine (export env a content style st)
      = emit (SaveImage (out_path a) img) (mach st)) \<or>
   final_machine (export env a content style st) = emit (SaveFigure (out_path a)) (mach st)"
proof -
  define m where "m = mach st"
  define tgt where "tgt = data (heap m (target st))"
  define pre where "pre =
     (if target_init a = ''clone''
      then (case (h_x st, w_x st) of
              (Some h, Some w) \<Rightarrow>
                bindE (attempt m (view_infer tgt h w)) (\<lambda>tgt'.
                bindE (attempt m (denormalize (uninitialised env) tgt')) (\<lambda>target_out.
                  Inr (tgt', target_out)))
            | _ \<Rightarrow> Inl (UnboundLocalError, m))
      else Inr (tgt, tgt))"
  define post where "post = (\<lambda>(tgt', target_out).
      if out_format a = ''image-only''
      then bindE (attempt m (ToPILImage_RGB target_out)) (\<lambda>img.
             let m' = emit (SaveImage (out_path a) img) m in
             case save_image env (out_path a) img of
               None \<Rightarrow> Inr m'
             | Some e \<Rightarrow> Inl (e, m'))
      else if out_format a = ''comparison''
      then bindE (attempt m (im_convert tgt')) (\<lambda>i1.
           bindE (attempt m (im_convert content)) (\<lambda>i2.
           bindE (attempt m (im_convert style)) (\<lambda>i3.
             let m' = emit (SaveFigure (out_path a)) m in
             case save_figure env (out_path a) i1 i2 i3 of
               None \<Rightarrow> Inr m'
             | Some e \<Rightarrow> Inl (e, m'))))
      else Inl (ValueError, m))"
  have e: "export env a content style st = bindE pre post"
    unfolding export_def pre_def post_def tgt_def m_def Let_def by (rule refl)
  have p1: "(\<exists>e. pre = Inl (e, m)) \<or> (\<exists>v. pre = Inr v)"
    by (auto simp add: pre_def attempt_def bindE_def split: option.splits sum.splits)
  have image: "final_machine (post v) = m \<or>
      (\<exists>img. final_machine (post v) = emit (SaveImage (out_path a) img) m)"
    if "out_format a = ''image-only''" for v
    using that
    by (cases v) (auto simp add: post_def attempt_def bindE_def final_machine_def Let_def
        split: option.splits sum.splits)
  have figure: "final_machine (post v) = m \<or>
      final_machine (post v) = emit (SaveFigure (out_path a)) m"
    if "out_format a \<noteq> ''image-only''" for v
    using that
    by (cases v) (auto simp add: post_def attempt_def bindE_def final_machine_def Let_def
        split: option.splits sum.splits)
  have p2: "final_machine (post v) = m \<or>
      (\<exists>img. final_machine (post v) = emit (SaveImage (out_path a) img) m) \<or>
      final_machine (post v) = emit (SaveFigure (out_path a)) m" for v
    using image [of v] figure [of v] by (cases "out_format a = ''image-only''") auto
  from p1 show ?thesis
  proof
    assume "\<exists>e. pre = Inl (e, m)"
    then show ?thesis by (auto simp add: e bindE_def final_machine_def m_def)
  next
    assume "\<exists>v. pre = Inr v"
    then obtain v where "pre = Inr v" by blast
    then have "export env a content style st = post v" by (simp add: e bindE_def)
    then show ?thesis using p2 [of v] by (simp add: m_def)
  qed
qed

lemma export_trace:
  "\<exists>ex. trace (final_machine (export env a content style st)) = trace (mach st) @ ex \<and>
        (\<forall>jj wts ls tot. LossComputation jj wts ls tot \<notin> set ex) \<and>
        heap (final_machine (export env a content style st)) = heap (mach st)"
  using export_final [of env a content style st]
  by (elim disjE exE) (simp_all add: emit_def)

lemma loss_event_of_call:
  "Losses ii \<in> set (map skeleton new) \<Longrightarrow> \<exists>wts ls tot. LossComputation ii wts ls tot \<in> set new"
proof -
  assume "Losses ii \<in> set (map skeleton new)"
  then obtain ev where ev: "ev \<in> set new" "skeleton ev = Losses ii" by auto
  show ?thesis
  proof (cases ev)
    case (LossComputation jj wts ls tot)
    then have "LossComputation ii wts ls tot \<in> set new" using ev by simp
    then show ?thesis by blast
  qed (use ev in simp_all)
qed

lemma losses_in_calls: "ii \<in> set iis \<Longrightarrow> Losses ii \<in> set (concat (map (iteration_calls a) iis))"
  by (auto simp add: iteration_calls_def)

lemma fold_freeze:
  "(q \<in> set ps \<longrightarrow> \<not> requires_grad (fold (\<lambda>param s'. s'(param := (s' param)\<lparr>requires_grad := False\<rparr>)) ps s q)) \<and>
   (\<not> requires_grad (s q) \<longrightarrow> \<not> requires_grad (fold (\<lambda>param s'. s'(param := (s' param)\<lparr>requires_grad := False\<rparr>)) ps s q)) \<and>
   data (fold (\<lambda>param s'. s'(param := (s' param)\<lparr>requires_grad := False\<rparr>)) ps s q) = data (s q) \<and>
   grad (fold (\<lambda>param s'. s'(param := (s' param)\<lparr>requires_grad := False\<rparr>)) ps s q) = grad (s q)"
  by (induction ps arbitrary: s) auto

lemma freeze_frame:
  "q \<in> set (parameters model) \<Longrightarrow> \<not> requires_grad (freeze model s q)"
  "data (freeze model s q) = data (s q)"
  "grad (freeze model s q) = grad (s q)"
  using fold_freeze [of q "parameters model" s] by (simp_all add: freeze_def)

lemma example_get_features:
  "get_features s x example_network = Inr (example_all_features x)"
  by (simp add: get_features_def example_network_def identity_layer_def default_layers_def
      bindE_def example_all_features_def)

lemma example_shaped:
  "shape x = [1, 3, 2, 2] \<Longrightarrow> shaped (\<lambda>l. (3, 2, 2)) (example_all_features x)"
  by (simp add: shaped_def example_all_features_def recorded_layers_def default_layers_def)

lemma example_regular: "regular example_network s [1, 3, 2, 2] (\<lambda>l. (3, 2, 2))"
  by (simp add: regular_def example_get_features example_shaped)

lemma example_shape_preserving: "shape_preserving (adam example_env)"
  by (simp add: shape_preserving_def example_env_def)

lemma example_parameters: "set (parameters example_network) = {0}"
  by (simp add: parameters_def example_network_def identity_layer_def)

lemma example_admissible:
  assumes "content_path a = ''content.jpg''" and "style_path a = ''style.jpg''"
  shows "admissible example_env a example_machine example_content example_style 2 2
           (\<lambda>l. (3, 2, 2))"
proof -
  have "vgg example_env = example_network" by (simp add: example_env_def)
  moreover have "load_image example_env ''content.jpg'' None = Inr example_content"
    "load_image example_env ''style.jpg'' (Some [2, 2]) = Inr example_style"
    by (simp_all add: example_env_def)
  moreover have "shape example_content = [1, 3, 2, 2]" "well_formed example_content"
    "shape example_style = [1, 3, 2, 2]" "well_formed example_style"
    by (simp_all add: example_content_def example_style_def well_formed_def numel_def)
  moreover have "next_free example_machine = 1" by (simp add: example_machine_def)
  ultimately show ?thesis
    using assms example_regular example_shape_preserving example_parameters
    by (simp add: admissible_def)
qed

lemma example_args_fields:
  "content_path example_args = ''content.jpg''" "style_path example_args = ''style.jpg''"
  "target_init example_args = ''clone''" "out_format example_args = ''image-only''"
  "show_every example_args = 2" "steps example_args = 2"
  "content_weight example_args = 7.5" "style_weight example_args = 100"
  "tv_weight example_args = 200" "lr example_args = 3 / 100"
  by (simp_all add: example_args_def defaults_def)

lemma example_frozen: "frozen (vgg example_env) (heap example_machine)"
  by (simp add: frozen_def example_machine_def example_env_def freeze_frame)

lemma stylize_zero_show_every:
  fixes env :: "'o env"
  assumes ad: "admissible env a m0 content style h w dims"
      and fz: "frozen (vgg env) (heap m0)"
      and vi: "valid_init (target_init a)"
      and lr: "0 \<le> lr a"
      and sh: "show_every a = 0"
      and st: "1 \<le> steps a"
  shows "\<exists>m new. stylize env a m0 = Inl (ZeroDivisionError, m) \<and> trace m = trace m0 @ new \<and>
     map skeleton new =
       [Load, Load, Forward Content, Forward Style, Forward Target, Losses 1, Step 1]"
proof -
  from ad have
    lc: "load_image env (content_path a) None = Inr content" and
    lst0: "load_image env (style_path a) (Some [h, w]) = Inr style" and
    sc: "shape content = [1, 3, h, w]" "well_formed content" and
    ss: "shape style = [1, 3, h, w]" "well_formed style" and
    reg: "regular (vgg env) (heap m0) [1, 3, h, w] dims" and
    upd: "shape_preserving (adam env)" and
    al: "\<forall>p \<in> set (parameters (vgg env)). p < next_free m0" and
    hw: "2 \<le> h" "2 \<le> w"
    by (simp_all add: admissible_def)
  have lst: "load_image env (style_path a)
                 (Some (drop (length (shape content) - 2) (shape content))) = Inr style"
    using lst0 sc(1) by simp
  have im: "\<forall>x. shape x = [1, 3, h, w] \<longrightarrow> (\<exists>img. im_convert x = Inr img)"
    using im_convert_ok [OF _ hw] by blast
  from stylize_setup [OF lc lst sc ss reg al vi fz lr] obtain cf gms and st0 :: "'o frame" where
    s: "stylize env a m0 =
       bindE (run_loop env a cf gms (style_layers_weights (style_layer_weight_exp a))
                (content_layers_weights (content_weight_blend a)) [1..steps a] st0)
         (\<lambda>st. export env a content style st)"
    and cfs: "shaped dims cf"
    and gs: "\<forall>l \<in> set recorded_layers.
         \<exists>g. map_of gms l = Some g \<and> shape g = [fst (dims l), fst (dims l)]"
    and inv: "loop_inv env (heap m0) [1, 3, h, w] st0"
    and tr0: "trace (mach st0) = trace m0 @ [ImageLoaded (content_path a),
        ImageLoaded (style_path a), FeatureExtraction Content, FeatureExtraction Style]"
    by blast
  from iteration_run [OF inv reg cfs gs upd refl im, where e = "style_layer_weight_exp a"
      and blend = "content_weight_blend a" and ii = 1 and a = a]
  obtain st1 cl sl tl m3 where
    it0: "iteration env a cf gms (style_layers_weights (style_layer_weight_exp a))
        (content_layers_weights (content_weight_blend a)) 1 st0 =
        (if show_every a = 0 then Inl (ZeroDivisionError, m3) else Inr st1)"
    and tr3: "trace m3 = trace (mach st0) @
        [FeatureExtraction Target,
         LossComputation 1 (current_weights (set_weights a 1 st0)) (cl, sl, tl)
           (case current_weights (set_weights a 1 st0) of
              (cw, sw, tw) \<Rightarrow> total_loss cw sw tw cl sl tl),
         OptimizerStep 1]"
    by blast
  have up: "[1..steps a] = 1 # [2..steps a]"
    using st by (simp add: upto.simps)
  have r: "stylize env a m0 = Inl (ZeroDivisionError, m3)"
    using it0 sh by (simp add: s up bindE_def)
  define new where "new = [ImageLoaded (content_path a), ImageLoaded (style_path a),
      FeatureExtraction Content, FeatureExtraction Style, FeatureExtraction Target,
      LossComputation 1 (current_weights (set_weights a 1 st0)) (cl, sl, tl)
        (case current_weights (set_weights a 1 st0) of
           (cw, sw, tw) \<Rightarrow> total_loss cw sw tw cl sl tl),
      OptimizerStep 1]"
  have "trace m3 = trace m0 @ new" using tr3 tr0 by (simp add: new_def)
  moreover have "map skeleton new =
      [Load, Load, Forward Content, Forward Style, Forward Target, Losses 1, Step 1]"
    by (simp add: new_def)
  ultimately show ?thesis using r by (intro exI [of _ m3] exI [of _ new]) simp
qed


text \<open>
  Claim C7. For \<open>steps \<ge> 1\<close>, in a run that raises nothing, \<open>stylize\<close> returns, and
  the calls it has made are: the two image loads, the forward passes on the content and
  on the style image, then for each \<open>ii\<close> from 1 to \<open>steps\<close>, in this order, one
  forward pass on the target, one computation of the losses and one optimizer step (and
  the display when \<open>show_every\<close> divides \<open>ii\<close>), and last one export. So the loop runs
  exactly \<open>steps\<close> times and the export runs once, after the loop. The run raises
  nothing when the images load, the network is frozen, \<open>target_init\<close> is valid, the
  learning rate is not negative, \<open>show_every\<close> is not zero, \<open>out_format\<close> is
  \<open>''comparison''\<close>, or \<open>''image-only''\<close> with \<open>target_init = ''clone''\<close>, and the
  file is written. It is not so for every call with \<open>steps \<ge> 1\<close>: with
  \<open>show_every = 0\<close> the loop stops in its first iteration, on
  \<^verbatim>\<open>ZeroDivisionError\<close>, and nothing is exported.
\<close>

theorem stylize_calls:
  fixes env :: "'o env"
  assumes "admissible env a m0 content style h w dims"
      and "frozen (vgg env) (heap m0)"
      and "valid_init (target_init a)"
      and "0 \<le> lr a"
      and "show_every a \<noteq> 0"
      and "1 \<le> steps a"
      and "out_format a = ''image-only'' \<and> target_init a = ''clone'' \<or>
           out_format a = ''comparison''"
      and "\<forall>img. shape img = [h, w, 3] \<longrightarrow> save_image env (out_path a) img = None"
      and "\<forall>i1 i2 i3. shape i1 = [h, w, 3] \<and> shape i2 = [h, w, 3] \<and> shape i3 = [h, w, 3] \<longrightarrow>
             save_figure env (out_path a) i1 i2 i3 = None"
  shows "\<exists>m new. stylize env a m0 = Inr m \<and> trace m = trace m0 @ new \<and>
     map skeleton new = [Load, Load, Forward Content, Forward Style] @
        concat (map (iteration_calls a) [1..steps a]) @ [Export] \<and>
     filter is_step (map skeleton new) = map Step [1..steps a] \<and>
     filter is_losses (map skeleton new) = map Losses [1..steps a] \<and>
     filter (\<lambda>c. c = Forward Target) (map skeleton new)
       = replicate (nat (steps a)) (Forward Target) \<and>
     filter (\<lambda>c. c = Export) (map skeleton new) = [Export] \<and>
     length [1..steps a] = nat (steps a)"
proof -
  from admissible_loop [OF assms(1,3,5,2,4)] obtain st new where
    run: "stylize env a m0 = export env a content style st"
    and inv: "loop_inv env (heap m0) [1, 3, h, w] st"
    and tr: "trace (mach st) = trace m0 @ [ImageLoaded (content_path a),
        ImageLoaded (style_path a), FeatureExtraction Content, FeatureExtraction Style] @ new"
    and sk: "map skeleton new = concat (map (iteration_calls a) [1..steps a])"
    and hx: "1 \<le> steps a \<longrightarrow> h_x st = Some h \<and> w_x st = Some w"
    by blast
  have hw: "2 \<le> h" "2 \<le> w" and cs: "shape content = [1, 3, h, w]" "shape style = [1, 3, h, w]"
    using assms(1) by (simp_all add: admissible_def)
  have shp: "shape (data (heap (mach st) (target st))) = [1, 3, h, w]"
    using inv by (simp add: loop_inv_def)
  have hx': "target_init a = ''clone'' \<longrightarrow> h_x st = Some h \<and> w_x st = Some w"
    using hx assms(6) by simp
  from export_run [OF shp hw hx' cs, of env] obtain img i1 i2 i3 where
    sh: "shape img = [h, w, 3]" "shape i1 = [h, w, 3]" "shape i2 = [h, w, 3]"
      "shape i3 = [h, w, 3]" and
    ex0: "export env a content style st =
     (if out_format a = ''image-only''
      then (if target_init a = ''clone''
            then (case save_image env (out_path a) img of
                    None \<Rightarrow> Inr (emit (SaveImage (out_path a) img) (mach st))
                  | Some e \<Rightarrow> Inl (e, emit (SaveImage (out_path a) img) (mach st)))
            else Inl (ValueError, mach st))
      else if out_format a = ''comparison''
      then (case save_figure env (out_path a) i1 i2 i3 of
              None \<Rightarrow> Inr (emit (SaveFigure (out_path a)) (mach st))
            | Some e \<Rightarrow> Inl (e, emit (SaveFigure (out_path a)) (mach st)))
      else Inl (ValueError, mach st))"
    by blast
  have sv: "save_image env (out_path a) img = None" "save_figure env (out_path a) i1 i2 i3 = None"
    using assms(8,9) sh by simp_all
  define ev where "ev = (if out_format a = ''image-only''
      then SaveImage (out_path a) img else SaveFigure (out_path a))"
  define all where "all = [ImageLoaded (content_path a), ImageLoaded (style_path a),
        FeatureExtraction Content, FeatureExtraction Style] @ new @ [ev]"
  have r: "stylize env a m0 = Inr (emit ev (mach st))"
    using run ex0 assms(7) sv by (auto simp add: ev_def)
  have t: "trace (emit ev (mach st)) = trace m0 @ all"
    using tr by (simp add: emit_def all_def)
  have s: "map skeleton all = [Load, Load, Forward Content, Forward Style] @
        concat (map (iteration_calls a) [1..steps a]) @ [Export]"
    using sk by (simp add: all_def ev_def)
  have "filter is_step (map skeleton all) = map Step [1..steps a]"
    "filter is_losses (map skeleton all) = map Losses [1..steps a]"
    "filter (\<lambda>c. c = Forward Target) (map skeleton all)
       = replicate (nat (steps a)) (Forward Target)"
    by (simp_all add: s filter_step_calls filter_losses_calls filter_forward_calls)
  moreover have "filter (\<lambda>c. c = Export) (map skeleton all) = [Export]"
    by (simp add: s filter_export_calls)
  ultimately show ?thesis using r t s by (intro exI [of _ "emit ev (mach st)"] exI [of _ all]) simp
qed

theorem stylize_calls_witness:
  "admissible example_env example_args example_machine example_content example_style 2 2
     (\<lambda>l. (3, 2, 2)) \<and>
   frozen (vgg example_env) (heap example_machine) \<and>
   valid_init (target_init example_args) \<and> 0 \<le> lr example_args \<and>
   show_every example_args \<noteq> 0 \<and>
   1 \<le> steps example_args \<and> out_format example_args = ''image-only'' \<and>
   target_init example_args = ''clone'' \<and>
   (\<exists>m. stylize example_env example_args example_machine = Inr m \<and>
        map skeleton (trace m) =
          [Load, Load, Forward Content, Forward Style,
           Forward Target, Losses 1, Step 1,
           Forward Target, Losses 2, Step 2, Show 2, Export])"
proof -
  have ad: "admissible example_env example_args example_machine example_content example_style
      2 2 (\<lambda>l. (3, 2, 2))"
    by (rule example_admissible) (simp_all add: example_args_fields)
  have vi: "valid_init (target_init example_args)"
    by (simp add: valid_init_def example_args_fields)
  have lr: "0 \<le> lr example_args" by (simp add: example_args_fields)
  have sh: "show_every example_args \<noteq> 0" "1 \<le> steps example_args"
    "out_format example_args = ''image-only'' \<and> target_init example_args = ''clone'' \<or>
     out_format example_args = ''comparison''"
    by (simp_all add: example_args_fields)
  have sv: "\<forall>img. shape img = [2, 2, 3] \<longrightarrow> save_image example_env (out_path example_args) img = None"
    "\<forall>i1 i2 i3. shape i1 = [2, 2, 3] \<and> shape i2 = [2, 2, 3] \<and> shape i3 = [2, 2, 3] \<longrightarrow>
       save_figure example_env (out_path example_args) i1 i2 i3 = None"
    by (simp_all add: example_env_def)
  from stylize_calls [OF ad example_frozen vi lr sh sv] obtain m new where
    "stylize example_env example_args example_machine = Inr m"
    "trace m = trace example_machine @ new"
    "map skeleton new = [Load, Load, Forward Content, Forward Style] @
        concat (map (iteration_calls example_args) [1..steps example_args]) @ [Export]"
    by blast
  then have "stylize example_env example_args example_machine = Inr m \<and>
        map skeleton (trace m) =
          [Load, Load, Forward Content, Forward Style,
           Forward Target, Losses 1, Step 1,
           Forward Target, Losses 2, Step 2, Show 2, Export]"
    by (simp add: example_machine_def example_args_fields iteration_calls_def upto.simps)
  then show ?thesis using ad example_frozen vi lr sh(1,2) by (auto simp add: example_args_fields)
qed

text \<open>
  With \<open>steps = 2\<close> and \<open>show_every = 0\<close> the run stops in its first iteration, on
  \<^verbatim>\<open>ii % show_every\<close>: one optimizer step has been made, and there is no export.
\<close>

theorem zero_show_every_counterexample:
  "1 \<le> steps (example_args\<lparr>show_every := 0\<rparr>) \<and>
   (\<exists>m. stylize example_env (example_args\<lparr>show_every := 0\<rparr>) example_machine
          = Inl (ZeroDivisionError, m) \<and>
        map skeleton (trace m) =
          [Load, Load, Forward Content, Forward Style, Forward Target, Losses 1, Step 1])"
proof -
  let ?a = "example_args\<lparr>show_every := 0\<rparr>"
  have ad: "admissible example_env ?a example_machine example_content example_style
      2 2 (\<lambda>l. (3, 2, 2))"
    by (rule example_admissible) (simp_all add: example_args_fields)
  have vi: "valid_init (target_init ?a)"
    by (simp add: valid_init_def example_args_fields)
  have lr: "0 \<le> lr ?a" by (simp add: example_args_fields)
  have sh: "show_every ?a = 0" "1 \<le> steps ?a"
    by (simp_all add: example_args_fields)
  from stylize_zero_show_every [OF ad example_frozen vi lr sh] obtain m new where
    "stylize example_env ?a example_machine = Inl (ZeroDivisionError, m)"
    "trace m = trace example_machine @ new"
    "map skeleton new =
       [Load, Load, Forward Content, Forward Style, Forward Target, Losses 1, Step 1]"
    by (elim exE conjE)
  then have "stylize example_env ?a example_machine = Inl (ZeroDivisionError, m) \<and>
        map skeleton (trace m) =
          [Load, Load, Forward Content, Forward Style, Forward Target, Losses 1, Step 1]"
    by (simp add: example_machine_def)
  then show ?thesis using sh(2) by (intro conjI exI [of _ m]) simp_all
qed




text \<open>
  Claim C9. In a run with \<open>target_init\<close> \<open>''blank''\<close> or \<open>''random''\<close>, the losses
  of iteration \<open>ii\<close> are weighted by 1, 0.01 and 2 when \<open>ii \<le> 0.2 * steps\<close> and by
  10, 100 and 20 afterwards, whatever \<open>content_weight\<close>, \<open>style_weight\<close> and
  \<open>tv_weight\<close> were passed; with \<open>''clone''\<close> every iteration uses the weights that
  were passed. Every iteration from 1 to \<open>steps\<close> has its loss computation in the run,
  and the run has no other. The run is one whose loop raises nothing: the images load,
  the network is frozen, the learning rate is not negative and \<open>show_every\<close> is not
  zero.
\<close>

theorem weights_schedule:
  fixes env :: "'o env"
  assumes "admissible env a m0 content style h w dims"
      and "frozen (vgg env) (heap m0)"
      and "valid_init (target_init a)"
      and "0 \<le> lr a"
      and "show_every a \<noteq> 0"
  shows "\<exists>new. trace (final_machine (stylize env a m0)) = trace m0 @ new \<and>
     (\<forall>ii \<in> set [1..steps a]. \<exists>wts ls tot. LossComputation ii wts ls tot \<in> set new) \<and>
     (\<forall>ii wts ls tot. LossComputation ii wts ls tot \<in> set new \<longrightarrow>
        ii \<in> set [1..steps a] \<and>
        wts = (if target_init a = ''blank'' \<or> target_init a = ''random''
               then (if real_of_int ii \<le> real_of_int (steps a) * 0.2
                     then (1, 0.01, 2) else (10, 100, 20))
               else (content_weight a, style_weight a, tv_weight a)))"
proof -
  from admissible_loop [OF assms(1,3,5,2,4)] obtain st0 :: "'o frame" and st new where
    run: "stylize env a m0 = export env a content style st"
    and w0: "current_weights st0 = (content_weight a, style_weight a, tv_weight a)"
    and tr: "trace (mach st) = trace m0 @ [ImageLoaded (content_path a),
        ImageLoaded (style_path a), FeatureExtraction Content, FeatureExtraction Style] @ new"
    and sk: "map skeleton new = concat (map (iteration_calls a) [1..steps a])"
    and ev: "\<forall>jj wts ls tot. LossComputation jj wts ls tot \<in> set new \<longrightarrow>
         wts = current_weights (set_weights a jj st0) \<and>
         tot = (case (wts, ls) of ((cw, sw, tw), (c, s, t)) \<Rightarrow> total_loss cw sw tw c s t)"
    by blast
  from export_trace [of env a content style st] obtain ex where
    ex: "trace (final_machine (export env a content style st)) = trace (mach st) @ ex"
      "\<forall>jj wts ls tot. LossComputation jj wts ls tot \<notin> set ex"
    by blast
  define all where "all = [ImageLoaded (content_path a), ImageLoaded (style_path a),
        FeatureExtraction Content, FeatureExtraction Style] @ new @ ex"
  have 1: "trace (final_machine (stylize env a m0)) = trace m0 @ all"
    using run ex(1) tr by (simp add: all_def)
  have mem: "LossComputation jj wts ls tot \<in> set all \<longleftrightarrow> LossComputation jj wts ls tot \<in> set new"
    for jj wts ls tot
    using ex(2) [rule_format, of jj wts ls tot] by (simp add: all_def)
  have 2: "\<exists>wts ls tot. LossComputation ii wts ls tot \<in> set all" if "ii \<in> set [1..steps a]" for ii
  proof -
    from losses_in_calls [OF that, of a] sk have "Losses ii \<in> set (map skeleton new)" by simp
    from loss_event_of_call [OF this] show ?thesis using mem by blast
  qed
  have sw: "current_weights (set_weights a jj st0) =
      (if target_init a = ''blank'' \<or> target_init a = ''random''
               then (if real_of_int jj \<le> real_of_int (steps a) * 0.2
                     then (1, 0.01, 2) else (10, 100, 20))
               else (content_weight a, style_weight a, tv_weight a))" for jj
    using w0 by (simp add: set_weights_def current_weights_def)
  have 3: "wts = (if target_init a = ''blank'' \<or> target_init a = ''random''
               then (if real_of_int jj \<le> real_of_int (steps a) * 0.2
                     then (1, 0.01, 2) else (10, 100, 20))
               else (content_weight a, style_weight a, tv_weight a))"
    if "LossComputation jj wts ls tot \<in> set all" for jj wts ls tot
    using ev [rule_format, of jj wts ls tot] that mem sw [of jj] by (simp only:)
  have 4: "jj \<in> set [1..steps a]" if "LossComputation jj wts ls tot \<in> set all" for jj wts ls tot
  proof -
    from that mem have "LossComputation jj wts ls tot \<in> set new" by simp
    then have "Losses jj \<in> skeleton ` set new" by force
    then have "Losses jj \<in> set (concat (map (iteration_calls a) [1..steps a]))"
      using sk by (simp flip: set_map)
    then show ?thesis by (auto simp add: iteration_calls_def split: if_splits)
  qed
  show ?thesis
    using 1 2 3 4 by (intro exI [of _ all]) blast
qed

theorem weights_schedule_witness:
  "admissible example_env (example_args\<lparr>target_init := ''blank'', steps := 5\<rparr>) example_machine
     example_content example_style 2 2 (\<lambda>l. (3, 2, 2)) \<and>
   frozen (vgg example_env) (heap example_machine) \<and>
   valid_init (target_init (example_args\<lparr>target_init := ''blank'', steps := 5\<rparr>)) \<and>
   0 \<le> lr (example_args\<lparr>target_init := ''blank'', steps := 5\<rparr>) \<and>
   show_every (example_args\<lparr>target_init := ''blank'', steps := 5\<rparr>) \<noteq> 0 \<and>
   (\<exists>ls tot. LossComputation 1 (1, 1 / 100, 2) ls tot \<in> set (trace (final_machine
       (stylize example_env (example_args\<lparr>target_init := ''blank'', steps := 5\<rparr>)
          example_machine)))) \<and>
   (\<exists>ls tot. LossComputation 2 (10, 100, 20) ls tot \<in> set (trace (final_machine
       (stylize example_env (example_args\<lparr>target_init := ''blank'', steps := 5\<rparr>)
          example_machine))))"
proof -
  let ?a = "example_args\<lparr>target_init := ''blank'', steps := 5\<rparr>"
  have ad: "admissible example_env ?a example_machine example_content example_style
      2 2 (\<lambda>l. (3, 2, 2))"
    by (rule example_admissible) (simp_all add: example_args_fields)
  have vi: "valid_init (target_init ?a)"
    by (simp add: valid_init_def)
  have lr: "0 \<le> lr ?a" by (simp add: example_args_fields)
  have sh: "show_every ?a \<noteq> 0"
    by (simp add: example_args_fields)
  from weights_schedule [OF ad example_frozen vi lr sh] obtain new where
    tr: "trace (final_machine (stylize example_env ?a example_machine))
          = trace example_machine @ new"
    and ex: "\<forall>ii \<in> set [1..steps ?a]. \<exists>wts ls tot. LossComputation ii wts ls tot \<in> set new"
    and wt: "\<forall>ii wts ls tot. LossComputation ii wts ls tot \<in> set new \<longrightarrow>
        ii \<in> set [1..steps ?a] \<and>
        wts = (if target_init ?a = ''blank'' \<or> target_init ?a = ''random''
               then (if real_of_int ii \<le> real_of_int (steps ?a) * 0.2
                     then (1, 0.01, 2) else (10, 100, 20))
               else (content_weight ?a, style_weight ?a, tv_weight ?a))"
    by blast
  have t: "trace (final_machine (stylize example_env ?a example_machine)) = new"
    using tr by (simp add: example_machine_def)
  from ex have "\<exists>wts ls tot. LossComputation 1 wts ls tot \<in> set new" by (simp add: upto.simps)
  then obtain wts1 ls1 tot1 where e1: "LossComputation 1 wts1 ls1 tot1 \<in> set new" by blast
  from wt [rule_format, OF e1] have "wts1 = (1, 1 / 100, 2)" by simp
  with e1 have 1: "\<exists>ls tot. LossComputation 1 (1, 1 / 100, 2) ls tot \<in> set new" by blast
  from ex have "\<exists>wts ls tot. LossComputation 2 wts ls tot \<in> set new" by (simp add: upto.simps)
  then obtain wts2 ls2 tot2 where e2: "LossComputation 2 wts2 ls2 tot2 \<in> set new" by blast
  from wt [rule_format, OF e2] have "wts2 = (10, 100, 20)" by simp
  with e2 have 2: "\<exists>ls tot. LossComputation 2 (10, 100, 20) ls tot \<in> set new" by blast
  show ?thesis using ad example_frozen vi lr sh 1 2 by (simp only: t) simp
qed

text \<open>
  Claim C6. After the notebook has frozen the network, no parameter of it requires a
  gradient. The optimizer that \<open>stylize\<close> builds lists the target tensor alone, which
  is none of the network's parameters, and after any number of iterations of the loop,
  as at the end of the run, every parameter of the network is in the store as it was
  before the run: its data are the loaded values. The run is one whose loop raises
  nothing: the images load, \<open>target_init\<close> is valid, the learning rate is not negative
  and \<open>show_every\<close> is not zero.
\<close>

theorem network_weights_untouched:
  fixes env :: "'o env"
  assumes "admissible env a m0 content style h w dims"
      and "heap m0 = freeze (vgg env) s"
      and "valid_init (target_init a)"
      and "0 \<le> lr a"
      and "show_every a \<noteq> 0"
  shows "(\<forall>p \<in> set (parameters (vgg env)).
            \<not> requires_grad (heap m0 p) \<and> data (heap m0 p) = data (s p)) \<and>
     (\<exists>cf gms st0 st.
        run_loop env a cf gms (style_layers_weights (style_layer_weight_exp a))
          (content_layers_weights (content_weight_blend a)) [1..steps a] st0 = Inr st \<and>
        stylize env a m0 = export env a content style st \<and>
        (\<forall>k. \<exists>stk.
           run_loop env a cf gms (style_layers_weights (style_layer_weight_exp a))
             (content_layers_weights (content_weight_blend a)) (take k [1..steps a]) st0 = Inr stk \<and>
           param_groups (optimizer stk) = [target stk] \<and>
           target stk \<notin> set (parameters (vgg env)) \<and>
           (\<forall>p \<in> set (parameters (vgg env)).
              heap (mach stk) p = heap m0 p \<and> data (heap (mach stk) p) = data (s p)))) \<and>
     (\<forall>p \<in> set (parameters (vgg env)). heap (final_machine (stylize env a m0)) p = heap m0 p)"
proof -
  have fr: "\<not> requires_grad (heap m0 p) \<and> data (heap m0 p) = data (s p)"
    if "p \<in> set (parameters (vgg env))" for p
    using that by (simp add: assms(2) freeze_frame)
  then have fz: "frozen (vgg env) (heap m0)" by (simp add: frozen_def)
  have keep: "param_groups (optimizer stk) = [target stk] \<and>
           target stk \<notin> set (parameters (vgg env)) \<and>
           (\<forall>p \<in> set (parameters (vgg env)).
              heap (mach stk) p = heap m0 p \<and> data (heap (mach stk) p) = data (s p))"
    if "loop_inv env (heap m0) [1, 3, h, w] stk" for stk :: "'o frame"
    using that fr by (simp add: loop_inv_def)
  from admissible_loop [OF assms(1,3,5) fz assms(4)] obtain cf gms and st0 st :: "'o frame" where
    run: "stylize env a m0 = export env a content style st"
    and pre: "\<forall>iis. \<exists>stk. run_loop env a cf gms (style_layers_weights (style_layer_weight_exp a))
                (content_layers_weights (content_weight_blend a)) iis st0 = Inr stk \<and>
              loop_inv env (heap m0) [1, 3, h, w] stk \<and> target stk = target st0"
    and loop: "run_loop env a cf gms (style_layers_weights (style_layer_weight_exp a))
                (content_layers_weights (content_weight_blend a)) [1..steps a] st0 = Inr st"
    and inv: "loop_inv env (heap m0) [1, 3, h, w] st"
    by blast
  have 2: "\<exists>stk.
           run_loop env a cf gms (style_layers_weights (style_layer_weight_exp a))
             (content_layers_weights (content_weight_blend a)) (take k [1..steps a]) st0 = Inr stk \<and>
           param_groups (optimizer stk) = [target stk] \<and>
           target stk \<notin> set (parameters (vgg env)) \<and>
           (\<forall>p \<in> set (parameters (vgg env)).
              heap (mach stk) p = heap m0 p \<and> data (heap (mach stk) p) = data (s p))" for k
    using pre [rule_format, of "take k [1..steps a]"] keep by blast
  from export_trace [of env a content style st] have "heap (final_machine (export env a content style st)) = heap (mach st)"
    by blast
  then have 3: "\<forall>p \<in> set (parameters (vgg env)). heap (final_machine (stylize env a m0)) p = heap m0 p"
    using keep [OF inv] run by simp
  show ?thesis
    using fr loop run 2 3 by blast
qed

theorem network_weights_untouched_witness:
  "admissible example_env example_args example_machine example_content example_style 2 2
     (\<lambda>l. (3, 2, 2)) \<and>
   heap example_machine = freeze (vgg example_env) example_store \<and>
   valid_init (target_init example_args) \<and> 0 \<le> lr example_args \<and>
   show_every example_args \<noteq> 0 \<and>
   parameters (vgg example_env) = [0, 0, 0, 0, 0, 0, 0] \<and>
   \<not> requires_grad (heap example_machine 0) \<and>
   heap (final_machine (stylize example_env example_args example_machine)) 0
     = heap example_machine 0"
proof -
  have ad: "admissible example_env example_args example_machine example_content example_style
      2 2 (\<lambda>l. (3, 2, 2))"
    by (rule example_admissible) (simp_all add: example_args_fields)
  have fz: "heap example_machine = freeze (vgg example_env) example_store"
    by (simp add: example_machine_def example_env_def)
  have vi: "valid_init (target_init example_args)"
    by (simp add: valid_init_def example_args_fields)
  have lr: "0 \<le> lr example_args" by (simp add: example_args_fields)
  have sh: "show_every example_args \<noteq> 0"
    by (simp add: example_args_fields)
  have ps: "parameters (vgg example_env) = [0, 0, 0, 0, 0, 0, 0]"
    by (simp add: parameters_def example_env_def example_network_def identity_layer_def)
  from network_weights_untouched [OF ad fz vi lr sh] ps
  have "\<not> requires_grad (heap example_machine 0) \<and>
     heap (final_machine (stylize example_env example_args example_machine)) 0
       = heap example_machine 0"
    by simp
  then show ?thesis using ad fz vi lr sh ps by simp
qed

lemma iteration_losses:
  fixes env :: "'o env"
  assumes "loop_inv env s0 [1, 3, h, w] st"
      and "regular (vgg env) s0 [1, 3, h, w] dims"
      and "2 \<le> h" and "2 \<le> w"
      and "shaped dims cf"
      and "\<forall>l \<in> set recorded_layers.
             \<exists>g. map_of gms l = Some g \<and> shape g = [fst (dims l), fst (dims l)]"
      and "shape_preserving (adam env)"
      and "show_every a \<noteq> 0"
      and "clw = content_layers_weights blend" and "slw = style_layers_weights e"
      and "(cw, sw, tw) = current_weights (set_weights a ii st)"
      and "x = data (heap (mach st) (target st))"
      and "obj = objective (vgg env) clw slw cf gms (target st) cw sw tw"
      and "s1 = zero_grad (optimizer st) (heap (mach st))"
  shows "\<exists>st' tf cl sl tl.
      iteration env a cf gms slw clw ii st = Inr st' \<and>
      get_features (heap (mach st)) x (vgg env) = Inr tf \<and>
      content_loss clw tf cf = Inr cl \<and> style_loss slw tf gms = Inr sl \<and> tv_loss x = Inr tl \<and>
      trace (mach st') = trace (mach st) @
        [FeatureExtraction Target,
         LossComputation ii (cw, sw, tw) (cl, sl, tl)
           (sadd (sadd (smul cw cl) (smul sw sl)) (smul tw tl)),
         OptimizerStep ii] @ (if ii mod show_every a = 0 then [ShowProgress ii] else []) \<and>
      obj s1 = Inr (sadd (sadd (smul cw cl) (smul sw sl)) (smul tw tl)) \<and>
      grad (heap (mach st') (target st)) = Some (autograd env obj s1 (target st)) \<and>
      data (heap (mach st') (target st)) =
        fst (adam env (opt_lr (optimizer st)) (opt_state (optimizer st) (target st)) x
               (autograd env obj s1 (target st))) \<and>
      (\<forall>c' s' t'. cl = Some c' \<and> sl = Some s' \<and> tl = Some t' \<longrightarrow>
         sadd (sadd (smul cw cl) (smul sw sl)) (smul tw tl) = Some (cw * c' + sw * s' + tw * t'))"
proof -
  have im: "\<forall>x. shape x = [1, 3, h, w] \<longrightarrow> (\<exists>img. im_convert x = Inr img)"
    using im_convert_ok [OF _ assms(3,4)] by blast
  have w: "cur_content_weight (set_weights a ii st) = cw"
    "cur_style_weight (set_weights a ii st) = sw" "cur_tv_weight (set_weights a ii st) = tw"
    using assms(11) by (simp_all add: current_weights_def)
  from iteration_run [OF assms(1,2,5,6,7) refl im, where e = e and blend = blend and ii = ii
      and a = a]
  obtain st' tf cl sl tl m3 where
    it0: "iteration env a cf gms slw clw ii st =
        (if show_every a = 0 then Inl (ZeroDivisionError, m3) else Inr st')"
    and tf: "get_features (heap (mach st)) x (vgg env) = Inr tf"
    and ls: "content_loss clw tf cf = Inr cl" "style_loss slw tf gms = Inr sl" "tv_loss x = Inr tl"
    and tr: "trace (mach st') = trace (mach st) @
        iteration_events a ii (current_weights (set_weights a ii st)) (cl, sl, tl)"
    and gr: "grad (heap (mach st') (target st)) = Some (autograd env obj s1 (target st))"
    and da: "data (heap (mach st') (target st)) =
        fst (adam env (opt_lr (optimizer st)) (opt_state (optimizer st) (target st)) x
               (autograd env obj s1 (target st)))"
    unfolding assms(9,10,12,13,14) w by blast
  have it: "iteration env a cf gms slw clw ii st = Inr st'"
    using it0 assms(8) by simp
  have tr': "trace (mach st') = trace (mach st) @
        [FeatureExtraction Target,
         LossComputation ii (cw, sw, tw) (cl, sl, tl)
           (sadd (sadd (smul cw cl) (smul sw sl)) (smul tw tl)),
         OptimizerStep ii] @ (if ii mod show_every a = 0 then [ShowProgress ii] else [])"
    using tr by (simp add: assms(11) [symmetric] iteration_events_def total_loss_def)
  have "objective (vgg env) clw slw cf gms (target st) cw sw tw (heap (mach st))
        = Inr (sadd (sadd (smul cw cl) (smul sw sl)) (smul tw tl))"
    using tf ls by (simp add: objective_def assms(12) [symmetric] loss_terms_def bindE_def
        total_loss_def)
  moreover have "objective (vgg env) clw slw cf gms (target st) cw sw tw s1 =
      objective (vgg env) clw slw cf gms (target st) cw sw tw (heap (mach st))"
    by (rule objective_frame) (simp_all add: assms(14) zero_grad_frame)
  ultimately have ob: "obj s1 = Inr (sadd (sadd (smul cw cl) (smul sw sl)) (smul tw tl))"
    by (simp add: assms(13))
  have fin: "\<forall>c' s' t'. cl = Some c' \<and> sl = Some s' \<and> tl = Some t' \<longrightarrow>
         sadd (sadd (smul cw cl) (smul sw sl)) (smul tw tl) = Some (cw * c' + sw * s' + tw * t')"
    by (simp add: sadd_def smul_def)
  show ?thesis using it tf ls tr' ob gr da fin by blast
qed

lemma run_loop_append:
  "run_loop env a cf gms slw clw (xs @ ys) st =
   bindE (run_loop env a cf gms slw clw xs st) (run_loop env a cf gms slw clw ys)"
  by (induction xs arbitrary: st) (simp_all add: bindE_def split: sum.splits)

lemma take_Suc_upto:
  assumes "k < nat n"
  shows "take (Suc k) [1..n] = take k [1..n] @ [int k + 1]"
proof -
  have "k < length [1..n]" using assms by simp
  then have "take (Suc k) [1..n] = take k [1..n] @ [[1..n] ! k]"
    by (rule take_Suc_conv_app_nth)
  moreover have "[1..n] ! k = 1 + int k" using assms by (intro nth_upto) linarith
  ultimately show ?thesis by simp
qed

text \<open>
  Claim C5. In every iteration of the loop of a run, three scalar losses are computed:
  the content loss, the style loss and the total-variation loss of the target as it is
  when the iteration starts. The iteration records one loss computation, whose total is
  \<open>content_weight * content_loss + style_weight * style_loss + tv_weight * tv_loss\<close>
  with the weights in force in that iteration. That weighted sum, as a function of the
  store, is what \<^verbatim>\<open>total_loss.backward()\<close> is given to differentiate, after
  \<^verbatim>\<open>optimizer.zero_grad()\<close>: its derivative in the target is the gradient that the
  target holds after the iteration, and the optimizer step has updated the target's data
  with it. The run is one whose loop raises nothing: the images load, the network is
  frozen, \<open>target_init\<close> is valid, the learning rate is not negative and \<open>show_every\<close>
  is not zero.
\<close>

theorem iteration_total_loss:
  fixes env :: "'o env"
  assumes "admissible env a m0 content style h w dims"
      and "frozen (vgg env) (heap m0)"
      and "valid_init (target_init a)"
      and "0 \<le> lr a"
      and "show_every a \<noteq> 0"
      and "clw = content_layers_weights (content_weight_blend a)"
      and "slw = style_layers_weights (style_layer_weight_exp a)"
  shows "\<exists>cf gms st0 st.
     run_loop env a cf gms slw clw [1..steps a] st0 = Inr st \<and>
     stylize env a m0 = export env a content style st \<and>
     current_weights st0 = (content_weight a, style_weight a, tv_weight a) \<and>
     (\<forall>k < nat (steps a). \<exists>stk st' x tf cl sl tl cw sw tw obj s1.
        run_loop env a cf gms slw clw (take k [1..steps a]) st0 = Inr stk \<and>
        iteration env a cf gms slw clw (int k + 1) stk = Inr st' \<and>
        run_loop env a cf gms slw clw (take (Suc k) [1..steps a]) st0 = Inr st' \<and>
        x = data (heap (mach stk) (target stk)) \<and>
        (cw, sw, tw) = current_weights (set_weights a (int k + 1) stk) \<and>
        get_features (heap (mach stk)) x (vgg env) = Inr tf \<and>
        content_loss clw tf cf = Inr cl \<and> style_loss slw tf gms = Inr sl \<and>
        tv_loss x = Inr tl \<and>
        trace (mach st') = trace (mach stk) @
          [FeatureExtraction Target,
           LossComputation (int k + 1) (cw, sw, tw) (cl, sl, tl)
             (sadd (sadd (smul cw cl) (smul sw sl)) (smul tw tl)),
           OptimizerStep (int k + 1)] @
          (if (int k + 1) mod show_every a = 0 then [ShowProgress (int k + 1)] else []) \<and>
        obj = objective (vgg env) clw slw cf gms (target stk) cw sw tw \<and>
        s1 = zero_grad (optimizer stk) (heap (mach stk)) \<and>
        obj s1 = Inr (sadd (sadd (smul cw cl) (smul sw sl)) (smul tw tl)) \<and>
        grad (heap (mach st') (target stk)) = Some (autograd env obj s1 (target stk)) \<and>
        data (heap (mach st') (target stk)) =
          fst (adam env (opt_lr (optimizer stk)) (opt_state (optimizer stk) (target stk)) x
                 (autograd env obj s1 (target stk))) \<and>
        (\<forall>c' s' t'. cl = Some c' \<and> sl = Some s' \<and> tl = Some t' \<longrightarrow>
           sadd (sadd (smul cw cl) (smul sw sl)) (smul tw tl)
             = Some (cw * c' + sw * s' + tw * t')))"
proof -
  from admissible_loop [OF assms(1,3,5,2,4)] obtain cf gms and st0 st :: "'o frame" where
    run: "stylize env a m0 = export env a content style st"
    and cfs: "shaped dims cf"
    and gs: "\<forall>l \<in> set recorded_layers.
         \<exists>g. map_of gms l = Some g \<and> shape g = [fst (dims l), fst (dims l)]"
    and w0: "current_weights st0 = (content_weight a, style_weight a, tv_weight a)"
    and pre: "\<forall>iis. \<exists>stk. run_loop env a cf gms slw clw iis st0 = Inr stk \<and>
              loop_inv env (heap m0) [1, 3, h, w] stk \<and> target stk = target st0"
    and loop: "run_loop env a cf gms slw clw [1..steps a] st0 = Inr st"
    unfolding assms(6,7) by blast
  have reg: "regular (vgg env) (heap m0) [1, 3, h, w] dims"
    and hw: "2 \<le> h" "2 \<le> w" and upd: "shape_preserving (adam env)"
    using assms(1) by (simp_all add: admissible_def)
  have each: "\<exists>stk st' x tf cl sl tl cw sw tw obj s1.
        run_loop env a cf gms slw clw (take k [1..steps a]) st0 = Inr stk \<and>
        iteration env a cf gms slw clw (int k + 1) stk = Inr st' \<and>
        run_loop env a cf gms slw clw (take (Suc k) [1..steps a]) st0 = Inr st' \<and>
        x = data (heap (mach stk) (target stk)) \<and>
        (cw, sw, tw) = current_weights (set_weights a (int k + 1) stk) \<and>
        get_features (heap (mach stk)) x (vgg env) = Inr tf \<and>
        content_loss clw tf cf = Inr cl \<and> style_loss slw tf gms = Inr sl \<and>
        tv_loss x = Inr tl \<and>
        trace (mach st') = trace (mach stk) @
          [FeatureExtraction Target,
           LossComputation (int k + 1) (cw, sw, tw) (cl, sl, tl)
             (sadd (sadd (smul cw cl) (smul sw sl)) (smul tw tl)),
           OptimizerStep (int k + 1)] @
          (if (int k + 1) mod show_every a = 0 then [ShowProgress (int k + 1)] else []) \<and>
        obj = objective (vgg env) clw slw cf gms (target stk) cw sw tw \<and>
        s1 = zero_grad (optimizer stk) (heap (mach stk)) \<and>
        obj s1 = Inr (sadd (sadd (smul cw cl) (smul sw sl)) (smul tw tl)) \<and>
        grad (heap (mach st') (target stk)) = Some (autograd env obj s1 (target stk)) \<and>
        data (heap (mach st') (target stk)) =
          fst (adam env (opt_lr (optimizer stk)) (opt_state (optimizer stk) (target stk)) x
                 (autograd env obj s1 (target stk))) \<and>
        (\<forall>c' s' t'. cl = Some c' \<and> sl = Some s' \<and> tl = Some t' \<longrightarrow>
           sadd (sadd (smul cw cl) (smul sw sl)) (smul tw tl)
             = Some (cw * c' + sw * s' + tw * t'))"
    if k: "k < nat (steps a)" for k
  proof -
    from pre obtain stk where
      stk: "run_loop env a cf gms slw clw (take k [1..steps a]) st0 = Inr stk"
      and inv: "loop_inv env (heap m0) [1, 3, h, w] stk"
      by blast
    obtain cw sw tw where wts: "(cw, sw, tw) = current_weights (set_weights a (int k + 1) stk)"
      by (metis prod_cases3)
    define obj where "obj = objective (vgg env) clw slw cf gms (target stk) cw sw tw"
    define s1 where "s1 = zero_grad (optimizer stk) (heap (mach stk))"
    from iteration_losses [OF inv reg hw cfs gs upd assms(5,6,7) wts refl obj_def s1_def]
    obtain st' tf cl sl tl where
      it: "iteration env a cf gms slw clw (int k + 1) stk = Inr st'"
      and rest: "get_features (heap (mach stk)) (data (heap (mach stk) (target stk))) (vgg env)
          = Inr tf"
        "content_loss clw tf cf = Inr cl" "style_loss slw tf gms = Inr sl"
        "tv_loss (data (heap (mach stk) (target stk))) = Inr tl"
        "trace (mach st') = trace (mach stk) @
          [FeatureExtraction Target,
           LossComputation (int k + 1) (cw, sw, tw) (cl, sl, tl)
             (sadd (sadd (smul cw cl) (smul sw sl)) (smul tw tl)),
           OptimizerStep (int k + 1)] @
          (if (int k + 1) mod show_every a = 0 then [ShowProgress (int k + 1)] else [])"
        "obj s1 = Inr (sadd (sadd (smul cw cl) (smul sw sl)) (smul tw tl))"
        "grad (heap (mach st') (target stk)) = Some (autograd env obj s1 (target stk))"
        "data (heap (mach st') (target stk)) =
          fst (adam env (opt_lr (optimizer stk)) (opt_state (optimizer stk) (target stk))
                 (data (heap (mach stk) (target stk)))
                 (autograd env obj s1 (target stk)))"
        "\<forall>c' s' t'. cl = Some c' \<and> sl = Some s' \<and> tl = Some t' \<longrightarrow>
           sadd (sadd (smul cw cl) (smul sw sl)) (smul tw tl)
             = Some (cw * c' + sw * s' + tw * t')"
      by blast
    have nxt: "run_loop env a cf gms slw clw (take (Suc k) [1..steps a]) st0 = Inr st'"
      using stk it by (simp add: take_Suc_upto [OF k] run_loop_append bindE_def)
    show ?thesis
      using stk it nxt wts rest obj_def s1_def by blast
  qed
  show ?thesis
    using loop run w0 each by blast
qed

theorem iteration_total_loss_witness:
  "admissible example_env example_args example_machine example_content example_style 2 2
     (\<lambda>l. (3, 2, 2)) \<and>
   frozen (vgg example_env) (heap example_machine) \<and>
   valid_init (target_init example_args) \<and> 0 \<le> lr example_args \<and>
   show_every example_args \<noteq> 0 \<and>
   (\<exists>cf gms st0 st' cl sl tl.
      iteration example_env example_args cf gms (style_layers_weights 1)
        (content_layers_weights 1) 1 st0 = Inr st' \<and>
      run_loop example_env example_args cf gms (style_layers_weights 1)
        (content_layers_weights 1) [1] st0 = Inr st' \<and>
      trace (mach st') = trace (mach st0) @
        [FeatureExtraction Target,
         LossComputation 1 (15 / 2, 100, 200) (cl, sl, tl)
           (sadd (sadd (smul (15 / 2) cl) (smul 100 sl)) (smul 200 tl)),
         OptimizerStep 1] \<and>
      objective (vgg example_env) (content_layers_weights 1) (style_layers_weights 1) cf gms
          (target st0) (15 / 2) 100 200 (zero_grad (optimizer st0) (heap (mach st0)))
        = Inr (sadd (sadd (smul (15 / 2) cl) (smul 100 sl)) (smul 200 tl)) \<and>
      grad (heap (mach st') (target st0)) =
        Some (autograd example_env
               (objective (vgg example_env) (content_layers_weights 1) (style_layers_weights 1)
                  cf gms (target st0) (15 / 2) 100 200)
               (zero_grad (optimizer st0) (heap (mach st0))) (target st0)))"
proof -
  have ad: "admissible example_env example_args example_machine example_content example_style
      2 2 (\<lambda>l. (3, 2, 2))"
    by (rule example_admissible) (simp_all add: example_args_fields)
  have vi: "valid_init (target_init example_args)"
    by (simp add: valid_init_def example_args_fields)
  have lr: "0 \<le> lr example_args" by (simp add: example_args_fields)
  have sh: "show_every example_args \<noteq> 0" by (simp add: example_args_fields)
  have bl: "content_layers_weights 1 = content_layers_weights (content_weight_blend example_args)"
    "style_layers_weights 1 = style_layers_weights (style_layer_weight_exp example_args)"
    by (simp_all add: example_args_def defaults_def)
  from iteration_total_loss [OF ad example_frozen vi lr sh bl]
  obtain cf gms and st0 :: "unit frame" where
    w0: "current_weights st0 = (content_weight example_args, style_weight example_args,
          tv_weight example_args)"
    and each: "\<forall>k < nat (steps example_args). \<exists>stk st' x tf cl sl tl cw sw tw obj s1.
        run_loop example_env example_args cf gms (style_layers_weights 1)
          (content_layers_weights 1) (take k [1..steps example_args]) st0 = Inr stk \<and>
        iteration example_env example_args cf gms (style_layers_weights 1)
          (content_layers_weights 1) (int k + 1) stk = Inr st' \<and>
        run_loop example_env example_args cf gms (style_layers_weights 1)
          (content_layers_weights 1) (take (Suc k) [1..steps example_args]) st0 = Inr st' \<and>
        x = data (heap (mach stk) (target stk)) \<and>
        (cw, sw, tw) = current_weights (set_weights example_args (int k + 1) stk) \<and>
        get_features (heap (mach stk)) x (vgg example_env) = Inr tf \<and>
        content_loss (content_layers_weights 1) tf cf = Inr cl \<and>
        style_loss (style_layers_weights 1) tf gms = Inr sl \<and>
        tv_loss x = Inr tl \<and>
        trace (mach st') = trace (mach stk) @
          [FeatureExtraction Target,
           LossComputation (int k + 1) (cw, sw, tw) (cl, sl, tl)
             (sadd (sadd (smul cw cl) (smul sw sl)) (smul tw tl)),
           OptimizerStep (int k + 1)] @
          (if (int k + 1) mod show_every example_args = 0
           then [ShowProgress (int k + 1)] else []) \<and>
        obj = objective (vgg example_env) (content_layers_weights 1) (style_layers_weights 1)
                cf gms (target stk) cw sw tw \<and>
        s1 = zero_grad (optimizer stk) (heap (mach stk)) \<and>
        obj s1 = Inr (sadd (sadd (smul cw cl) (smul sw sl)) (smul tw tl)) \<and>
        grad (heap (mach st') (target stk)) = Some (autograd example_env obj s1 (target stk)) \<and>
        data (heap (mach st') (target stk)) =
          fst (adam example_env (opt_lr (optimizer stk)) (opt_state (optimizer stk) (target stk)) x
                 (autograd example_env obj s1 (target stk))) \<and>
        (\<forall>c' s' t'. cl = Some c' \<and> sl = Some s' \<and> tl = Some t' \<longrightarrow>
           sadd (sadd (smul cw cl) (smul sw sl)) (smul tw tl)
             = Some (cw * c' + sw * s' + tw * t'))"
    by blast
  have "0 < nat (steps example_args)" by (simp add: example_args_fields)
  from each [rule_format, OF this] obtain stk st' cl sl tl cw sw tw obj s1 where
    k0: "run_loop example_env example_args cf gms (style_layers_weights 1)
          (content_layers_weights 1) (take 0 [1..steps example_args]) st0 = Inr stk"
      "iteration example_env example_args cf gms (style_layers_weights 1)
          (content_layers_weights 1) (int 0 + 1) stk = Inr st'"
      "run_loop example_env example_args cf gms (style_layers_weights 1)
          (content_layers_weights 1) (take (Suc 0) [1..steps example_args]) st0 = Inr st'"
      "(cw, sw, tw) = current_weights (set_weights example_args (int 0 + 1) stk)"
      "trace (mach st') = trace (mach stk) @
          [FeatureExtraction Target,
           LossComputation (int 0 + 1) (cw, sw, tw) (cl, sl, tl)
             (sadd (sadd (smul cw cl) (smul sw sl)) (smul tw tl)),
           OptimizerStep (int 0 + 1)] @
          (if (int 0 + 1) mod show_every example_args = 0
           then [ShowProgress (int 0 + 1)] else [])"
      and ob: "obj = objective (vgg example_env) (content_layers_weights 1)
                (style_layers_weights 1) cf gms (target stk) cw sw tw"
        "s1 = zero_grad (optimizer stk) (heap (mach stk))"
        "obj s1 = Inr (sadd (sadd (smul cw cl) (smul sw sl)) (smul tw tl))"
        "grad (heap (mach st') (target stk)) = Some (autograd example_env obj s1 (target stk))"
    by blast
  have s0: "stk = st0" using k0(1) by simp
  have w: "cw = 15 / 2" "sw = 100" "tw = 200"
    using k0(4) w0
    by (simp_all add: s0 set_weights_def current_weights_def example_args_fields)
  have t1: "take (Suc 0) [1..steps example_args] = [1]"
    by (simp add: example_args_fields upto.simps)
  have a1: "iteration example_env example_args cf gms (style_layers_weights 1)
        (content_layers_weights 1) 1 st0 = Inr st' \<and>
      run_loop example_env example_args cf gms (style_layers_weights 1)
        (content_layers_weights 1) [1] st0 = Inr st' \<and>
      trace (mach st') = trace (mach st0) @
        [FeatureExtraction Target,
         LossComputation 1 (15 / 2, 100, 200) (cl, sl, tl)
           (sadd (sadd (smul (15 / 2) cl) (smul 100 sl)) (smul 200 tl)),
         OptimizerStep 1]"
    using k0(2,3,5) unfolding w s0 t1 by (simp add: example_args_fields)
  have a2: "objective (vgg example_env) (content_layers_weights 1) (style_layers_weights 1) cf gms
          (target st0) (15 / 2) 100 200 (zero_grad (optimizer st0) (heap (mach st0)))
        = Inr (sadd (sadd (smul (15 / 2) cl) (smul 100 sl)) (smul 200 tl))"
    using ob(3) unfolding ob(1,2) w s0 .
  have a3: "grad (heap (mach st') (target st0)) =
        Some (autograd example_env
               (objective (vgg example_env) (content_layers_weights 1) (style_layers_weights 1)
                  cf gms (target st0) (15 / 2) 100 200)
               (zero_grad (optimizer st0) (heap (mach st0))) (target st0))"
    using ob(4) unfolding ob(1,2) w s0 .
  show ?thesis using ad example_frozen vi lr sh a1 a2 a3 by blast
qed

end
